theory Spec2Isabelle
  imports Complex_Main "HOL-Library.AList"
begin

section \<open>Detection preprocessing: the data model\<close>

text \<open>
  The module \<^verbatim>\<open>detection_preprocessing.py\<close> adapts an image and its annotation bundle
  (\<^verbatim>\<open>image_info\<close>, a Python dict of tensors) to what one detection network expects.

  Numbers: a float32 or float64 of the source is an exact rational here, so rounding
  error, infinities and NaN are outside the model; an integer tensor holds rationals
  that are integers.  Annotation tensors have rank at most two and are kept as nested
  lists, so that a tensor's shape is read off its data.
\<close>

datatype error =
    KeyError string
  | UnboundLocalError string
  | TypeError string
  | IndexError string
  | InvalidArgumentError string
  | CvError string
  | ZeroDivisionError

datatype tensor = T0 rat | T1 "rat list" | T2 "rat list list"

text \<open>A tensor with one more leading dimension, of size 1: what \<^verbatim>\<open>tf.expand_dims(x, axis=0)\<close> returns.\<close>

datatype batched = Batch tensor

datatype dtype = UInt8 | Float32

text \<open>
  An image (or feature map) is a tensor of any rank: its shape, its element type and
  its elements by index.
\<close>

record image =
  im_shape :: "nat list"
  im_dtype :: dtype
  im_px :: "nat list \<Rightarrow> rat"

datatype val =
    VNone
  | VTensor tensor
  | VStr string
  | VStrs "string list"
  | VImage image

type_synonym image_info = "(string \<times> val) list"

subsection \<open>Results and the dict operations\<close>

definition bind :: "error + 'a \<Rightarrow> ('a \<Rightarrow> error + 'b) \<Rightarrow> error + 'b" where
  "bind m f = (case m of Inl e \<Rightarrow> Inl e | Inr x \<Rightarrow> f x)"

text \<open>\<^verbatim>\<open>d[k]\<close>, \<^verbatim>\<open>d.pop(k)\<close>, \<^verbatim>\<open>d[k] = v\<close> and \<^verbatim>\<open>k in d\<close>.  The dict is mutated in place by
  the source; here the updated dict is passed on and returned.\<close>

definition dget :: "string \<Rightarrow> image_info \<Rightarrow> error + val" where
  "dget k d = (case map_of d k of None \<Rightarrow> Inl (KeyError k) | Some v \<Rightarrow> Inr v)"

definition dpop :: "string \<Rightarrow> image_info \<Rightarrow> error + (val \<times> image_info)" where
  "dpop k d = (case map_of d k of None \<Rightarrow> Inl (KeyError k) | Some v \<Rightarrow> Inr (v, AList.delete k d))"

definition dset :: "string \<Rightarrow> val \<Rightarrow> image_info \<Rightarrow> image_info" where
  "dset k v d = AList.update k v d"

definition dhas :: "string \<Rightarrow> image_info \<Rightarrow> bool" where
  "dhas k d = (map_of d k \<noteq> None)"

text \<open>Python truthiness of an optional integer argument and of an optional dict.\<close>

definition truthy :: "int option \<Rightarrow> bool" where
  "truthy h = (case h of None \<Rightarrow> False | Some n \<Rightarrow> n \<noteq> 0)"

definition dict_truthy :: "image_info option \<Rightarrow> bool" where
  "dict_truthy d = (case d of None \<Rightarrow> False | Some kvs \<Rightarrow> kvs \<noteq> [])"

subsection \<open>Tensor operations of the runtime\<close>

definition as_tensor :: "val \<Rightarrow> error + tensor" where
  "as_tensor v = (case v of VTensor t \<Rightarrow> Inr t | _ \<Rightarrow> Inl (TypeError ''not a numeric tensor''))"

text \<open>\<^verbatim>\<open>tf.shape(x)[0]\<close>: a scalar has no dimension 0.\<close>

definition tf_shape_0 :: "tensor \<Rightarrow> error + int" where
  "tf_shape_0 x = (case x of
      T0 a \<Rightarrow> Inl (InvalidArgumentError ''slice index 0 of dimension 0 out of bounds'')
    | T1 xs \<Rightarrow> Inr (int (length xs))
    | T2 rows \<Rightarrow> Inr (int (length rows)))"

definition expand_dims_0 :: "tensor \<Rightarrow> batched" where
  "expand_dims_0 x = Batch x"

text \<open>
  \<^verbatim>\<open>tf.pad(t, [(0, 0), (0, p)], "CONSTANT", constant_values=c)\<close>: the paddings have two
  rows, so the tensor must have rank two (a batch of one vector), and no padding may be
  negative.
\<close>

definition tf_pad :: "batched \<Rightarrow> int \<Rightarrow> rat \<Rightarrow> error + batched" where
  "tf_pad b p c = (case b of
      Batch (T1 xs) \<Rightarrow>
        (if p < 0 then Inl (InvalidArgumentError ''Paddings must be non-negative'')
         else Inr (Batch (T1 (xs @ replicate (nat p) c))))
    | Batch _ \<Rightarrow> Inl (InvalidArgumentError ''paddings must have one row per dimension''))"

text \<open>\<^verbatim>\<open>tf.squeeze\<close> with no axis removes every dimension of size 1.\<close>

definition squeeze_vec :: "rat list \<Rightarrow> tensor" where
  "squeeze_vec xs = (case xs of [a] \<Rightarrow> T0 a | _ \<Rightarrow> T1 xs)"

definition squeeze_tensor :: "tensor \<Rightarrow> tensor" where
  "squeeze_tensor t = (case t of
      T0 a \<Rightarrow> T0 a
    | T1 xs \<Rightarrow> squeeze_vec xs
    | T2 rows \<Rightarrow>
        (case rows of
           [r] \<Rightarrow> squeeze_vec r
         | _ \<Rightarrow> if rows \<noteq> [] \<and> (\<forall>r \<in> set rows. length r = 1) then T1 (map hd rows)
                else T2 rows))"

definition tf_squeeze :: "batched \<Rightarrow> tensor" where
  "tf_squeeze b = (case b of Batch t \<Rightarrow> squeeze_tensor t)"

text \<open>\<^verbatim>\<open>tf.expand_dims(x, axis=1)\<close>: a vector becomes a column; a scalar has no axis 1 to
  insert at.  A matrix would become a rank-3 tensor, which the model does not hold.\<close>

definition expand_dims_1 :: "tensor \<Rightarrow> error + tensor" where
  "expand_dims_1 x = (case x of
      T0 a \<Rightarrow> Inl (InvalidArgumentError ''dim 1 not in the interval [-1, 0]'')
    | T1 xs \<Rightarrow> Inr (T2 (map (\<lambda>a. [a]) xs))
    | T2 rows \<Rightarrow> Inl (InvalidArgumentError ''rank 3 is not modelled''))"

subsection \<open>The padding of annotation tensors\<close>

definition MAX_PADDING_LENGTH :: int where
  "MAX_PADDING_LENGTH = 100"

definition pad_tensor :: "tensor \<Rightarrow> int \<Rightarrow> error + tensor" where
  "pad_tensor x max_tensor_padding =
     bind (tf_shape_0 x) (\<lambda>n.
     bind (tf_pad (expand_dims_0 x) (max_tensor_padding - n) (- 1)) (\<lambda>padded.
     Inr (tf_squeeze padded)))"

subsection \<open>Elementwise arithmetic\<close>

text \<open>
  A scalar broadcasts against any tensor and two tensors of the same shape combine
  elementwise; a vector of length one broadcasts against a vector.  The other
  broadcasts of the runtime (a vector against a matrix, a column against a row) do not
  occur on the annotation path and are errors of the model.
\<close>

definition tmap :: "(rat \<Rightarrow> rat) \<Rightarrow> tensor \<Rightarrow> tensor" where
  "tmap f t = (case t of
      T0 a \<Rightarrow> T0 (f a)
    | T1 xs \<Rightarrow> T1 (map f xs)
    | T2 rows \<Rightarrow> T2 (map (map f) rows))"

definition tbin :: "(rat \<Rightarrow> rat \<Rightarrow> rat) \<Rightarrow> tensor \<Rightarrow> tensor \<Rightarrow> error + tensor" where
  "tbin f a b = (case (a, b) of
      (T0 x, _) \<Rightarrow> Inr (tmap (\<lambda>y. f x y) b)
    | (_, T0 y) \<Rightarrow> Inr (tmap (\<lambda>x. f x y) a)
    | (T1 xs, T1 ys) \<Rightarrow>
        (if length xs = length ys then Inr (T1 (map2 f xs ys))
         else if length ys = 1 then Inr (T1 (map (\<lambda>x. f x (hd ys)) xs))
         else if length xs = 1 then Inr (T1 (map (\<lambda>y. f (hd xs) y) ys))
         else Inl (InvalidArgumentError ''Incompatible shapes''))
    | (T2 xss, T2 yss) \<Rightarrow>
        (if map length xss = map length yss then Inr (T2 (map2 (map2 f) xss yss))
         else Inl (InvalidArgumentError ''Incompatible shapes''))
    | _ \<Rightarrow> Inl (InvalidArgumentError ''Incompatible shapes''))"

text \<open>\<^verbatim>\<open>tf.cast(x, tf.float32)\<close> keeps the values, \<^verbatim>\<open>tf.cast(x, tf.int32)\<close> truncates towards
  zero; \<^verbatim>\<open>None\<close> and strings are not numbers.\<close>

definition tf_trunc :: "rat \<Rightarrow> int" where
  "tf_trunc x = (if 0 \<le> x then \<lfloor>x\<rfloor> else \<lceil>x\<rceil>)"

definition tf_cast_float32 :: "val \<Rightarrow> error + tensor" where
  "tf_cast_float32 v = as_tensor v"

definition tf_cast_int32 :: "val \<Rightarrow> error + tensor" where
  "tf_cast_int32 v = bind (as_tensor v) (\<lambda>t. Inr (tmap (\<lambda>x. of_int (tf_trunc x)) t))"

text \<open>\<^verbatim>\<open>tf.clip_by_value(t, lo, hi)\<close> is \<^verbatim>\<open>maximum(minimum(t, hi), lo)\<close>.\<close>

definition tf_clip_by_value :: "tensor \<Rightarrow> rat \<Rightarrow> rat \<Rightarrow> tensor" where
  "tf_clip_by_value t lo hi = tmap (\<lambda>x. max (min x hi) lo) t"

text \<open>\<^verbatim>\<open>tf.concat(ts, axis=1)\<close>: every part has an axis 1 and the same number of rows.\<close>

definition rows_of :: "tensor \<Rightarrow> error + rat list list" where
  "rows_of t = (case t of
      T2 rows \<Rightarrow> Inr rows
    | _ \<Rightarrow> Inl (InvalidArgumentError ''concat dim 1 out of range''))"

definition tf_concat_1 :: "tensor \<Rightarrow> tensor \<Rightarrow> tensor \<Rightarrow> tensor \<Rightarrow> error + tensor" where
  "tf_concat_1 a b c d =
     bind (rows_of a) (\<lambda>ra.
     bind (rows_of b) (\<lambda>rb.
     bind (rows_of c) (\<lambda>rc.
     bind (rows_of d) (\<lambda>rd.
     if length rb = length ra \<and> length rc = length ra \<and> length rd = length ra
     then Inr (T2 (map2 (@) ra (map2 (@) rb (map2 (@) rc rd))))
     else Inl (InvalidArgumentError ''Dimension 0 in both shapes must be equal'')))))"

text \<open>The value of a Python integer argument, or \<^verbatim>\<open>None\<close>, once stored in the dict.\<close>

definition py_int :: "int \<Rightarrow> val" where
  "py_int n = VTensor (T0 (of_int n))"

definition py_opt_int :: "int option \<Rightarrow> val" where
  "py_opt_int h = (case h of None \<Rightarrow> VNone | Some n \<Rightarrow> py_int n)"

definition nat_val :: "nat \<Rightarrow> val" where
  "nat_val n = VTensor (T0 (of_nat n))"

text \<open>\<^verbatim>\<open>image_info[k] = v\<close> when \<^verbatim>\<open>image_info\<close> may be \<^verbatim>\<open>None\<close>.\<close>

definition dset_opt :: "string \<Rightarrow> val \<Rightarrow> image_info option \<Rightarrow> error + image_info" where
  "dset_opt k v info = (case info of
      None \<Rightarrow> Inl (TypeError ''NoneType object does not support item assignment'')
    | Some d \<Rightarrow> Inr (dset k v d))"

subsection \<open>Image operations of the runtime\<close>

text \<open>
  The resize kernels of TensorFlow and OpenCV are not part of this module: the values
  they compute are a parameter of the model, the shapes, element types and failures of
  the calls are written out.  The flag of the TensorFlow kernels is \<^verbatim>\<open>align_corners\<close>.
\<close>

datatype kernel =
    Bilinear bool
  | Bicubic bool
  | Area bool
  | ResizeWithPad
  | CvInterArea

record runtime =
  kernel_px :: "kernel \<Rightarrow> image \<Rightarrow> nat \<Rightarrow> nat \<Rightarrow> nat list \<Rightarrow> rat"
  cast_uint8_px :: "rat \<Rightarrow> rat"
  roi_align :: "image \<Rightarrow> val \<Rightarrow> error + image"

definition tf_cast_image :: "runtime \<Rightarrow> dtype \<Rightarrow> image \<Rightarrow> image" where
  "tf_cast_image rt dt img = (case dt of
      Float32 \<Rightarrow> img\<lparr>im_dtype := Float32\<rparr>
    | UInt8 \<Rightarrow>
        (if im_dtype img = UInt8 then img
         else img\<lparr>im_dtype := UInt8, im_px := (\<lambda>idx. cast_uint8_px rt (im_px img idx))\<rparr>))"

text \<open>\<^verbatim>\<open>tf.shape(image)[i]\<close>.\<close>

definition image_dim :: "image \<Rightarrow> nat \<Rightarrow> error + nat" where
  "image_dim img i =
     (if i < length (im_shape img) then Inr (im_shape img ! i)
      else Inl (InvalidArgumentError ''slice index out of bounds''))"

definition image_expand_dims_0 :: "image \<Rightarrow> image" where
  "image_expand_dims_0 img = img\<lparr>im_shape := 1 # im_shape img, im_px := (\<lambda>idx. im_px img (tl idx))\<rparr>"

text \<open>\<^verbatim>\<open>tf.squeeze(image, [0])\<close> needs a leading dimension of size 1.\<close>

definition image_squeeze_0 :: "image \<Rightarrow> error + image" where
  "image_squeeze_0 img = (case im_shape img of
      [] \<Rightarrow> Inl (InvalidArgumentError ''squeeze dimension 0 out of range'')
    | n # rest \<Rightarrow>
        (if n = 1 then Inr (img\<lparr>im_shape := rest, im_px := (\<lambda>idx. im_px img (0 # idx))\<rparr>)
         else Inl (InvalidArgumentError ''Can not squeeze dim[0], expected a dimension of 1'')))"

fun unsqueeze_index :: "nat list \<Rightarrow> nat list \<Rightarrow> nat list" where
  "unsqueeze_index [] idx = []"
| "unsqueeze_index (n # shape) idx =
     (if n = 1 then 0 # unsqueeze_index shape idx
      else (case idx of [] \<Rightarrow> [] | i # rest \<Rightarrow> i # unsqueeze_index shape rest))"

definition image_squeeze :: "image \<Rightarrow> image" where
  "image_squeeze img =
     img\<lparr>im_shape := filter (\<lambda>n. n \<noteq> 1) (im_shape img),
         im_px := (\<lambda>idx. im_px img (unsqueeze_index (im_shape img) idx))\<rparr>"

text \<open>
  \<^verbatim>\<open>tf.compat.v1.image.resize_bilinear\<close>, \<^verbatim>\<open>resize_bicubic\<close> and \<^verbatim>\<open>resize_area\<close> take a batch
  \<^verbatim>\<open>[b, h, w, c]\<close> of non-empty images and a positive size, and return float32.
\<close>

definition tf_resize :: "runtime \<Rightarrow> kernel \<Rightarrow> image \<Rightarrow> int \<Rightarrow> int \<Rightarrow> error + image" where
  "tf_resize rt k images height width = (case im_shape images of
      [b, h, w, c] \<Rightarrow>
        (if height \<le> 0 \<or> width \<le> 0
         then Inl (InvalidArgumentError ''output dimensions must be positive'')
         else if h = 0 \<or> w = 0
         then Inl (InvalidArgumentError ''input image must be of non-zero size'')
         else if c = 0
         then Inl (InvalidArgumentError ''image must have at least one channel'')
         else Inr \<lparr>im_shape = [b, nat height, nat width, c], im_dtype = Float32,
                   im_px = kernel_px rt k images (nat height) (nat width)\<rparr>)
    | _ \<Rightarrow> Inl (InvalidArgumentError ''input must be 4-dimensional''))"

text \<open>\<^verbatim>\<open>tf.compat.v1.image.resize_image_with_pad\<close> takes one image \<^verbatim>\<open>[h, w, c]\<close> or a batch.\<close>

definition resize_image_with_pad :: "runtime \<Rightarrow> image \<Rightarrow> int \<Rightarrow> int \<Rightarrow> error + image" where
  "resize_image_with_pad rt img height width =
     (if length (im_shape img) \<noteq> 3 \<and> length (im_shape img) \<noteq> 4
      then Inl (InvalidArgumentError ''image must have either 3 or 4 dimensions'')
      else if 0 \<in> set (im_shape img)
      then Inl (InvalidArgumentError ''all dims of image.shape must be > 0'')
      else if height \<le> 0 \<or> width \<le> 0
      then Inl (InvalidArgumentError ''target_height and target_width must be > 0'')
      else Inr \<lparr>im_shape =
                  (case im_shape img of
                     [h, w, c] \<Rightarrow> [nat height, nat width, c]
                   | [b, h, w, c] \<Rightarrow> [b, nat height, nat width, c]
                   | _ \<Rightarrow> []),
                im_dtype = Float32,
                im_px = kernel_px rt ResizeWithPad img (nat height) (nat width)\<rparr>)"

text \<open>\<^verbatim>\<open>tf.pad(images, [[0, 0], [0, ph], [0, pw], [0, 0]], constant_values=0)\<close> on a batch.\<close>

definition tf_pad_image :: "image \<Rightarrow> int \<Rightarrow> int \<Rightarrow> error + image" where
  "tf_pad_image images ph pw = (case im_shape images of
      [b, h, w, c] \<Rightarrow>
        (if ph < 0 \<or> pw < 0 then Inl (InvalidArgumentError ''Paddings must be non-negative'')
         else Inr (images\<lparr>im_shape := [b, h + nat ph, w + nat pw, c],
                          im_px := (\<lambda>idx. if idx ! 1 < h \<and> idx ! 2 < w then im_px images idx else 0)\<rparr>))
    | _ \<Rightarrow> Inl (InvalidArgumentError ''paddings must have one row per dimension''))"

definition image_map :: "(rat \<Rightarrow> rat) \<Rightarrow> image \<Rightarrow> image" where
  "image_map f img = img\<lparr>im_px := (\<lambda>idx. f (im_px img idx))\<rparr>"

text \<open>\<^verbatim>\<open>tf.image.convert_image_dtype(image, tf.float32)\<close> of a uint8 image divides by 255.\<close>

definition convert_image_dtype_float32 :: "image \<Rightarrow> image" where
  "convert_image_dtype_float32 img =
     (if im_dtype img = Float32 then img
      else (image_map (\<lambda>x. x / 255) img)\<lparr>im_dtype := Float32\<rparr>)"

text \<open>The index set of an image: the pixels a claim about "every pixel" ranges over.\<close>

definition valid_index :: "image \<Rightarrow> nat list \<Rightarrow> bool" where
  "valid_index img idx = (length idx = length (im_shape img) \<and> list_all2 (<) idx (im_shape img))"

section \<open>The preprocessing functions\<close>

subsection \<open>Shared helpers\<close>

text \<open>The composite \<^verbatim>\<open>tf.expand_dims(_pad_tensor(t, m), axis=1)\<close>, written out again and
  again in the source.\<close>

definition padded_column :: "tensor \<Rightarrow> int \<Rightarrow> error + tensor" where
  "padded_column t m = bind (pad_tensor t m) expand_dims_1"

text \<open>\<^verbatim>\<open>v * s\<close> for a dict value \<^verbatim>\<open>v\<close>.\<close>

definition mul_val :: "val \<Rightarrow> tensor \<Rightarrow> error + tensor" where
  "mul_val v s = bind (as_tensor v) (\<lambda>t. tbin (*) t s)"

text \<open>
  One box column where the source pops the entry itself:
  \<^verbatim>\<open>tf.expand_dims(_pad_tensor(image_info.pop(k) * \<dots>, max_tensor_padding=m), axis=1)\<close>.  The
  product is the parameter \<open>scaled\<close>; it is evaluated after the pop and may read the dict.
\<close>

definition pop_column ::
  "string \<Rightarrow> (image_info \<Rightarrow> val \<Rightarrow> error + tensor) \<Rightarrow> int \<Rightarrow> image_info
     \<Rightarrow> error + (tensor \<times> image_info)" where
  "pop_column k scaled m image_info =
     bind (dpop k image_info) (\<lambda>(v, image_info).
     bind (scaled image_info v) (\<lambda>t.
     bind (padded_column t m) (\<lambda>c.
     Inr (c, image_info))))"

text \<open>\<^verbatim>\<open>if height and width:\<close> with the two integers it guards.\<close>

definition given :: "int option \<Rightarrow> int option \<Rightarrow> (int \<times> int) option" where
  "given height width = (case (height, width) of
      (Some h, Some w) \<Rightarrow> if h \<noteq> 0 \<and> w \<noteq> 0 then Some (h, w) else None
    | _ \<Rightarrow> None)"

text \<open>Reading a local variable that only the \<^verbatim>\<open>if height and width:\<close> branch assigns.\<close>

definition local_var :: "string \<Rightarrow> 'a option \<Rightarrow> error + 'a" where
  "local_var name x = (case x of None \<Rightarrow> Inl (UnboundLocalError name) | Some a \<Rightarrow> Inr a)"

text \<open>A Python integer argument used in arithmetic or handed to the runtime: \<^verbatim>\<open>None\<close> is
  a type error.\<close>

definition py_some :: "int option \<Rightarrow> error + int" where
  "py_some h = (case h of
      None \<Rightarrow> Inl (TypeError ''None where a number is needed'')
    | Some n \<Rightarrow> Inr n)"

definition extract_box_from_image_info ::
  "image_info \<Rightarrow> int \<Rightarrow> bool \<Rightarrow> error + ((tensor \<times> tensor \<times> tensor \<times> tensor) \<times> image_info)" where
  "extract_box_from_image_info image_info max_padding_length is_normalized =
     bind (if is_normalized then bind (dget ''width'' image_info) tf_cast_float32
           else Inr (T0 1)) (\<lambda>horizontal_scale.
     bind (if is_normalized then bind (dget ''height'' image_info) tf_cast_float32
           else Inr (T0 1)) (\<lambda>vertical_scale.
     bind (dpop ''xmin'' image_info) (\<lambda>(v, image_info).
     bind (mul_val v horizontal_scale) (\<lambda>t.
     bind (padded_column t max_padding_length) (\<lambda>xmin.
     bind (dpop ''xmax'' image_info) (\<lambda>(v, image_info).
     bind (mul_val v horizontal_scale) (\<lambda>t.
     bind (padded_column t max_padding_length) (\<lambda>xmax.
     bind (dpop ''ymin'' image_info) (\<lambda>(v, image_info).
     bind (mul_val v vertical_scale) (\<lambda>t.
     bind (padded_column t max_padding_length) (\<lambda>ymin.
     bind (dpop ''ymax'' image_info) (\<lambda>(v, image_info).
     bind (mul_val v vertical_scale) (\<lambda>t.
     bind (padded_column t max_padding_length) (\<lambda>ymax.
     Inr ((xmin, xmax, ymin, ymax), image_info)))))))))))))))"

text \<open>\<^verbatim>\<open>image_info[k] = _pad_tensor(image_info[k], m)\<close>.\<close>

definition pad_entry :: "string \<Rightarrow> int \<Rightarrow> image_info \<Rightarrow> error + image_info" where
  "pad_entry k m image_info =
     bind (dget k image_info) (\<lambda>v.
     bind (as_tensor v) (\<lambda>t.
     bind (pad_tensor t m) (\<lambda>p.
     Inr (dset k (VTensor p) image_info))))"

text \<open>\<^verbatim>\<open>image_info['num_boxes'] = tf.cast(image_info['num_boxes'], tf.int32)\<close>.\<close>

definition cast_num_boxes :: "image_info \<Rightarrow> error + image_info" where
  "cast_num_boxes image_info =
     bind (dget ''num_boxes'' image_info) (\<lambda>v.
     bind (tf_cast_int32 v) (\<lambda>t.
     Inr (dset ''num_boxes'' (VTensor t) image_info)))"

definition cast_image_info_types :: "runtime \<Rightarrow> image_info \<Rightarrow> image \<Rightarrow> int \<Rightarrow> error + image_info" where
  "cast_image_info_types rt image_info img max_padding_length =
     (let image_info = dset ''img_orig'' (VImage (tf_cast_image rt UInt8 img)) image_info in
      bind (if dhas ''num_boxes'' image_info then cast_num_boxes image_info
            else Inr image_info) (\<lambda>image_info.
      bind (if dhas ''category_id'' image_info
            then pad_entry ''category_id'' max_padding_length image_info
            else Inr image_info) (\<lambda>image_info.
      bind (if dhas ''is_crowd'' image_info
            then pad_entry ''is_crowd'' max_padding_length image_info
            else Inr image_info) (\<lambda>image_info.
      Inr image_info))))"

text \<open>\<^verbatim>\<open>image_info['area'] = tf.expand_dims(_pad_tensor(image_info['area'], m), axis=1)\<close>.\<close>

definition pad_area :: "int \<Rightarrow> image_info \<Rightarrow> error + image_info" where
  "pad_area m image_info =
     bind (dget ''area'' image_info) (\<lambda>v.
     bind (as_tensor v) (\<lambda>t.
     bind (padded_column t m) (\<lambda>area.
     Inr (dset ''area'' (VTensor area) image_info))))"

text \<open>
  The three lines every function repeats:
  \<^verbatim>\<open>w = xmax - xmin; h = ymax - ymin; image_info['bbox'] = tf.concat([xmin, ymin, w, h], axis=1)\<close>.
  Where a function assigns \<^verbatim>\<open>height\<close> and \<^verbatim>\<open>width\<close> between the differences and the
  concatenation, the model makes the two assignments first.
\<close>

definition set_bbox ::
  "tensor \<Rightarrow> tensor \<Rightarrow> tensor \<Rightarrow> tensor \<Rightarrow> image_info \<Rightarrow> error + image_info" where
  "set_bbox xmin xmax ymin ymax image_info =
     bind (tbin (-) xmax xmin) (\<lambda>w.
     bind (tbin (-) ymax ymin) (\<lambda>h.
     bind (tf_concat_1 xmin ymin w h) (\<lambda>bbox.
     Inr (dset ''bbox'' (VTensor bbox) image_info))))"

text \<open>The batch round trip \<^verbatim>\<open>expand_dims(image, 0)\<close>, resize, \<^verbatim>\<open>squeeze(image, [0])\<close>.\<close>

definition resize_single :: "runtime \<Rightarrow> kernel \<Rightarrow> image \<Rightarrow> int \<Rightarrow> int \<Rightarrow> error + image" where
  "resize_single rt k img height width =
     bind (tf_resize rt k (image_expand_dims_0 img) height width) image_squeeze_0"

subsection \<open>centernet\_resnet\_v1\_18\_detection\<close>

definition less_as_float :: "rat \<Rightarrow> rat \<Rightarrow> rat" where
  "less_as_float a b = (if a < b then 1 else 0)"

text \<open>
  Lines 54 to 64: from the size \<open>h\<close>, \<open>w\<close> of the bundle and the target \<open>height\<close>, \<open>width\<close>
  to \<^verbatim>\<open>im_resize_ratio\<close>, \<^verbatim>\<open>w_padding\<close> and \<^verbatim>\<open>h_padding\<close>.
\<close>

definition centernet_padding ::
  "tensor \<Rightarrow> tensor \<Rightarrow> int \<Rightarrow> int \<Rightarrow> error + (tensor \<times> tensor \<times> tensor)" where
  "centernet_padding h w height width =
     (let H = T0 (of_int height); W = T0 (of_int width) in
      bind (tbin (/) H h) (\<lambda>H_ratio.
      bind (tbin (/) W w) (\<lambda>W_ratio.
      bind (tbin min H_ratio W_ratio) (\<lambda>im_resize_ratio.
      bind (tbin less_as_float H_ratio W_ratio) (\<lambda>is_w_padded.
      bind (tbin less_as_float W_ratio H_ratio) (\<lambda>is_h_padded.
      bind (tbin (*) w im_resize_ratio) (\<lambda>w_scaled.
      bind (tbin (-) W w_scaled) (\<lambda>w_rest.
      bind (tbin (*) (tmap (\<lambda>p. (1 / 2) * p) is_w_padded) (tmap abs w_rest)) (\<lambda>w_half.
      bind (tbin (*) h im_resize_ratio) (\<lambda>h_scaled.
      bind (tbin (-) H h_scaled) (\<lambda>h_rest.
      bind (tbin (*) (tmap (\<lambda>p. (1 / 2) * p) is_h_padded) (tmap abs h_rest)) (\<lambda>h_half.
      Inr (im_resize_ratio, tmap (\<lambda>x. of_int \<lfloor>x\<rfloor>) w_half,
           tmap (\<lambda>x. of_int \<lfloor>x\<rfloor>) h_half)))))))))))))"

text \<open>
  One coordinate through lines 68 to 76:
  \<^verbatim>\<open>x = x * im_resize_ratio + padding\<close>, then \<^verbatim>\<open>x = tf.clip_by_value(x, 0, limit - 1)\<close>.
\<close>

definition shift_and_clip :: "tensor \<Rightarrow> tensor \<Rightarrow> tensor \<Rightarrow> int \<Rightarrow> error + tensor" where
  "shift_and_clip x im_resize_ratio padding limit =
     bind (tbin (*) x im_resize_ratio) (\<lambda>t.
     bind (tbin (+) t padding) (\<lambda>x.
     Inr (tf_clip_by_value x 0 (of_int (limit - 1)))))"

definition centernet_resnet_v1_18_detection ::
  "runtime \<Rightarrow> image \<Rightarrow> image_info option \<Rightarrow> int option \<Rightarrow> int option \<Rightarrow> int
     \<Rightarrow> error + (image \<times> image_info option)" where
  "centernet_resnet_v1_18_detection rt img image_info height width max_pad =
     bind (dset_opt ''img_orig'' (VImage img) image_info) (\<lambda>image_info.
     bind (case given height width of
             Some (h, w) \<Rightarrow> resize_image_with_pad rt (tf_cast_image rt Float32 img) h w
           | None \<Rightarrow> Inr (tf_cast_image rt Float32 img)) (\<lambda>img.
     if image_info \<noteq> [] \<and> dhas ''num_boxes'' image_info then
       bind (cast_image_info_types rt image_info img MAX_PADDING_LENGTH) (\<lambda>image_info.
       bind (bind (dget ''height'' image_info) tf_cast_float32) (\<lambda>h.
       bind (bind (dget ''width'' image_info) tf_cast_float32) (\<lambda>w.
       bind (py_some height) (\<lambda>height.
       bind (py_some width) (\<lambda>width.
       bind (centernet_padding h w height width) (\<lambda>(im_resize_ratio, w_padding, h_padding).
       bind (extract_box_from_image_info image_info max_pad True)
         (\<lambda>((xmin, xmax, ymin, ymax), image_info).
       bind (shift_and_clip xmin im_resize_ratio w_padding width) (\<lambda>xmin.
       bind (shift_and_clip xmax im_resize_ratio w_padding width) (\<lambda>xmax.
       bind (shift_and_clip ymin im_resize_ratio h_padding height) (\<lambda>ymin.
       bind (shift_and_clip ymax im_resize_ratio h_padding height) (\<lambda>ymax.
       let image_info = dset ''height'' (py_int height) image_info;
           image_info = dset ''width'' (py_int width) image_info in
       bind (set_bbox xmin xmax ymin ymax image_info) (\<lambda>image_info.
       bind (dget ''area'' image_info) (\<lambda>v.
       bind (mul_val v (tmap (\<lambda>r. r ^ 2) im_resize_ratio)) (\<lambda>t.
       bind (padded_column t max_pad) (\<lambda>area.
       Inr (img, Some (dset ''area'' (VTensor area) image_info)))))))))))))))))
     else Inr (img, Some image_info)))"

subsection \<open>yolo\_v3\<close>

definition image_clip :: "image \<Rightarrow> rat \<Rightarrow> rat \<Rightarrow> image" where
  "image_clip img lo hi = image_map (\<lambda>x. max (min x hi) lo) img"

text \<open>The annotation branch shared, line for line, by \<^verbatim>\<open>yolo_v3\<close>, \<^verbatim>\<open>resnet_v1_18_detection\<close>
  and \<^verbatim>\<open>regnet_detection\<close>; the area is padded to the default length.\<close>

definition annotate_basic :: "runtime \<Rightarrow> image_info \<Rightarrow> image \<Rightarrow> int \<Rightarrow> error + image_info" where
  "annotate_basic rt image_info img max_pad =
     bind (cast_image_info_types rt image_info img MAX_PADDING_LENGTH) (\<lambda>image_info.
     bind (extract_box_from_image_info image_info max_pad True)
       (\<lambda>((xmin, xmax, ymin, ymax), image_info).
     bind (set_bbox xmin xmax ymin ymax image_info) (\<lambda>image_info.
     pad_area MAX_PADDING_LENGTH image_info)))"

definition yolo_v3 ::
  "runtime \<Rightarrow> image \<Rightarrow> image_info option \<Rightarrow> int option \<Rightarrow> int option
     \<Rightarrow> error + (image \<times> image_info option)" where
  "yolo_v3 rt img image_info height width =
     (let img = tf_cast_image rt Float32 img in
      bind (image_dim img 0) (\<lambda>image_height.
      bind (dset_opt ''height'' (nat_val image_height) image_info) (\<lambda>image_info.
      bind (image_dim img 1) (\<lambda>image_width.
      let image_info = dset ''width'' (nat_val image_width) image_info in
      bind (case given height width of
              Some (height, width) \<Rightarrow>
                (let is_enlarge = (int image_height < height \<and> int image_width < width);
                     is_shrink = (height < int image_height \<and> width < int image_width) in
                 bind (if is_enlarge
                       then tf_resize rt (Bicubic True) (image_expand_dims_0 img) height width
                       else if is_shrink
                       then tf_resize rt (Area True) (image_expand_dims_0 img) height width
                       else tf_resize rt (Bilinear True) (image_expand_dims_0 img) height width)
                   (\<lambda>img. image_squeeze_0 (image_clip img 0 255)))
            | None \<Rightarrow> Inr img) (\<lambda>img.
      if image_info \<noteq> [] \<and> dhas ''num_boxes'' image_info then
        bind (annotate_basic rt image_info img MAX_PADDING_LENGTH) (\<lambda>image_info.
        Inr (img, Some image_info))
      else Inr (img, Some image_info))))))"

subsection \<open>letterbox\<close>

text \<open>Python 3's \<^verbatim>\<open>round\<close>: to the nearest integer, a tie to the even one.\<close>

definition py_round :: "rat \<Rightarrow> int" where
  "py_round x =
     (let f = \<lfloor>x\<rfloor>; d = x - of_int f in
      if d < 1 / 2 then f else if 1 / 2 < d then f + 1 else if even f then f else f + 1)"

text \<open>\<^verbatim>\<open>img[:, :, ::-1]\<close> reverses the third axis, which has to exist.\<close>

definition flip_channels :: "image \<Rightarrow> error + image" where
  "flip_channels img = (case im_shape img of
      h # w # c # rest \<Rightarrow>
        Inr (img\<lparr>im_px := (\<lambda>idx. im_px img (idx[2 := c - 1 - idx ! 2]))\<rparr>)
    | _ \<Rightarrow> Inl (IndexError ''too many indices for array''))"

text \<open>
  \<^verbatim>\<open>cv2.resize(img, (new_width, new_height), interpolation=cv2.INTER_AREA)\<close>: OpenCV rejects
  an empty source and an empty target size, and returns a single-channel image without
  its channel axis.
\<close>

definition cv2_resize :: "runtime \<Rightarrow> image \<Rightarrow> int \<Rightarrow> int \<Rightarrow> error + image" where
  "cv2_resize rt img new_width new_height = (case im_shape img of
      [h, w, c] \<Rightarrow>
        (if h = 0 \<or> w = 0 then Inl (CvError ''!ssize.empty()'')
         else if new_width \<le> 0 \<or> new_height \<le> 0 then Inl (CvError ''!dsize.empty()'')
         else Inr \<lparr>im_shape = (if c = 1 then [nat new_height, nat new_width]
                                else [nat new_height, nat new_width, c]),
                   im_dtype = im_dtype img,
                   im_px = kernel_px rt CvInterArea img (nat new_height) (nat new_width)\<rparr>)
    | _ \<Rightarrow> Inl (CvError ''unsupported array''))"

text \<open>\<^verbatim>\<open>cv2.copyMakeBorder(img, top, bottom, left, right, cv2.BORDER_CONSTANT, value=color)\<close>.\<close>

definition cv2_copyMakeBorder ::
  "image \<Rightarrow> int \<Rightarrow> int \<Rightarrow> int \<Rightarrow> int \<Rightarrow> rat list \<Rightarrow> error + image" where
  "cv2_copyMakeBorder img pad_top pad_bottom pad_left pad_right color = (case im_shape img of
      h # w # rest \<Rightarrow>
        (if pad_top < 0 \<or> pad_bottom < 0 \<or> pad_left < 0 \<or> pad_right < 0
         then Inl (CvError ''top >= 0 && bottom >= 0 && left >= 0 && right >= 0'')
         else Inr (img\<lparr>im_shape := (h + nat pad_top + nat pad_bottom) # (w + nat pad_left + nat pad_right) # rest,
                       im_px := (\<lambda>idx.
                         if nat pad_top \<le> idx ! 0 \<and> idx ! 0 < nat pad_top + h \<and>
                            nat pad_left \<le> idx ! 1 \<and> idx ! 1 < nat pad_left + w
                         then im_px img (idx[0 := idx ! 0 - nat pad_top, 1 := idx ! 1 - nat pad_left])
                         else if length idx = 3 \<and> idx ! 2 < length color then color ! (idx ! 2)
                         else 0)\<rparr>))
    | _ \<Rightarrow> Inl (CvError ''unsupported array''))"

definition letterbox ::
  "runtime \<Rightarrow> image \<Rightarrow> int \<Rightarrow> int \<Rightarrow> rat list \<Rightarrow> error + (image \<times> int \<times> int)" where
  "letterbox rt img height width color = (case im_shape img of
      [] \<Rightarrow> Inl (IndexError ''tuple index out of range'')
    | [h0] \<Rightarrow>
        (if h0 = 0 then Inl ZeroDivisionError
         else Inl (IndexError ''tuple index out of range''))
    | h0 # w0 # rest \<Rightarrow>
        (if h0 = 0 \<or> w0 = 0 then Inl ZeroDivisionError
         else
           (let ratio = min (of_int height / of_nat h0) (of_int width / of_nat w0);
                new_width = py_round (of_nat w0 * ratio);
                dw = of_int (width - new_width) / 2;
                new_height = py_round (of_nat h0 * ratio);
                dh = of_int (height - new_height) / 2;
                pad_top = py_round (dh - 1 / 10);
                pad_bottom = py_round (dh + 1 / 10);
                pad_left = py_round (dw - 1 / 10);
                pad_right = py_round (dw + 1 / 10) in
            bind (flip_channels img) (\<lambda>img.
            bind (cv2_resize rt img new_width new_height) (\<lambda>img.
            bind (cv2_copyMakeBorder img pad_top pad_bottom pad_left pad_right color) (\<lambda>img.
            bind (flip_channels img) (\<lambda>img.
            Inr (img, new_width, new_height))))))))"

text \<open>\<^verbatim>\<open>tf.py_func(letterbox, [image, height, width], [tf.uint8, tf.int64, tf.int64])\<close>: the
  first result has to be of type uint8.\<close>

definition py_func_letterbox ::
  "runtime \<Rightarrow> rat list \<Rightarrow> image \<Rightarrow> int \<Rightarrow> int \<Rightarrow> error + (image \<times> int \<times> int)" where
  "py_func_letterbox rt color img height width =
     bind (letterbox rt img height width color) (\<lambda>(img, new_width, new_height).
     if im_dtype img = UInt8 then Inr (img, new_width, new_height)
     else Inl (InvalidArgumentError ''0-th value returned by pyfunc is not uint8''))"

subsection \<open>yolo\_v5\<close>

definition yolo_v5 ::
  "runtime \<Rightarrow> image \<Rightarrow> image_info option \<Rightarrow> int option \<Rightarrow> int option \<Rightarrow> rat list
     \<Rightarrow> error + (image \<times> image_info option)" where
  "yolo_v5 rt img image_info height width color =
     bind (case given height width of
             Some (height, width) \<Rightarrow>
               bind (image_dim img 0) (\<lambda>image_height.
               bind (image_dim img 1) (\<lambda>image_width.
               bind (py_func_letterbox rt color img height width) (\<lambda>(img, new_width, new_height).
               Inr (img, Some (image_height, image_width, new_width, new_height)))))
           | None \<Rightarrow> Inr (img, None)) (\<lambda>(img, locals).
     let img = (if im_dtype img = UInt8 then tf_cast_image rt Float32 img else img) in
     bind (dset_opt ''img_orig'' (VImage (tf_cast_image rt UInt8 img)) image_info) (\<lambda>image_info.
     if image_info \<noteq> [] \<and> dhas ''num_boxes'' image_info then
       bind (cast_image_info_types rt image_info img MAX_PADDING_LENGTH) (\<lambda>image_info.
       bind (extract_box_from_image_info image_info MAX_PADDING_LENGTH True)
         (\<lambda>((xmin, xmax, ymin, ymax), image_info).
       bind (set_bbox xmin xmax ymin ymax image_info) (\<lambda>image_info.
       bind (local_var ''image_height'' locals)
         (\<lambda>(image_height, image_width, new_width, new_height).
       let image_info = dset ''height'' (nat_val image_height) image_info;
           image_info = dset ''width'' (nat_val image_width) image_info in
       bind (pad_area MAX_PADDING_LENGTH image_info) (\<lambda>image_info.
       let image_info = dset ''letterbox_height'' (py_int new_height) image_info;
           image_info = dset ''letterbox_width'' (py_int new_width) image_info in
       bind (py_some width) (\<lambda>width.
       let image_info = dset ''horizontal_pad'' (py_int (width - new_width)) image_info in
       bind (py_some height) (\<lambda>height.
       let image_info = dset ''vertical_pad'' (py_int (height - new_height)) image_info in
       Inr (img, Some image_info))))))))
     else Inr (img, Some image_info)))"

subsection \<open>resnet\_v1\_18\_detection and regnet\_detection\<close>

definition resnet_v1_18_detection ::
  "runtime \<Rightarrow> image \<Rightarrow> image_info option \<Rightarrow> int option \<Rightarrow> int option \<Rightarrow> int
     \<Rightarrow> error + (image \<times> image_info option)" where
  "resnet_v1_18_detection rt img image_info height width max_pad =
     bind (case given height width of
             Some (height, width) \<Rightarrow>
               resize_single rt (Bilinear False) (tf_cast_image rt Float32 img) height width
           | None \<Rightarrow> Inr (tf_cast_image rt Float32 img)) (\<lambda>img.
     case image_info of
       None \<Rightarrow> Inr (img, None)
     | Some d \<Rightarrow>
         if d \<noteq> [] \<and> dhas ''num_boxes'' d then
           bind (annotate_basic rt d img max_pad) (\<lambda>image_info. Inr (img, Some image_info))
         else Inr (img, Some d))"

definition regnet_detection ::
  "runtime \<Rightarrow> image \<Rightarrow> image_info option \<Rightarrow> int option \<Rightarrow> int option \<Rightarrow> int
     \<Rightarrow> error + (image \<times> image_info option)" where
  "regnet_detection rt img image_info height width max_pad =
     bind (case given height width of
             Some (height, width) \<Rightarrow>
               resize_single rt (Bilinear True) (tf_cast_image rt Float32 img) height width
           | None \<Rightarrow> Inr (tf_cast_image rt Float32 img)) (\<lambda>img.
     case image_info of
       None \<Rightarrow> Inr (img, None)
     | Some d \<Rightarrow>
         if d \<noteq> [] \<and> dhas ''num_boxes'' d then
           bind (annotate_basic rt d img max_pad) (\<lambda>image_info. Inr (img, Some image_info))
         else Inr (img, Some d))"

subsection \<open>mobilenet\_ssd\<close>

text \<open>\<^verbatim>\<open>v * tf.cast(image_info[k], tf.float32)\<close>.\<close>

definition by_entry :: "string \<Rightarrow> image_info \<Rightarrow> val \<Rightarrow> error + tensor" where
  "by_entry k image_info v = bind (bind (dget k image_info) tf_cast_float32) (mul_val v)"

definition mobilenet_ssd ::
  "runtime \<Rightarrow> image \<Rightarrow> image_info option \<Rightarrow> int option \<Rightarrow> int option \<Rightarrow> int
     \<Rightarrow> error + (image \<times> image_info option)" where
  "mobilenet_ssd rt img image_info height width max_pad =
     (let img_orig = img;
          img = (if im_dtype img \<noteq> Float32 then convert_image_dtype_float32 img else img) in
      bind (case given height width of
              Some (height, width) \<Rightarrow>
                bind (tf_resize rt (Bilinear False) (image_expand_dims_0 img) height width) (\<lambda>img.
                bind (tf_resize rt (Bilinear False) (image_expand_dims_0 img_orig) height width)
                  (\<lambda>img_orig.
                bind (image_squeeze_0 img) (\<lambda>img.
                Inr (img, img_orig))))
            | None \<Rightarrow> Inr (img, img_orig)) (\<lambda>(img, img_orig).
      let img = image_map (\<lambda>x. x * 255) img in
      case image_info of
        None \<Rightarrow> Inr (img, None)
      | Some d \<Rightarrow>
          if d \<noteq> [] \<and> dhas ''num_boxes'' d then
            bind (image_squeeze_0 img_orig) (\<lambda>squeezed.
            let image_info = dset ''img_orig'' (VImage (tf_cast_image rt UInt8 squeezed)) d in
            bind (cast_num_boxes image_info) (\<lambda>image_info.
            bind (pad_entry ''category_id'' max_pad image_info) (\<lambda>image_info.
            bind (pad_entry ''is_crowd'' max_pad image_info) (\<lambda>image_info.
            bind (pop_column ''xmin'' (by_entry ''width'') max_pad image_info) (\<lambda>(xmin, image_info).
            bind (pop_column ''xmax'' (by_entry ''width'') max_pad image_info) (\<lambda>(xmax, image_info).
            bind (pop_column ''ymin'' (by_entry ''height'') max_pad image_info) (\<lambda>(ymin, image_info).
            bind (pop_column ''ymax'' (by_entry ''height'') max_pad image_info) (\<lambda>(ymax, image_info).
            bind (set_bbox xmin xmax ymin ymax image_info) (\<lambda>image_info.
            bind (pad_area max_pad image_info) (\<lambda>image_info.
            Inr (img, Some image_info)))))))))))
          else Inr (img, Some d)))"

subsection \<open>faster\_rcnn\_stage2\<close>

text \<open>
  \<^verbatim>\<open>tf.repeat(v, repeats=[n], axis=0)\<close>: a scalar is first made a vector of length one, then
  every entry along axis 0 is repeated \<^verbatim>\<open>n\<close> times.  The count is a scalar integer that
  is not negative.
\<close>

definition repeat_count :: "val \<Rightarrow> error + nat" where
  "repeat_count v = (case v of
      VTensor (T0 q) \<Rightarrow>
        (if of_int \<lfloor>q\<rfloor> \<noteq> q then Inl (TypeError ''repeats must be an integer'')
         else if q < 0 then Inl (InvalidArgumentError ''Expected multiples[0] >= 0'')
         else Inr (nat \<lfloor>q\<rfloor>))
    | _ \<Rightarrow> Inl (InvalidArgumentError ''repeats must have rank at most 1''))"

definition repeat_each :: "nat \<Rightarrow> 'a list \<Rightarrow> 'a list" where
  "repeat_each n xs = concat (map (replicate n) xs)"

definition tf_repeat :: "val \<Rightarrow> val \<Rightarrow> error + val" where
  "tf_repeat v repeats =
     bind (repeat_count repeats) (\<lambda>n.
     case v of
       VNone \<Rightarrow> Inl (TypeError ''None values not supported'')
     | VTensor (T0 a) \<Rightarrow> Inr (VTensor (T1 (repeat_each n [a])))
     | VTensor (T1 xs) \<Rightarrow> Inr (VTensor (T1 (repeat_each n xs)))
     | VTensor (T2 rows) \<Rightarrow> Inr (VTensor (T2 (repeat_each n rows)))
     | VStr s \<Rightarrow> Inr (VStrs (repeat_each n [s]))
     | VStrs ss \<Rightarrow> Inr (VStrs (repeat_each n ss))
     | VImage im \<Rightarrow>
         Inr (VImage (case im_shape im of
            [] \<Rightarrow> im\<lparr>im_shape := [n], im_px := (\<lambda>idx. im_px im [])\<rparr>
          | d0 # rest \<Rightarrow>
              im\<lparr>im_shape := (n * d0) # rest,
                 im_px := (\<lambda>idx. im_px im ((hd idx div n) # tl idx))\<rparr>)))"

text \<open>
  \<^verbatim>\<open>ROIAlignWrapper\<close> lives in another module of the repository; what it computes is the
  parameter \<^term>\<open>roi_align\<close>.  \<^verbatim>\<open>tf.py_func(roi_align, \<dots>, [tf.float32])\<close> returns a list
  of one float32 tensor, which \<^verbatim>\<open>tf.squeeze\<close> packs and strips of every dimension of size 1.
\<close>

definition faster_rcnn_stage2 ::
  "runtime \<Rightarrow> image \<Rightarrow> image_info option \<Rightarrow> error + (image \<times> image_info option)" where
  "faster_rcnn_stage2 rt featuremap image_info = (case image_info of
      None \<Rightarrow> Inl (TypeError ''NoneType object is not subscriptable'')
    | Some image_info \<Rightarrow>
        bind (dget ''rpn_proposals'' image_info) (\<lambda>rpn_boxes.
        bind (dpop ''num_rpn_boxes'' image_info) (\<lambda>(num_proposals, image_info).
        bind (dpop ''image_name'' image_info) (\<lambda>(image_name, image_info).
        bind (dpop ''image_id'' image_info) (\<lambda>(image_id, image_info).
        bind (tf_repeat image_name num_proposals) (\<lambda>names.
        let image_info = dset ''image_name'' names image_info in
        bind (tf_repeat image_id num_proposals) (\<lambda>ids.
        let image_info = dset ''image_id'' ids image_info in
        bind (roi_align rt featuremap rpn_boxes) (\<lambda>featuremaps.
        if im_dtype featuremaps \<noteq> Float32
        then Inl (InvalidArgumentError ''0-th value returned by pyfunc is not float32'')
        else Inr (image_squeeze (image_expand_dims_0 featuremaps), Some image_info)))))))))"

subsection \<open>\_ar\_preserving\_resize\_and\_crop and mobilenet\_ssd\_ar\_preserving\<close>

record ar_locals =
  aspect_ratio_factor :: rat
  ar_image :: image
  ar_image_height :: nat
  image_height_float :: rat
  ar_image_width :: nat
  image_width_float :: rat
  ar_new_height :: int
  ar_new_width :: int

definition ar_preserving_resize_and_crop ::
  "runtime \<Rightarrow> int \<Rightarrow> image \<Rightarrow> int \<Rightarrow> error + ar_locals" where
  "ar_preserving_resize_and_crop rt height img width =
     bind (image_dim img 0) (\<lambda>image_height.
     bind (image_dim img 1) (\<lambda>image_width.
     let target_height_float = (of_int height :: rat);
         target_width_float = (of_int width :: rat);
         image_height_f = (of_nat image_height :: rat);
         image_width_f = (of_nat image_width :: rat);
         img_expanded = image_expand_dims_0 img;
         basic_ratio = target_width_float / target_height_float;
         real_ratio = image_width_f / image_height_f;
         factor = (if basic_ratio \<le> real_ratio then target_width_float / image_width_f
                   else target_height_float / image_height_f);
         new_height = tf_trunc (factor * image_height_f);
         new_width = tf_trunc (factor * image_width_f) in
     bind (tf_resize rt (Bilinear False) img_expanded new_height new_width) (\<lambda>image_resized.
     bind (tf_pad_image image_resized (height - new_height) (width - new_width)) (\<lambda>padded_image.
     bind (image_squeeze_0 padded_image) (\<lambda>img.
     Inr \<lparr>aspect_ratio_factor = factor, ar_image = img, ar_image_height = image_height,
          image_height_float = image_height_f, ar_image_width = image_width,
          image_width_float = image_width_f, ar_new_height = new_height,
          ar_new_width = new_width\<rparr>)))))"

text \<open>\<^verbatim>\<open>v * aspect_ratio_factor * image_width_float\<close> (or \<^verbatim>\<open>image_height_float\<close>): both names
  are bound by the resize branch only.\<close>

definition by_factor ::
  "ar_locals option \<Rightarrow> (ar_locals \<Rightarrow> rat) \<Rightarrow> image_info \<Rightarrow> val \<Rightarrow> error + tensor" where
  "by_factor locals size_float image_info v =
     bind (local_var ''aspect_ratio_factor'' locals) (\<lambda>r.
     bind (mul_val v (T0 (aspect_ratio_factor r))) (\<lambda>t.
     tbin (*) t (T0 (size_float r))))"

text \<open>\<^verbatim>\<open>if 'area' in image_info:\<close> pad the area.\<close>

definition pad_area_if_present :: "int \<Rightarrow> image_info \<Rightarrow> error + image_info" where
  "pad_area_if_present max_pad image_info =
     (if dhas ''area'' image_info then pad_area max_pad image_info else Inr image_info)"

definition mobilenet_ssd_ar_preserving ::
  "runtime \<Rightarrow> image \<Rightarrow> image_info option \<Rightarrow> int option \<Rightarrow> int option \<Rightarrow> int
     \<Rightarrow> error + (image \<times> image_info option)" where
  "mobilenet_ssd_ar_preserving rt img image_info height width max_pad =
     bind (case given height width of
             Some (height, width) \<Rightarrow>
               bind (ar_preserving_resize_and_crop rt height img width) (\<lambda>r.
               Inr (ar_image r, Some r))
           | None \<Rightarrow> Inr (img, None)) (\<lambda>(img, locals).
     let img = (if im_dtype img = UInt8 then tf_cast_image rt Float32 img else img) in
     case image_info of
       None \<Rightarrow> Inr (img, None)
     | Some d \<Rightarrow>
         if d \<noteq> [] then
           (let image_info = dset ''img_orig'' (VImage (tf_cast_image rt UInt8 img)) d in
            bind (cast_num_boxes image_info) (\<lambda>image_info.
            bind (pad_entry ''category_id'' max_pad image_info) (\<lambda>image_info.
            bind (pad_entry ''is_crowd'' max_pad image_info) (\<lambda>image_info.
            bind (pop_column ''xmin'' (by_factor locals image_width_float) max_pad image_info)
              (\<lambda>(xmin, image_info).
            bind (pop_column ''xmax'' (by_factor locals image_width_float) max_pad image_info)
              (\<lambda>(xmax, image_info).
            bind (pop_column ''ymin'' (by_factor locals image_height_float) max_pad image_info)
              (\<lambda>(ymin, image_info).
            bind (pop_column ''ymax'' (by_factor locals image_height_float) max_pad image_info)
              (\<lambda>(ymax, image_info).
            let image_info = dset ''height'' (py_opt_int height) image_info;
                image_info = dset ''width'' (py_opt_int width) image_info in
            bind (set_bbox xmin xmax ymin ymax image_info) (\<lambda>image_info.
            bind (pad_area_if_present max_pad image_info) (\<lambda>image_info.
            Inr (img, Some image_info)))))))))))
         else Inr (img, Some d))"

subsection \<open>face\_ssd, retinaface and fair\_mot\<close>

text \<open>The tail the three functions share: the target size, the original size and the pad.\<close>

definition set_geometry ::
  "int option \<Rightarrow> int option \<Rightarrow> (nat \<times> nat \<times> int \<times> int) option \<Rightarrow> image_info
     \<Rightarrow> error + image_info" where
  "set_geometry height width locals image_info =
     (let image_info = dset ''height'' (py_opt_int height) image_info;
          image_info = dset ''width'' (py_opt_int width) image_info in
      bind (local_var ''image_height'' locals)
        (\<lambda>(image_height, image_width, new_height, new_width).
      let image_info = dset ''original_height'' (nat_val image_height) image_info;
          image_info = dset ''original_width'' (nat_val image_width) image_info in
      bind (py_some width) (\<lambda>width.
      let image_info = dset ''horizontal_pad'' (py_int (width - new_width)) image_info in
      bind (py_some height) (\<lambda>height.
      Inr (dset ''vertical_pad'' (py_int (height - new_height)) image_info)))))"

text \<open>The guarded extraction of \<^verbatim>\<open>face_ssd\<close> and \<^verbatim>\<open>retinaface\<close>:
  \<^verbatim>\<open>if 'num_boxes' in image_info.keys() and 'xmin' in image_info:\<close> extract the boxes and set
  \<^verbatim>\<open>bbox\<close>.\<close>

definition boxes_if_present :: "int \<Rightarrow> image_info \<Rightarrow> error + image_info" where
  "boxes_if_present max_pad image_info =
     (if dhas ''num_boxes'' image_info \<and> dhas ''xmin'' image_info
      then bind (extract_box_from_image_info image_info max_pad True)
             (\<lambda>((xmin, xmax, ymin, ymax), image_info).
           set_bbox xmin xmax ymin ymax image_info)
      else Inr image_info)"

definition face_ssd ::
  "runtime \<Rightarrow> image \<Rightarrow> image_info option \<Rightarrow> int option \<Rightarrow> int option \<Rightarrow> int
     \<Rightarrow> error + (image \<times> image_info option)" where
  "face_ssd rt img image_info height width max_pad =
     (let img = (if im_dtype img = UInt8 then tf_cast_image rt Float32 img else img) in
      bind (case given height width of
              Some (height, width) \<Rightarrow>
                bind (image_dim img 0) (\<lambda>image_height.
                bind (image_dim img 1) (\<lambda>image_width.
                bind (resize_single rt (Bilinear False) img height width) (\<lambda>img.
                Inr (img, Some (image_height, image_width, height, width)))))
            | None \<Rightarrow> Inr (img, None)) (\<lambda>(img, locals).
      case image_info of
        None \<Rightarrow> Inr (img, None)
      | Some d \<Rightarrow>
          if d \<noteq> [] then
            bind (cast_image_info_types rt d img max_pad) (\<lambda>image_info.
            bind (boxes_if_present max_pad image_info) (\<lambda>image_info.
            bind (set_geometry height width locals image_info) (\<lambda>image_info.
            Inr (img, Some image_info))))
          else Inr (img, Some d)))"

definition retinaface ::
  "runtime \<Rightarrow> image \<Rightarrow> image_info option \<Rightarrow> int option \<Rightarrow> int option \<Rightarrow> int
     \<Rightarrow> error + (image \<times> image_info option)" where
  "retinaface rt img image_info height width max_pad =
     (let img = (if im_dtype img = UInt8 then tf_cast_image rt Float32 img else img) in
      bind (case given height width of
              Some (height, width) \<Rightarrow>
                bind (ar_preserving_resize_and_crop rt height img width) (\<lambda>r.
                Inr (ar_image r,
                     Some (ar_image_height r, ar_image_width r, ar_new_height r, ar_new_width r)))
            | None \<Rightarrow> Inr (img, None)) (\<lambda>(img, locals).
      case image_info of
        None \<Rightarrow> Inr (img, None)
      | Some d \<Rightarrow>
          if d \<noteq> [] then
            bind (cast_image_info_types rt d img max_pad) (\<lambda>image_info.
            bind (boxes_if_present max_pad image_info) (\<lambda>image_info.
            bind (set_geometry height width locals image_info) (\<lambda>image_info.
            Inr (img, Some image_info))))
          else Inr (img, Some d)))"

definition default_color :: "rat list" where
  "default_color = [255 / 2, 255 / 2, 255 / 2]"

definition fair_mot ::
  "runtime \<Rightarrow> image \<Rightarrow> image_info option \<Rightarrow> int option \<Rightarrow> int option \<Rightarrow> int
     \<Rightarrow> error + (image \<times> image_info option)" where
  "fair_mot rt img image_info height width max_pad =
     bind (case given height width of
             Some (height, width) \<Rightarrow>
               bind (image_dim img 0) (\<lambda>image_height.
               bind (image_dim img 1) (\<lambda>image_width.
               bind (py_func_letterbox rt default_color img height width)
                 (\<lambda>(img, new_width, new_height).
               Inr (img, Some (image_height, image_width, new_height, new_width)))))
           | None \<Rightarrow> Inr (img, None)) (\<lambda>(img, locals).
     let img = (if im_dtype img = UInt8 then tf_cast_image rt Float32 img else img) in
     case image_info of
       None \<Rightarrow> Inr (img, None)
     | Some d \<Rightarrow>
         if d \<noteq> [] then
           bind (cast_image_info_types rt d img max_pad) (\<lambda>image_info.
           bind (extract_box_from_image_info image_info max_pad False)
             (\<lambda>((xmin, xmax, ymin, ymax), image_info).
           bind (set_bbox xmin xmax ymin ymax image_info) (\<lambda>image_info.
           bind (set_geometry height width locals image_info) (\<lambda>image_info.
           bind (pad_entry ''person_id'' max_pad image_info) (\<lambda>image_info.
           bind (pad_entry ''label'' max_pad image_info) (\<lambda>image_info.
           bind (pad_entry ''is_ignore'' max_pad image_info) (\<lambda>image_info.
           Inr (img, Some image_info))))))))
         else Inr (img, Some d))"

section \<open>Vocabulary of the properties\<close>

text \<open>A vector as the column \<^verbatim>\<open>tf.expand_dims(x, axis=1)\<close> makes of it.\<close>

definition column :: "rat list \<Rightarrow> tensor" where
  "column xs = T2 (map (\<lambda>a. [a]) xs)"

text \<open>A vector filled up to length \<open>m\<close> with the sentinel \<open>-1\<close>.\<close>

definition padded :: "rat list \<Rightarrow> int \<Rightarrow> rat list" where
  "padded xs m = xs @ replicate (nat (m - int (length xs))) (- 1)"

text \<open>The layout \<open>[x, y, w, h]\<close>: one row per box, width and height as corner differences.\<close>

definition xywh :: "rat list \<Rightarrow> rat list \<Rightarrow> rat list \<Rightarrow> rat list \<Rightarrow> tensor" where
  "xywh xmin ymin xmax ymax =
     T2 (map (\<lambda>(x0, y0, x1, y1). [x0, y0, x1 - x0, y1 - y0]) (zip xmin (zip ymin (zip xmax ymax))))"

text \<open>The keys \<^verbatim>\<open>_cast_image_info_types\<close> writes and the keys
  \<^verbatim>\<open>_extract_box_from_image_info\<close> pops.\<close>

definition cast_keys :: "string set" where
  "cast_keys = {''img_orig'', ''num_boxes'', ''category_id'', ''is_crowd''}"

definition box_keys :: "string set" where
  "box_keys = {''xmin'', ''xmax'', ''ymin'', ''ymax''}"

definition listed_keys :: "string set" where
  "listed_keys = {''height'', ''width'', ''area'', ''img_orig'', ''num_boxes'', ''category_id'',
                  ''is_crowd''}"

definition boxes_replaced :: "string set \<Rightarrow> image_info \<Rightarrow> image_info \<Rightarrow> bool" where
  "boxes_replaced W d d' \<longleftrightarrow>
     (\<forall>k \<in> box_keys. map_of d' k = None) \<and> map_of d' ''bbox'' \<noteq> None \<and>
     (\<forall>k. k \<notin> box_keys \<union> {''bbox''} \<union> W \<longrightarrow> map_of d' k = map_of d k)"

definition pad_keys :: "string set" where
  "pad_keys = {''height'', ''width'', ''original_height'', ''original_width'', ''horizontal_pad'',
               ''vertical_pad''}"







definition lb_ratio :: "nat \<Rightarrow> nat \<Rightarrow> int \<Rightarrow> int \<Rightarrow> rat" where
  "lb_ratio h0 w0 height width = min (of_int height / of_nat h0) (of_int width / of_nat w0)"

definition lb_new_width :: "nat \<Rightarrow> nat \<Rightarrow> int \<Rightarrow> int \<Rightarrow> int" where
  "lb_new_width h0 w0 height width = py_round (of_nat w0 * lb_ratio h0 w0 height width)"

definition lb_new_height :: "nat \<Rightarrow> nat \<Rightarrow> int \<Rightarrow> int \<Rightarrow> int" where
  "lb_new_height h0 w0 height width = py_round (of_nat h0 * lb_ratio h0 w0 height width)"

definition lb_top :: "nat \<Rightarrow> nat \<Rightarrow> int \<Rightarrow> int \<Rightarrow> int" where
  "lb_top h0 w0 height width =
     py_round (of_int (height - lb_new_height h0 w0 height width) / 2 - 1 / 10)"

definition lb_bottom :: "nat \<Rightarrow> nat \<Rightarrow> int \<Rightarrow> int \<Rightarrow> int" where
  "lb_bottom h0 w0 height width =
     py_round (of_int (height - lb_new_height h0 w0 height width) / 2 + 1 / 10)"

definition lb_left :: "nat \<Rightarrow> nat \<Rightarrow> int \<Rightarrow> int \<Rightarrow> int" where
  "lb_left h0 w0 height width =
     py_round (of_int (width - lb_new_width h0 w0 height width) / 2 - 1 / 10)"

definition lb_right :: "nat \<Rightarrow> nat \<Rightarrow> int \<Rightarrow> int \<Rightarrow> int" where
  "lb_right h0 w0 height width =
     py_round (of_int (width - lb_new_width h0 w0 height width) / 2 + 1 / 10)"

definition ar_factor :: "nat \<Rightarrow> nat \<Rightarrow> int \<Rightarrow> int \<Rightarrow> rat" where
  "ar_factor h0 w0 height width =
     (if of_int width / of_int height \<le> (of_nat w0 :: rat) / of_nat h0 then of_int width / of_nat w0
      else of_int height / of_nat h0)"

definition ar_height :: "nat \<Rightarrow> nat \<Rightarrow> int \<Rightarrow> int \<Rightarrow> int" where
  "ar_height h0 w0 height width = tf_trunc (ar_factor h0 w0 height width * of_nat h0)"

definition ar_width :: "nat \<Rightarrow> nat \<Rightarrow> int \<Rightarrow> int \<Rightarrow> int" where
  "ar_width h0 w0 height width = tf_trunc (ar_factor h0 w0 height width * of_nat w0)"

definition fair_mot_keys :: "string set" where
  "fair_mot_keys = {''person_id'', ''label'', ''is_ignore''}"

definition letterbox_keys :: "string set" where
  "letterbox_keys = {''letterbox_height'', ''letterbox_width'', ''horizontal_pad'', ''vertical_pad''}"

definition gluon_kernel :: "nat \<Rightarrow> nat \<Rightarrow> int \<Rightarrow> int \<Rightarrow> kernel" where
  "gluon_kernel ih iw height width =
     (if int ih < height \<and> int iw < width then Bicubic True
      else if height < int ih \<and> width < int iw then Area True
      else Bilinear True)"

definition boxes_typed ::
  "image_info \<Rightarrow> rat list \<Rightarrow> rat list \<Rightarrow> rat list \<Rightarrow> rat list \<Rightarrow> bool" where
  "boxes_typed d xs0 xs1 ys0 ys1 \<longleftrightarrow>
     map_of d ''xmin'' = Some (VTensor (T1 xs0)) \<and> map_of d ''xmax'' = Some (VTensor (T1 xs1)) \<and>
     map_of d ''ymin'' = Some (VTensor (T1 ys0)) \<and> map_of d ''ymax'' = Some (VTensor (T1 ys1))"

definition size_typed :: "image_info \<Rightarrow> rat \<Rightarrow> rat \<Rightarrow> bool" where
  "size_typed d sh sw \<longleftrightarrow>
     map_of d ''height'' = Some (VTensor (T0 sh)) \<and> map_of d ''width'' = Some (VTensor (T0 sw))"

definition labels_typed :: "image_info \<Rightarrow> int \<Rightarrow> bool" where
  "labels_typed d m \<longleftrightarrow>
     (\<exists>n cs ic. map_of d ''num_boxes'' = Some (VTensor n) \<and>
        map_of d ''category_id'' = Some (VTensor (T1 cs)) \<and> int (length cs) \<le> m \<and>
        map_of d ''is_crowd'' = Some (VTensor (T1 ic)) \<and> int (length ic) \<le> m)"

definition boxes_ok :: "image_info \<Rightarrow> int \<Rightarrow> bool" where
  "boxes_ok d m \<longleftrightarrow>
     (\<exists>xs0 xs1 ys0 ys1. boxes_typed d xs0 xs1 ys0 ys1 \<and> int (length xs0) \<le> m \<and>
        int (length xs1) \<le> m \<and> int (length ys0) \<le> m \<and> int (length ys1) \<le> m \<and> m \<noteq> 1)"

definition sizes_ok :: "image_info \<Rightarrow> bool" where
  "sizes_ok d \<longleftrightarrow> (\<exists>sh sw. size_typed d sh sw)"

definition area_ok :: "image_info \<Rightarrow> int \<Rightarrow> bool" where
  "area_ok d m \<longleftrightarrow>
     (\<exists>as. map_of d ''area'' = Some (VTensor (T1 as)) \<and> int (length as) \<le> m \<and> m \<noteq> 1)"

definition mot_typed :: "image_info \<Rightarrow> int \<Rightarrow> bool" where
  "mot_typed d m \<longleftrightarrow>
     (\<forall>k \<in> fair_mot_keys. \<exists>xs. map_of d k = Some (VTensor (T1 xs)) \<and> int (length xs) \<le> m)"

text \<open>The boxes of a bundle as a function stores them: the corners scaled by \<open>sx\<close> and \<open>sy\<close>, each
  column filled up to \<open>m\<close> rows, in the layout \<open>[x, y, w, h]\<close>.\<close>

definition scaled_boxes ::
  "rat \<Rightarrow> rat \<Rightarrow> int \<Rightarrow> rat list \<Rightarrow> rat list \<Rightarrow> rat list \<Rightarrow> rat list \<Rightarrow> tensor" where
  "scaled_boxes sx sy m xmin xmax ymin ymax =
     xywh (padded (map (\<lambda>x. x * sx) xmin) m) (padded (map (\<lambda>y. y * sy) ymin) m)
          (padded (map (\<lambda>x. x * sx) xmax) m) (padded (map (\<lambda>y. y * sy) ymax) m)"

text \<open>An entry of the bundle a call returned, if the call returned one.\<close>

definition entry_of :: "string \<Rightarrow> error + (image \<times> image_info option) \<Rightarrow> val option" where
  "entry_of k r = (case r of Inr (out, Some d) \<Rightarrow> map_of d k | _ \<Rightarrow> None)"

section \<open>Example inputs\<close>

text \<open>A runtime whose kernels return black pixels, and a stage-1 bundle of two proposals.\<close>

definition rt0 :: runtime where
  "rt0 = \<lparr>kernel_px = (\<lambda>k img h w idx. 0), cast_uint8_px = (\<lambda>x. of_int \<lfloor>x\<rfloor>),
          roi_align = (\<lambda>fm boxes. Inr \<lparr>im_shape = [2, 7, 7, 4], im_dtype = Float32, im_px = (\<lambda>idx. 0)\<rparr>)\<rparr>"

definition fm0 :: image where
  "fm0 = \<lparr>im_shape = [1, 38, 50, 4], im_dtype = Float32, im_px = (\<lambda>idx. 0)\<rparr>"

definition stage1_info :: image_info where
  "stage1_info = [(''rpn_proposals'', VTensor (T2 [[0, 0, 1, 1], [0, 0, 2, 2]])),
                  (''num_rpn_boxes'', VTensor (T0 2)),
                  (''image_name'', VStr ''a.jpg''),
                  (''image_id'', VTensor (T0 7))]"

text \<open>A black \<open>2 \<times> 4\<close> colour image, a very tall one, and the annotation bundle of one box
  that covers the lower middle of the former.\<close>

definition img0 :: image where
  "img0 = \<lparr>im_shape = [2, 4, 3], im_dtype = UInt8, im_px = (\<lambda>idx. 0)\<rparr>"

definition tall_img :: image where
  "tall_img = \<lparr>im_shape = [1000, 1, 3], im_dtype = UInt8, im_px = (\<lambda>idx. 0)\<rparr>"

definition bundle0 :: image_info where
  "bundle0 = [(''height'', VTensor (T0 2)), (''width'', VTensor (T0 4)),
              (''num_boxes'', VTensor (T0 1)),
              (''xmin'', VTensor (T1 [1 / 4])), (''xmax'', VTensor (T1 [3 / 4])),
              (''ymin'', VTensor (T1 [1 / 2])), (''ymax'', VTensor (T1 [1])),
              (''area'', VTensor (T1 [1])),
              (''category_id'', VTensor (T1 [1])), (''is_crowd'', VTensor (T1 [0])),
              (''person_id'', VTensor (T1 [7])), (''label'', VTensor (T1 [1])),
              (''is_ignore'', VTensor (T1 [0])),
              (''image_id'', VTensor (T0 7))]"

section \<open>Facts about the helpers\<close>

lemma bind_Inr [simp]: "bind (Inr x) f = f x"
  by (simp add: bind_def)

lemma bind_Inl [simp]: "bind (Inl e) f = Inl e"
  by (simp add: bind_def)

lemma bind_eq_Inr: "bind m f = Inr y \<longleftrightarrow> (\<exists>x. m = Inr x \<and> f x = Inr y)"
  by (cases m) simp_all

lemma squeeze_vec_eq: "squeeze_vec xs = (if length xs = 1 then T0 (hd xs) else T1 xs)"
  by (cases xs; cases "tl xs") (auto simp: squeeze_vec_def split: list.splits)

lemma pad_tensor_T1:
  "pad_tensor (T1 xs) m =
     (if m < int (length xs) then Inl (InvalidArgumentError ''Paddings must be non-negative'')
      else if m = 1 then Inr (T0 (hd (xs @ [- 1])))
      else Inr (T1 (xs @ replicate (nat (m - int (length xs))) (- 1))))"
proof -
  have len: "length (xs @ replicate (nat (m - int (length xs))) (- 1 :: rat)) = nat m"
    if "\<not> m < int (length xs)"
    using that by simp
  have one: "xs @ replicate (nat (1 - int (length xs))) (- 1 :: rat) = [hd (xs @ [- 1])]"
    if "\<not> 1 < int (length xs)"
    using that by (cases xs) auto
  show ?thesis
    using len one
    by (auto simp: pad_tensor_def tf_shape_0_def expand_dims_0_def tf_pad_def tf_squeeze_def
        squeeze_tensor_def squeeze_vec_eq)
qed

lemma map_of_dset [simp]: "map_of (dset k v d) = (map_of d)(k \<mapsto> v)"
  by (simp add: dset_def update_conv')

lemma dhas_dset [simp]: "dhas k (dset k' v d) \<longleftrightarrow> k = k' \<or> dhas k d"
  by (auto simp: dhas_def)

lemma dset_nonempty [simp]: "dset k v d \<noteq> []"
  by (cases d) (auto simp: dset_def)

lemma dget_eq_Inr: "dget k d = Inr v \<longleftrightarrow> map_of d k = Some v"
  by (auto simp: dget_def split: option.splits)

lemma dget_Some: "map_of d k = Some v \<Longrightarrow> dget k d = Inr v"
  by (simp add: dget_eq_Inr)

lemma dpop_eq_Inr:
  "dpop k d = Inr (v, d') \<longleftrightarrow> map_of d k = Some v \<and> d' = AList.delete k d"
  by (auto simp: dpop_def split: option.splits)

lemma map_of_delete [simp]: "map_of (AList.delete k d) = (map_of d)(k := None)"
  by (rule delete_conv')

lemma dhas_delete [simp]: "dhas k (AList.delete k' d) \<longleftrightarrow> k \<noteq> k' \<and> dhas k d"
  by (auto simp: dhas_def)

lemma as_tensor_eq_Inr: "as_tensor v = Inr t \<longleftrightarrow> v = VTensor t"
  by (cases v) (auto simp: as_tensor_def)

lemma tbin_T1_T0 [simp]: "tbin f (T1 xs) (T0 s) = Inr (T1 (map (\<lambda>x. f x s) xs))"
  by (simp add: tbin_def tmap_def)

lemma tbin_T0_T0 [simp]: "tbin f (T0 a) (T0 b) = Inr (T0 (f a b))"
  by (simp add: tbin_def tmap_def)

lemma tbin_T2_T0 [simp]: "tbin f (T2 rows) (T0 s) = Inr (T2 (map (map (\<lambda>x. f x s)) rows))"
  by (simp add: tbin_def tmap_def)

lemma length_padded: "int (length xs) \<le> m \<Longrightarrow> length (padded xs m) = nat m"
  by (simp add: padded_def)

lemma padded_column_eq_Inr:
  "padded_column (T1 xs) m = Inr c \<longleftrightarrow> int (length xs) \<le> m \<and> m \<noteq> 1 \<and> c = column (padded xs m)"
  by (auto simp: padded_column_def pad_tensor_T1 expand_dims_1_def column_def padded_def)

lemma padded_column_T0: "padded_column (T0 a) m = Inl (InvalidArgumentError ''slice index 0 of dimension 0 out of bounds'')"
  by (simp add: padded_column_def pad_tensor_def tf_shape_0_def)

lemma padded_column_T2: "\<exists>e. padded_column (T2 a) m = Inl e"
  by (simp add: padded_column_def pad_tensor_def tf_shape_0_def expand_dims_0_def tf_pad_def)

lemma map_length_singletons:
  "map (length \<circ> (\<lambda>a. [a])) xs = map (length \<circ> (\<lambda>a. [a])) ys \<longleftrightarrow> length xs = length ys"
  by (simp add: comp_def map_replicate_const)

lemma map2_singletons:
  "map2 (map2 f) (map (\<lambda>a. [a]) xs) (map (\<lambda>a. [a]) ys) = map (\<lambda>a. [a]) (map2 f xs ys)"
  by (simp add: zip_map_map case_prod_beta comp_def)

lemma tbin_column: "tbin f (column xs) (column ys) =
   (if length xs = length ys then Inr (column (map2 f xs ys))
    else Inl (InvalidArgumentError ''Incompatible shapes''))"
  by (simp add: tbin_def column_def map_length_singletons map2_singletons)

lemma tbin_column_T0 [simp]: "tbin f (column xs) (T0 s) = Inr (column (map (\<lambda>x. f x s) xs))"
  by (simp add: column_def comp_def)

lemma clip_column [simp]: "tf_clip_by_value (column xs) lo hi = column (map (\<lambda>x. max (min x hi) lo) xs)"
  by (simp add: tf_clip_by_value_def tmap_def column_def comp_def)

lemma set_bbox_columns:
  assumes "length xmax = length xmin" "length ymin = length xmin" "length ymax = length xmin"
  shows "set_bbox (column xmin) (column xmax) (column ymin) (column ymax) d =
     Inr (dset ''bbox'' (VTensor (xywh xmin ymin xmax ymax)) d)"
proof -
  have "map2 (@) (map (\<lambda>a. [a]) xmin) (map2 (@) (map (\<lambda>a. [a]) ymin)
          (map2 (@) (map (\<lambda>a. [a]) (map2 (-) xmax xmin)) (map (\<lambda>a. [a]) (map2 (-) ymax ymin))))
        = map (\<lambda>(x0, y0, x1, y1). [x0, y0, x1 - x0, y1 - y0]) (zip xmin (zip ymin (zip xmax ymax)))"
    using assms by (intro nth_equalityI) simp_all
  then show ?thesis
    using assms
    by (simp add: set_bbox_def tbin_column tf_concat_1_def rows_of_def xywh_def)
       (simp add: column_def)
qed


lemma cast_num_boxes_Inr:
  "cast_num_boxes d = Inr d' \<Longrightarrow> \<exists>t. map_of d' = (map_of d)(''num_boxes'' \<mapsto> VTensor t)"
  by (auto simp: cast_num_boxes_def bind_eq_Inr)

lemma pad_entry_Inr:
  "pad_entry k m d = Inr d' \<Longrightarrow>
     \<exists>t p. map_of d k = Some (VTensor t) \<and> pad_tensor t m = Inr p \<and>
           map_of d' = (map_of d)(k \<mapsto> VTensor p)"
  by (auto simp: pad_entry_def bind_eq_Inr dget_eq_Inr as_tensor_eq_Inr)

lemma pad_area_Inr:
  "pad_area m d = Inr d' \<Longrightarrow>
     \<exists>t c. map_of d ''area'' = Some (VTensor t) \<and> padded_column t m = Inr c \<and>
           map_of d' = (map_of d)(''area'' \<mapsto> VTensor c)"
  by (auto simp: pad_area_def bind_eq_Inr dget_eq_Inr as_tensor_eq_Inr)

lemma set_bbox_Inr:
  "set_bbox a b c e d = Inr d' \<Longrightarrow> \<exists>t. map_of d' = (map_of d)(''bbox'' \<mapsto> VTensor t)"
  by (auto simp: set_bbox_def bind_eq_Inr)

lemma cond_cast_num_boxes:
  assumes "(if dhas ''num_boxes'' d then cast_num_boxes d else Inr d) = Inr d'"
  shows "k \<noteq> ''num_boxes'' \<Longrightarrow> map_of d' k = map_of d k" and "dhas k d' = dhas k d"
proof -
  have "d' = d \<or> (dhas ''num_boxes'' d \<and> (\<exists>t. map_of d' = (map_of d)(''num_boxes'' \<mapsto> VTensor t)))"
    using assms cast_num_boxes_Inr [of d d'] by (cases "dhas ''num_boxes'' d") simp_all
  then show "k \<noteq> ''num_boxes'' \<Longrightarrow> map_of d' k = map_of d k" and "dhas k d' = dhas k d"
    by (auto simp: dhas_def split: if_splits)
qed

lemma cond_pad_entry:
  assumes "(if dhas key d then pad_entry key m d else Inr d) = Inr d'"
  shows "k \<noteq> key \<Longrightarrow> map_of d' k = map_of d k" and "dhas k d' = dhas k d"
proof -
  have "d' = d \<or> (dhas key d \<and> (\<exists>p. map_of d' = (map_of d)(key \<mapsto> VTensor p)))"
    using assms pad_entry_Inr [of key m d d'] by (cases "dhas key d") auto
  then show "k \<noteq> key \<Longrightarrow> map_of d' k = map_of d k" and "dhas k d' = dhas k d"
    by (auto simp: dhas_def split: if_splits)
qed

lemma cast_image_info_types_Inr:
  assumes "cast_image_info_types rt d img m = Inr d'"
  shows "k \<notin> cast_keys \<Longrightarrow> map_of d' k = map_of d k"
    and "dhas k d' \<longleftrightarrow> dhas k d \<or> k = ''img_orig''"
    and "map_of d' ''img_orig'' = Some (VImage (tf_cast_image rt UInt8 img))"
proof -
  define d0 where "d0 = dset ''img_orig'' (VImage (tf_cast_image rt UInt8 img)) d"
  obtain d1 d2 where
    s1: "(if dhas ''num_boxes'' d0 then cast_num_boxes d0 else Inr d0) = Inr d1" and
    s2: "(if dhas ''category_id'' d1 then pad_entry ''category_id'' m d1 else Inr d1) = Inr d2" and
    s3: "(if dhas ''is_crowd'' d2 then pad_entry ''is_crowd'' m d2 else Inr d2) = Inr d'"
    using assms unfolding cast_image_info_types_def Let_def d0_def bind_eq_Inr by blast
  note f1 = cond_cast_num_boxes [OF s1] and f2 = cond_pad_entry [OF s2] and f3 = cond_pad_entry [OF s3]
  show "k \<notin> cast_keys \<Longrightarrow> map_of d' k = map_of d k"
    by (simp add: cast_keys_def f1(1) f2(1) f3(1) d0_def)
  show "dhas k d' \<longleftrightarrow> dhas k d \<or> k = ''img_orig''"
    by (auto simp add: f1(2) f2(2) f3(2) d0_def)
  show "map_of d' ''img_orig'' = Some (VImage (tf_cast_image rt UInt8 img))"
    by (simp add: f1(1) f2(1) f3(1) d0_def)
qed

lemma extract_box_frame:
  assumes "extract_box_from_image_info d m nrm = Inr (r, d')"
  shows "map_of d' = (\<lambda>k. if k \<in> box_keys then None else map_of d k)"
  using assms
  by (auto simp: extract_box_from_image_info_def box_keys_def bind_eq_Inr dpop_eq_Inr
      split: if_splits)

lemma mul_val_T1_T0: "mul_val (VTensor (T1 xs)) (T0 s) = Inr (T1 (map (\<lambda>x. x * s) xs))"
  by (simp add: mul_val_def as_tensor_def)

lemma padded_column_T1:
  "padded_column (T1 xs) m =
     (if m < int (length xs) then Inl (InvalidArgumentError ''Paddings must be non-negative'')
      else if m = 1 then Inl (InvalidArgumentError ''dim 1 not in the interval [-1, 0]'')
      else Inr (column (padded xs m)))"
  by (simp add: padded_column_def pad_tensor_T1 expand_dims_1_def column_def padded_def)

lemma dpop_Some: "map_of d k = Some v \<Longrightarrow> dpop k d = Inr (v, AList.delete k d)"
  by (simp add: dpop_def)

lemma extract_box_value:
  assumes "extract_box_from_image_info d m nrm = Inr ((a, b, c, e), d')"
    and "map_of d ''xmin'' = Some (VTensor (T1 xs0))"
    and "map_of d ''xmax'' = Some (VTensor (T1 xs1))"
    and "map_of d ''ymin'' = Some (VTensor (T1 ys0))"
    and "map_of d ''ymax'' = Some (VTensor (T1 ys1))"
    and "nrm \<Longrightarrow> map_of d ''width'' = Some (VTensor (T0 sw))"
    and "nrm \<Longrightarrow> map_of d ''height'' = Some (VTensor (T0 sh))"
    and "\<not> nrm \<Longrightarrow> sw = 1 \<and> sh = 1"
  shows "a = column (padded (map (\<lambda>x. x * sw) xs0) m)"
    and "b = column (padded (map (\<lambda>x. x * sw) xs1) m)"
    and "c = column (padded (map (\<lambda>x. x * sh) ys0) m)"
    and "e = column (padded (map (\<lambda>x. x * sh) ys1) m)"
    and "int (length xs0) \<le> m" and "int (length xs1) \<le> m"
    and "int (length ys0) \<le> m" and "int (length ys1) \<le> m" and "m \<noteq> 1"
proof -
  have scales: "(if nrm then bind (dget ''width'' d) tf_cast_float32 else Inr (T0 1)) = Inr (T0 sw)"
    "(if nrm then bind (dget ''height'' d) tf_cast_float32 else Inr (T0 1)) = Inr (T0 sh)"
    using assms(6-8) by (auto simp: dget_Some tf_cast_float32_def as_tensor_def)
  have "extract_box_from_image_info d m nrm =
      (if m < int (length xs0) then Inl (InvalidArgumentError ''Paddings must be non-negative'')
       else if m = 1 then Inl (InvalidArgumentError ''dim 1 not in the interval [-1, 0]'')
       else if m < int (length xs1) then Inl (InvalidArgumentError ''Paddings must be non-negative'')
       else if m < int (length ys0) then Inl (InvalidArgumentError ''Paddings must be non-negative'')
       else if m < int (length ys1) then Inl (InvalidArgumentError ''Paddings must be non-negative'')
       else Inr ((column (padded (map (\<lambda>x. x * sw) xs0) m), column (padded (map (\<lambda>x. x * sw) xs1) m),
                  column (padded (map (\<lambda>x. x * sh) ys0) m), column (padded (map (\<lambda>x. x * sh) ys1) m)),
                 AList.delete ''ymax'' (AList.delete ''ymin'' (AList.delete ''xmax'' (AList.delete ''xmin'' d)))))"
    unfolding extract_box_from_image_info_def scales
    using assms(2-5)
    by (simp add: dpop_Some mul_val_T1_T0 padded_column_T1)
  with assms(1) show "a = column (padded (map (\<lambda>x. x * sw) xs0) m)"
    and "b = column (padded (map (\<lambda>x. x * sw) xs1) m)"
    and "c = column (padded (map (\<lambda>x. x * sh) ys0) m)"
    and "e = column (padded (map (\<lambda>x. x * sh) ys1) m)"
    and "int (length xs0) \<le> m" and "int (length xs1) \<le> m"
    and "int (length ys0) \<le> m" and "int (length ys1) \<le> m" and "m \<noteq> 1"
    by (simp_all split: if_splits)
qed

lemma repeat_each_single [simp]: "repeat_each n [a] = replicate n a"
  by (simp add: repeat_each_def)

lemma repeat_count_nat [simp]: "repeat_count (VTensor (T0 (of_nat n))) = Inr n"
  by (simp add: repeat_count_def)

lemma annotate_basic_steps:
  assumes "annotate_basic rt d img m = Inr d'"
  obtains d1 a b c e d2 d3 where
    "cast_image_info_types rt d img MAX_PADDING_LENGTH = Inr d1"
    "extract_box_from_image_info d1 m True = Inr ((a, b, c, e), d2)"
    "set_bbox a b c e d2 = Inr d3"
    "pad_area MAX_PADDING_LENGTH d3 = Inr d'"
  using assms by (auto simp: annotate_basic_def bind_eq_Inr split: prod.splits)

lemma annotate_basic_frame:
  assumes "annotate_basic rt d img m = Inr d'"
  shows "k \<in> box_keys \<Longrightarrow> map_of d' k = None"
    and "map_of d' ''bbox'' \<noteq> None"
    and "k \<notin> cast_keys \<union> box_keys \<union> {''bbox'', ''area''} \<Longrightarrow> map_of d' k = map_of d k"
proof -
  from assms obtain d1 a b c e d2 d3 where
    1: "cast_image_info_types rt d img MAX_PADDING_LENGTH = Inr d1" and
    2: "extract_box_from_image_info d1 m True = Inr ((a, b, c, e), d2)" and
    3: "set_bbox a b c e d2 = Inr d3" and
    4: "pad_area MAX_PADDING_LENGTH d3 = Inr d'"
    by (rule annotate_basic_steps)
  from set_bbox_Inr [OF 3] obtain t where t: "map_of d3 = (map_of d2)(''bbox'' \<mapsto> VTensor t)" ..
  from pad_area_Inr [OF 4] obtain u where u: "map_of d' = (map_of d3)(''area'' \<mapsto> VTensor u)"
    by blast
  note f = extract_box_frame [OF 2]
  show "k \<in> box_keys \<Longrightarrow> map_of d' k = None"
    by (auto simp: u t f box_keys_def)
  show "map_of d' ''bbox'' \<noteq> None"
    by (simp add: u t)
  show "k \<notin> cast_keys \<union> box_keys \<union> {''bbox'', ''area''} \<Longrightarrow> map_of d' k = map_of d k"
    using cast_image_info_types_Inr(1) [OF 1, of k] by (simp add: u t f)
qed

lemma box_keys_not_cast:
  "''xmin'' \<notin> cast_keys" "''xmax'' \<notin> cast_keys" "''ymin'' \<notin> cast_keys" "''ymax'' \<notin> cast_keys"
  "''width'' \<notin> cast_keys" "''height'' \<notin> cast_keys" "''area'' \<notin> cast_keys"
  by (simp_all add: cast_keys_def)

lemma length_padded_map: "int (length xs) \<le> m \<Longrightarrow> length (padded (map f xs) m) = nat m"
  by (simp add: padded_def)

text \<open>cast, extract and set_bbox in a row, on a typed bundle\<close>

lemma boxes_to_bbox:
  assumes 1: "cast_image_info_types rt d img m0 = Inr d1"
    and 2: "extract_box_from_image_info d1 m nrm = Inr ((a, b, c, e), d2)"
    and 3: "set_bbox a b c e d2 = Inr d3"
    and t: "map_of d ''xmin'' = Some (VTensor (T1 xs0))"
      "map_of d ''xmax'' = Some (VTensor (T1 xs1))"
      "map_of d ''ymin'' = Some (VTensor (T1 ys0))"
      "map_of d ''ymax'' = Some (VTensor (T1 ys1))"
    and s: "nrm \<Longrightarrow> map_of d ''width'' = Some (VTensor (T0 sw))"
      "nrm \<Longrightarrow> map_of d ''height'' = Some (VTensor (T0 sh))"
      "\<not> nrm \<Longrightarrow> sw = 1 \<and> sh = 1"
  shows "map_of d3 = (map_of d2)(''bbox'' \<mapsto> VTensor (xywh (padded (map (\<lambda>x. x * sw) xs0) m)
            (padded (map (\<lambda>x. x * sh) ys0) m) (padded (map (\<lambda>x. x * sw) xs1) m)
            (padded (map (\<lambda>x. x * sh) ys1) m)))"
proof -
  note c = cast_image_info_types_Inr(1) [OF 1]
  have t1: "map_of d1 ''xmin'' = Some (VTensor (T1 xs0))"
      "map_of d1 ''xmax'' = Some (VTensor (T1 xs1))"
      "map_of d1 ''ymin'' = Some (VTensor (T1 ys0))"
      "map_of d1 ''ymax'' = Some (VTensor (T1 ys1))"
      "nrm \<Longrightarrow> map_of d1 ''width'' = Some (VTensor (T0 sw))"
      "nrm \<Longrightarrow> map_of d1 ''height'' = Some (VTensor (T0 sh))"
    using t s by (simp_all add: c box_keys_not_cast)
  note v = extract_box_value [OF 2 t1 s(3)]
  let ?x0 = "padded (map (\<lambda>x. x * sw) xs0) m" and ?x1 = "padded (map (\<lambda>x. x * sw) xs1) m"
  let ?y0 = "padded (map (\<lambda>x. x * sh) ys0) m" and ?y1 = "padded (map (\<lambda>x. x * sh) ys1) m"
  have "set_bbox (column ?x0) (column ?x1) (column ?y0) (column ?y1) d2 = Inr d3"
    using 3 v(1-4) by simp
  moreover have "set_bbox (column ?x0) (column ?x1) (column ?y0) (column ?y1) d2 =
      Inr (dset ''bbox'' (VTensor (xywh ?x0 ?y0 ?x1 ?y1)) d2)"
    by (rule set_bbox_columns) (simp_all add: length_padded_map v(5-8))
  ultimately have "d3 = dset ''bbox'' (VTensor (xywh ?x0 ?y0 ?x1 ?y1)) d2"
    by simp
  then show ?thesis by simp
qed

lemma annotate_basic_bbox:
  assumes "annotate_basic rt d img m = Inr d'"
    and t: "map_of d ''xmin'' = Some (VTensor (T1 xs0))"
      "map_of d ''xmax'' = Some (VTensor (T1 xs1))"
      "map_of d ''ymin'' = Some (VTensor (T1 ys0))"
      "map_of d ''ymax'' = Some (VTensor (T1 ys1))"
      "map_of d ''width'' = Some (VTensor (T0 sw))"
      "map_of d ''height'' = Some (VTensor (T0 sh))"
  shows "map_of d' ''bbox'' = Some (VTensor (xywh (padded (map (\<lambda>x. x * sw) xs0) m)
            (padded (map (\<lambda>x. x * sh) ys0) m) (padded (map (\<lambda>x. x * sw) xs1) m)
            (padded (map (\<lambda>x. x * sh) ys1) m)))"
proof -
  from assms(1) obtain d1 a b c e d2 d3 where
    1: "cast_image_info_types rt d img MAX_PADDING_LENGTH = Inr d1" and
    2: "extract_box_from_image_info d1 m True = Inr ((a, b, c, e), d2)" and
    3: "set_bbox a b c e d2 = Inr d3" and
    4: "pad_area MAX_PADDING_LENGTH d3 = Inr d'"
    by (rule annotate_basic_steps)
  from pad_area_Inr [OF 4] obtain u where u: "map_of d' = (map_of d3)(''area'' \<mapsto> VTensor u)"
    by blast
  have "map_of d3 = (map_of d2)(''bbox'' \<mapsto> VTensor (xywh (padded (map (\<lambda>x. x * sw) xs0) m)
            (padded (map (\<lambda>x. x * sh) ys0) m) (padded (map (\<lambda>x. x * sw) xs1) m)
            (padded (map (\<lambda>x. x * sh) ys1) m)))"
    by (rule boxes_to_bbox [OF 1 2 3 t(1-4)]) (use t in simp_all)
  then show ?thesis by (simp add: u)
qed

lemma boxes_replaced_mono: "boxes_replaced W d d' \<Longrightarrow> W \<subseteq> W' \<Longrightarrow> boxes_replaced W' d d'"
  unfolding boxes_replaced_def by blast

lemma cast_keys_listed: "cast_keys \<subseteq> listed_keys"
  by (simp add: cast_keys_def listed_keys_def)

lemma annotate_basic_replaced:
  assumes "annotate_basic rt d img m = Inr d'"
  shows "boxes_replaced (cast_keys \<union> {''area''}) d d'"
  unfolding boxes_replaced_def
  using annotate_basic_frame [OF assms] by auto

lemma given_Some: "given height width = Some (h, w) \<longleftrightarrow> height = Some h \<and> width = Some w \<and> h \<noteq> 0 \<and> w \<noteq> 0"
  by (auto simp: given_def split: option.splits)

lemma given_None: "given height width = None \<longleftrightarrow> \<not> (truthy height \<and> truthy width)"
  by (auto simp: given_def truthy_def split: option.splits)

lemma image_dim_cast [simp]: "image_dim (tf_cast_image rt dt img) i = image_dim img i"
  by (cases dt) (simp_all add: image_dim_def tf_cast_image_def)

lemma resnet_steps:
  assumes "resnet_v1_18_detection rt img (Some d) height width m = Inr (out, Some d')"
    and "dhas ''num_boxes'' d"
  shows "annotate_basic rt d out m = Inr d'"
  using assms
  by (cases "d = []") (auto simp: resnet_v1_18_detection_def bind_eq_Inr dhas_def)

lemma regnet_steps:
  assumes "regnet_detection rt img (Some d) height width m = Inr (out, Some d')"
    and "dhas ''num_boxes'' d"
  shows "annotate_basic rt d out m = Inr d'"
  using assms
  by (cases "d = []") (auto simp: regnet_detection_def bind_eq_Inr dhas_def)

lemma yolo_v3_steps:
  assumes "yolo_v3 rt img (Some d) height width = Inr (out, Some d')"
    and "dhas ''num_boxes'' d"
  shows "\<exists>ih iw. image_dim img 0 = Inr ih \<and> image_dim img 1 = Inr iw \<and>
    annotate_basic rt (dset ''width'' (nat_val iw) (dset ''height'' (nat_val ih) d)) out
       MAX_PADDING_LENGTH = Inr d'"
  using assms
  by (auto simp: yolo_v3_def Let_def bind_eq_Inr dset_opt_def)

lemma yolo_v3_replaced:
  assumes "yolo_v3 rt img (Some d) height width = Inr (out, Some d')"
    and "dhas ''num_boxes'' d"
  shows "boxes_replaced listed_keys d d'"
proof -
  from yolo_v3_steps [OF assms] obtain ih iw where
    a: "annotate_basic rt (dset ''width'' (nat_val iw) (dset ''height'' (nat_val ih) d)) out
       MAX_PADDING_LENGTH = Inr d'"
    by blast
  show ?thesis
    using annotate_basic_frame [OF a]
    unfolding boxes_replaced_def by (auto simp: listed_keys_def cast_keys_def)
qed

lemma yolo_v3_bbox:
  assumes "yolo_v3 rt img (Some d) height width = Inr (out, Some d')"
    and "dhas ''num_boxes'' d"
    and t: "map_of d ''xmin'' = Some (VTensor (T1 xs0))"
      "map_of d ''xmax'' = Some (VTensor (T1 xs1))"
      "map_of d ''ymin'' = Some (VTensor (T1 ys0))"
      "map_of d ''ymax'' = Some (VTensor (T1 ys1))"
  shows "\<exists>ih iw. image_dim img 0 = Inr ih \<and> image_dim img 1 = Inr iw \<and>
     map_of d' ''bbox'' = Some (VTensor (xywh
        (padded (map (\<lambda>x. x * of_nat iw) xs0) MAX_PADDING_LENGTH)
        (padded (map (\<lambda>x. x * of_nat ih) ys0) MAX_PADDING_LENGTH)
        (padded (map (\<lambda>x. x * of_nat iw) xs1) MAX_PADDING_LENGTH)
        (padded (map (\<lambda>x. x * of_nat ih) ys1) MAX_PADDING_LENGTH)))"
proof -
  from yolo_v3_steps [OF assms(1,2)] obtain ih iw where
    d: "image_dim img 0 = Inr ih" "image_dim img 1 = Inr iw" and
    a: "annotate_basic rt (dset ''width'' (nat_val iw) (dset ''height'' (nat_val ih) d)) out
       MAX_PADDING_LENGTH = Inr d'"
    by blast
  show ?thesis
    using d annotate_basic_bbox [OF a, of xs0 xs1 ys0 ys1 "of_nat iw" "of_nat ih"] t
    by (simp add: nat_val_def)
qed

lemma set_geometry_None [simp]:
  "set_geometry height width None d = Inl (UnboundLocalError ''image_height'')"
  by (simp add: set_geometry_def local_var_def)

lemma set_geometry_Inr:
  assumes "set_geometry height width locals d = Inr d'"
  shows "\<exists>ih iw nh nw h w. locals = Some (ih, iw, nh, nw) \<and> height = Some h \<and> width = Some w \<and>
     map_of d' = (map_of d)(''height'' \<mapsto> py_int h, ''width'' \<mapsto> py_int w,
        ''original_height'' \<mapsto> nat_val ih, ''original_width'' \<mapsto> nat_val iw,
        ''horizontal_pad'' \<mapsto> py_int (w - nw), ''vertical_pad'' \<mapsto> py_int (h - nh))"
  using assms
  by (cases locals; cases height; cases width)
     (auto simp: set_geometry_def local_var_def py_some_def py_opt_int_def)

lemma boxes_if_present_Inr:
  assumes "boxes_if_present m d = Inr d'"
  shows "dhas ''num_boxes'' d \<and> dhas ''xmin'' d \<Longrightarrow>
           \<exists>a b c e d2. extract_box_from_image_info d m True = Inr ((a, b, c, e), d2) \<and>
              set_bbox a b c e d2 = Inr d'"
    and "\<not> (dhas ''num_boxes'' d \<and> dhas ''xmin'' d) \<Longrightarrow> d' = d"
  using assms by (auto simp: boxes_if_present_def bind_eq_Inr split: if_splits)

lemma face_ssd_steps:
  assumes "face_ssd rt img (Some d) height width m = Inr (out, info')" and "d \<noteq> []"
  shows "\<exists>d1 d2 d' locals. info' = Some d' \<and> (given height width = None \<longrightarrow> locals = None) \<and>
     cast_image_info_types rt d out m = Inr d1 \<and>
     boxes_if_present m d1 = Inr d2 \<and>
     set_geometry height width locals d2 = Inr d'"
  using assms
  by (cases "given height width")
     (auto simp: face_ssd_def Let_def bind_eq_Inr simp del: set_geometry_None)

lemma retinaface_steps:
  assumes "retinaface rt img (Some d) height width m = Inr (out, info')" and "d \<noteq> []"
  shows "\<exists>d1 d2 d' locals. info' = Some d' \<and> (given height width = None \<longrightarrow> locals = None) \<and>
     cast_image_info_types rt d out m = Inr d1 \<and>
     boxes_if_present m d1 = Inr d2 \<and>
     set_geometry height width locals d2 = Inr d'"
  using assms
  by (cases "given height width")
     (auto simp: retinaface_def Let_def bind_eq_Inr simp del: set_geometry_None)

lemma fair_mot_steps:
  assumes "fair_mot rt img (Some d) height width m = Inr (out, info')" and "d \<noteq> []"
  shows "\<exists>d1 a b c e d2 d3 d4 d5 d6 d' locals. info' = Some d' \<and>
     (given height width = None \<longrightarrow> locals = None) \<and>
     cast_image_info_types rt d out m = Inr d1 \<and>
     extract_box_from_image_info d1 m False = Inr ((a, b, c, e), d2) \<and>
     set_bbox a b c e d2 = Inr d3 \<and>
     set_geometry height width locals d3 = Inr d4 \<and>
     pad_entry ''person_id'' m d4 = Inr d5 \<and>
     pad_entry ''label'' m d5 = Inr d6 \<and>
     pad_entry ''is_ignore'' m d6 = Inr d'"
  using assms
  by (cases "given height width")
     (clarsimp simp: fair_mot_def Let_def bind_eq_Inr simp del: set_geometry_None; blast?)+

lemma yolo_v5_steps:
  assumes "yolo_v5 rt img (Some d) height width color = Inr (out, info')"
    and "dhas ''num_boxes'' d"
  shows "\<exists>d1 a b c e d2 d3 d4 d' ih iw nw nh h w lb. info' = Some d' \<and>
     given height width = Some (h, w) \<and>
     image_dim img 0 = Inr ih \<and> image_dim img 1 = Inr iw \<and>
     py_func_letterbox rt color img h w = Inr (lb, nw, nh) \<and>
     cast_image_info_types rt (dset ''img_orig'' (VImage (tf_cast_image rt UInt8 out)) d) out
        MAX_PADDING_LENGTH = Inr d1 \<and>
     extract_box_from_image_info d1 MAX_PADDING_LENGTH True = Inr ((a, b, c, e), d2) \<and>
     set_bbox a b c e d2 = Inr d3 \<and>
     pad_area MAX_PADDING_LENGTH (dset ''width'' (nat_val iw) (dset ''height'' (nat_val ih) d3)) = Inr d4 \<and>
     d' = dset ''vertical_pad'' (py_int (h - nh)) (dset ''horizontal_pad'' (py_int (w - nw))
            (dset ''letterbox_width'' (py_int nw) (dset ''letterbox_height'' (py_int nh) d4)))"
  using assms
  by (cases "given height width")
     (clarsimp simp: yolo_v5_def Let_def bind_eq_Inr dset_opt_def local_var_def py_some_def
        given_Some; blast?)+

lemma set_geometry_frame:
  assumes "set_geometry height width locals d = Inr d'"
  shows "k \<notin> pad_keys \<Longrightarrow> map_of d' k = map_of d k"
  using set_geometry_Inr [OF assms] by (auto simp: pad_keys_def)

lemma boxes_if_present_replaced:
  assumes "boxes_if_present m d = Inr d'" and "dhas ''num_boxes'' d" "dhas ''xmin'' d"
  shows "boxes_replaced {} d d'"
proof -
  from boxes_if_present_Inr(1) [OF assms(1)] assms(2,3) obtain a b c e d2 where
    2: "extract_box_from_image_info d m True = Inr ((a, b, c, e), d2)" and
    3: "set_bbox a b c e d2 = Inr d'"
    by blast
  from set_bbox_Inr [OF 3] obtain t where t: "map_of d' = (map_of d2)(''bbox'' \<mapsto> VTensor t)" ..
  show ?thesis
    unfolding boxes_replaced_def t extract_box_frame [OF 2]
    by (auto simp: box_keys_def)
qed

lemma boxes_replaced_after:
  assumes "boxes_replaced W d1 d2"
    and pre: "\<And>k. k \<notin> W0 \<Longrightarrow> map_of d1 k = map_of d k"
    and post: "\<And>k. k \<notin> W1 \<Longrightarrow> map_of d' k = map_of d2 k"
    and disj: "W1 \<inter> (box_keys \<union> {''bbox''}) = {}"
  shows "boxes_replaced (W0 \<union> W \<union> W1) d d'"
  unfolding boxes_replaced_def
proof (intro conjI ballI allI impI)
  fix k assume k: "k \<in> box_keys"
  then have "k \<notin> W1" using disj by blast
  then show "map_of d' k = None"
    using assms(1) k by (simp add: post boxes_replaced_def)
next
  have "''bbox'' \<notin> W1" using disj by blast
  then show "map_of d' ''bbox'' \<noteq> None"
    using assms(1) by (simp add: post boxes_replaced_def)
next
  fix k assume k: "k \<notin> box_keys \<union> {''bbox''} \<union> (W0 \<union> W \<union> W1)"
  then have "map_of d' k = map_of d2 k" by (simp add: post)
  also have "\<dots> = map_of d1 k" using assms(1) k by (simp add: boxes_replaced_def)
  also have "\<dots> = map_of d k" using k by (simp add: pre)
  finally show "map_of d' k = map_of d k" .
qed

lemma geometry_disjoint: "pad_keys \<inter> (box_keys \<union> {''bbox''}) = {}"
  by (auto simp: pad_keys_def box_keys_def)

lemma face_ssd_replaced:
  assumes "face_ssd rt img (Some d) height width m = Inr (out, Some d')"
    and "dhas ''num_boxes'' d" "dhas ''xmin'' d"
  shows "boxes_replaced (cast_keys \<union> pad_keys) d d'"
proof -
  have "d \<noteq> []" using assms(2) by (auto simp: dhas_def)
  from face_ssd_steps [OF assms(1) this] obtain d1 d2 locals where
    1: "cast_image_info_types rt d out m = Inr d1" and
    2: "boxes_if_present m d1 = Inr d2" and
    3: "set_geometry height width locals d2 = Inr d'"
    by auto
  have "boxes_replaced {} d1 d2"
    using assms(2,3) by (intro boxes_if_present_replaced [OF 2]) (simp_all add: cast_image_info_types_Inr(2) [OF 1])
  then have "boxes_replaced (cast_keys \<union> {} \<union> pad_keys) d d'"
    by (rule boxes_replaced_after [OF _ cast_image_info_types_Inr(1) [OF 1]
          set_geometry_frame [OF 3] geometry_disjoint])
  then show ?thesis by simp
qed

lemma retinaface_replaced:
  assumes "retinaface rt img (Some d) height width m = Inr (out, Some d')"
    and "dhas ''num_boxes'' d" "dhas ''xmin'' d"
  shows "boxes_replaced (cast_keys \<union> pad_keys) d d'"
proof -
  have "d \<noteq> []" using assms(2) by (auto simp: dhas_def)
  from retinaface_steps [OF assms(1) this] obtain d1 d2 locals where
    1: "cast_image_info_types rt d out m = Inr d1" and
    2: "boxes_if_present m d1 = Inr d2" and
    3: "set_geometry height width locals d2 = Inr d'"
    by auto
  have "boxes_replaced {} d1 d2"
    using assms(2,3) by (intro boxes_if_present_replaced [OF 2]) (simp_all add: cast_image_info_types_Inr(2) [OF 1])
  then have "boxes_replaced (cast_keys \<union> {} \<union> pad_keys) d d'"
    by (rule boxes_replaced_after [OF _ cast_image_info_types_Inr(1) [OF 1]
          set_geometry_frame [OF 3] geometry_disjoint])
  then show ?thesis by simp
qed

lemma face_ssd_needs_size:
  assumes "given height width = None" and "d \<noteq> []"
  shows "isl (face_ssd rt img (Some d) height width m)"
proof (cases "face_ssd rt img (Some d) height width m")
  case (Inr r)
  then obtain out info' where "face_ssd rt img (Some d) height width m = Inr (out, info')"
    by (cases r) simp
  from face_ssd_steps [OF this assms(2)] assms(1) show ?thesis by auto
qed simp

lemma retinaface_needs_size:
  assumes "given height width = None" and "d \<noteq> []"
  shows "isl (retinaface rt img (Some d) height width m)"
proof (cases "retinaface rt img (Some d) height width m")
  case (Inr r)
  then obtain out info' where "retinaface rt img (Some d) height width m = Inr (out, info')"
    by (cases r) simp
  from retinaface_steps [OF this assms(2)] assms(1) show ?thesis by auto
qed simp

lemma fair_mot_needs_size:
  assumes "given height width = None" and "d \<noteq> []"
  shows "isl (fair_mot rt img (Some d) height width m)"
proof (cases "fair_mot rt img (Some d) height width m")
  case (Inr r)
  then obtain out info' where "fair_mot rt img (Some d) height width m = Inr (out, info')"
    by (cases r) simp
  from fair_mot_steps [OF this assms(2)] assms(1) show ?thesis by auto
qed simp

lemma yolo_v5_needs_size:
  assumes "given height width = None" and "dhas ''num_boxes'' d"
  shows "isl (yolo_v5 rt img (Some d) height width color)"
proof (cases "yolo_v5 rt img (Some d) height width color")
  case (Inr r)
  then obtain out info' where "yolo_v5 rt img (Some d) height width color = Inr (out, info')"
    by (cases r) simp
  from yolo_v5_steps [OF this assms(2)] assms(1) show ?thesis by auto
qed simp



lemma centernet_steps:
  assumes "centernet_resnet_v1_18_detection rt img (Some d) height width m = Inr (out, info')"
    and "dhas ''num_boxes'' d"
  shows "\<exists>d1 hv wv h w r wp hp a b c e d2 x0 x1 y0 y1 d3 av t area.
     height = Some h \<and> width = Some w \<and>
     (case given height width of
        Some (h', w') \<Rightarrow> resize_image_with_pad rt (tf_cast_image rt Float32 img) h' w'
      | None \<Rightarrow> Inr (tf_cast_image rt Float32 img)) = Inr out \<and>
     cast_image_info_types rt (dset ''img_orig'' (VImage img) d) out MAX_PADDING_LENGTH = Inr d1 \<and>
     map_of d1 ''height'' = Some (VTensor hv) \<and> map_of d1 ''width'' = Some (VTensor wv) \<and>
     centernet_padding hv wv h w = Inr (r, wp, hp) \<and>
     extract_box_from_image_info d1 m True = Inr ((a, b, c, e), d2) \<and>
     shift_and_clip a r wp w = Inr x0 \<and> shift_and_clip b r wp w = Inr x1 \<and>
     shift_and_clip c r hp h = Inr y0 \<and> shift_and_clip e r hp h = Inr y1 \<and>
     set_bbox x0 x1 y0 y1 (dset ''width'' (py_int w) (dset ''height'' (py_int h) d2)) = Inr d3 \<and>
     map_of d3 ''area'' = Some av \<and> mul_val av (tmap (\<lambda>r. r ^ 2) r) = Inr t \<and>
     padded_column t m = Inr area \<and>
     info' = Some (dset ''area'' (VTensor area) d3)"
  using assms
  by (clarsimp simp: centernet_resnet_v1_18_detection_def Let_def bind_eq_Inr dset_opt_def
        py_some_def dget_eq_Inr tf_cast_float32_def as_tensor_eq_Inr split: option.splits; blast?)


lemma centernet_replaced:
  assumes "centernet_resnet_v1_18_detection rt img (Some d) height width m = Inr (out, Some d')"
    and "dhas ''num_boxes'' d"
  shows "boxes_replaced listed_keys d d'"
proof -
  from centernet_steps [OF assms] obtain d1 h w a b c e d2 x0 x1 y0 y1 d3 area where
    1: "cast_image_info_types rt (dset ''img_orig'' (VImage img) d) out MAX_PADDING_LENGTH = Inr d1" and
    2: "extract_box_from_image_info d1 m True = Inr ((a, b, c, e), d2)" and
    3: "set_bbox x0 x1 y0 y1 (dset ''width'' (py_int w) (dset ''height'' (py_int h) d2)) = Inr d3" and
    4: "d' = dset ''area'' (VTensor area) d3"
    by auto
  from set_bbox_Inr [OF 3] obtain t where
    t: "map_of d3 = (map_of (dset ''width'' (py_int w) (dset ''height'' (py_int h) d2)))(''bbox'' \<mapsto> VTensor t)" ..
  note c = cast_image_info_types_Inr(1) [OF 1]
  show ?thesis
    unfolding boxes_replaced_def 4
    by (auto simp: t extract_box_frame [OF 2] c box_keys_def listed_keys_def cast_keys_def)
qed





lemma py_round_low:
  assumes "0 \<le> r" "r < 1 / 2"
  shows "py_round (of_int j + r) = j"
proof -
  have "\<lfloor>of_int j + r\<rfloor> = j" using assms by (intro floor_unique) auto
  then show ?thesis using assms by (simp add: py_round_def Let_def)
qed

lemma py_round_high:
  assumes "1 / 2 < r" "r < 1"
  shows "py_round (of_int j + r) = j + 1"
proof -
  have "\<lfloor>of_int j + r\<rfloor> = j" using assms by (intro floor_unique) auto
  then show ?thesis using assms by (simp add: py_round_def Let_def)
qed

lemma py_round_half_minus: "py_round (of_int k / 2 - 1 / 10) = k div 2"
proof (cases "even k")
  case True
  then obtain j where k: "k = 2 * j" by (elim evenE)
  have "py_round (of_int k / 2 - 1 / 10) = py_round (of_int (j - 1) + 9 / 10)"
    by (simp add: k)
  also have "\<dots> = j - 1 + 1" by (rule py_round_high) simp_all
  finally show ?thesis by (simp add: k)
next
  case False
  then obtain j where k: "k = 2 * j + 1" by (elim oddE)
  have "of_int k / 2 - 1 / 10 = (of_int j + 2 / 5 :: rat)"
    by (simp add: k field_simps)
  then have "py_round (of_int k / 2 - 1 / 10) = py_round (of_int j + 2 / 5)"
    by simp
  also have "\<dots> = j" by (rule py_round_low) simp_all
  finally show ?thesis by (simp add: k)
qed

lemma py_round_half_plus: "py_round (of_int k / 2 + 1 / 10) = (k + 1) div 2"
proof (cases "even k")
  case True
  then obtain j where k: "k = 2 * j" by (elim evenE)
  have "py_round (of_int k / 2 + 1 / 10) = py_round (of_int j + 1 / 10)"
    by (simp add: k)
  also have "\<dots> = j" by (rule py_round_low) simp_all
  finally show ?thesis by (simp add: k)
next
  case False
  then obtain j where k: "k = 2 * j + 1" by (elim oddE)
  have "of_int k / 2 + 1 / 10 = (of_int j + 3 / 5 :: rat)"
    by (simp add: k field_simps)
  then have "py_round (of_int k / 2 + 1 / 10) = py_round (of_int j + 3 / 5)"
    by simp
  also have "\<dots> = j + 1" by (rule py_round_high) simp_all
  finally show ?thesis by (simp add: k)
qed

lemma py_round_bounds: "of_int (py_round x) \<le> x + 1 / 2" "x - 1 / 2 \<le> of_int (py_round x)"
proof -
  have "of_int \<lfloor>x\<rfloor> \<le> x" "x < of_int \<lfloor>x\<rfloor> + 1" by linarith+
  then show "of_int (py_round x) \<le> x + 1 / 2" "x - 1 / 2 \<le> of_int (py_round x)"
    unfolding py_round_def Let_def by (simp_all; linarith)+
qed

lemma py_round_le_int:
  assumes "x \<le> of_int n"
  shows "py_round x \<le> n"
proof -
  have "(of_int (py_round x) :: rat) \<le> of_int n + 1 / 2"
    using py_round_bounds(1) [of x] assms by linarith
  then have "(of_int (py_round x) :: rat) < of_int (n + 1)" by simp
  then have "py_round x < n + 1" by (simp only: of_int_less_iff)
  then show ?thesis by simp
qed

lemma py_round_nonneg:
  assumes "0 \<le> x"
  shows "0 \<le> py_round x"
proof -
  have "(of_int (- 1) :: rat) < of_int (py_round x)"
    using py_round_bounds(2) [of x] assms by simp
  then have "- 1 < py_round x" by (simp only: of_int_less_iff)
  then show ?thesis by simp
qed

lemma lb_new_width_bounds:
  assumes "0 < h0" "0 < w0" "0 < height" "0 < width"
  shows "lb_new_width h0 w0 height width \<le> width" "0 \<le> lb_new_width h0 w0 height width"
proof -
  have "of_nat w0 * lb_ratio h0 w0 height width \<le> of_nat w0 * (of_int width / of_nat w0)"
    unfolding lb_ratio_def using assms by (intro mult_left_mono) auto
  also have "\<dots> = of_int width" using assms by simp
  finally show "lb_new_width h0 w0 height width \<le> width"
    unfolding lb_new_width_def by (rule py_round_le_int)
  have "0 \<le> lb_ratio h0 w0 height width"
    unfolding lb_ratio_def using assms by simp
  then show "0 \<le> lb_new_width h0 w0 height width"
    unfolding lb_new_width_def by (intro py_round_nonneg mult_nonneg_nonneg) simp_all
qed

lemma lb_new_height_bounds:
  assumes "0 < h0" "0 < w0" "0 < height" "0 < width"
  shows "lb_new_height h0 w0 height width \<le> height" "0 \<le> lb_new_height h0 w0 height width"
proof -
  have "of_nat h0 * lb_ratio h0 w0 height width \<le> of_nat h0 * (of_int height / of_nat h0)"
    unfolding lb_ratio_def using assms by (intro mult_left_mono) auto
  also have "\<dots> = of_int height" using assms by simp
  finally show "lb_new_height h0 w0 height width \<le> height"
    unfolding lb_new_height_def by (rule py_round_le_int)
  have "0 \<le> lb_ratio h0 w0 height width"
    unfolding lb_ratio_def using assms by simp
  then show "0 \<le> lb_new_height h0 w0 height width"
    unfolding lb_new_height_def by (intro py_round_nonneg mult_nonneg_nonneg) simp_all
qed

lemma lb_vertical: "lb_new_height h0 w0 height width + lb_top h0 w0 height width
    + lb_bottom h0 w0 height width = height"
  unfolding lb_top_def lb_bottom_def py_round_half_minus py_round_half_plus by presburger

lemma lb_horizontal: "lb_new_width h0 w0 height width + lb_left h0 w0 height width
    + lb_right h0 w0 height width = width"
  unfolding lb_left_def lb_right_def py_round_half_minus py_round_half_plus by presburger

lemma lb_pads_nonneg:
  assumes "0 < h0" "0 < w0" "0 < height" "0 < width"
  shows "0 \<le> lb_top h0 w0 height width" "0 \<le> lb_bottom h0 w0 height width"
    "0 \<le> lb_left h0 w0 height width" "0 \<le> lb_right h0 w0 height width"
  using lb_new_width_bounds(1) [OF assms] lb_new_height_bounds(1) [OF assms]
  unfolding lb_top_def lb_bottom_def lb_left_def lb_right_def py_round_half_minus py_round_half_plus
  by simp_all

lemma letterbox_unfold:
  assumes "im_shape img = h0 # w0 # rest" "0 < h0" "0 < w0"
  shows "letterbox rt img height width color =
     bind (flip_channels img) (\<lambda>img.
     bind (cv2_resize rt img (lb_new_width h0 w0 height width) (lb_new_height h0 w0 height width)) (\<lambda>img.
     bind (cv2_copyMakeBorder img (lb_top h0 w0 height width) (lb_bottom h0 w0 height width)
             (lb_left h0 w0 height width) (lb_right h0 w0 height width) color) (\<lambda>img.
     bind (flip_channels img) (\<lambda>img.
     Inr (img, lb_new_width h0 w0 height width, lb_new_height h0 w0 height width)))))"
  using assms
  by (simp add: letterbox_def Let_def lb_ratio_def lb_new_width_def lb_new_height_def
      lb_top_def lb_bottom_def lb_left_def lb_right_def)

lemma letterbox_sizes:
  assumes "letterbox rt img height width color = Inr (lb, nw, nh)"
    and "im_shape img = h0 # w0 # rest"
  shows "nw = lb_new_width h0 w0 height width" "nh = lb_new_height h0 w0 height width"
proof -
  have pos: "0 < h0 \<and> 0 < w0"
    using assms by (auto simp: letterbox_def split: if_splits)
  then have "letterbox rt img height width color =
     bind (flip_channels img) (\<lambda>img.
     bind (cv2_resize rt img (lb_new_width h0 w0 height width) (lb_new_height h0 w0 height width)) (\<lambda>img.
     bind (cv2_copyMakeBorder img (lb_top h0 w0 height width) (lb_bottom h0 w0 height width)
             (lb_left h0 w0 height width) (lb_right h0 w0 height width) color) (\<lambda>img.
     bind (flip_channels img) (\<lambda>img.
     Inr (img, lb_new_width h0 w0 height width, lb_new_height h0 w0 height width)))))"
    using assms(2) by (intro letterbox_unfold) simp_all
  with assms(1) show "nw = lb_new_width h0 w0 height width" "nh = lb_new_height h0 w0 height width"
    by (auto simp: bind_eq_Inr)
qed

lemma letterbox_rgb:
  assumes "im_shape img = [h0, w0, 3]" "0 < h0" "0 < w0" "0 < height" "0 < width"
  shows "1 \<le> lb_new_width h0 w0 height width \<and> 1 \<le> lb_new_height h0 w0 height width \<Longrightarrow>
      \<exists>out. letterbox rt img height width color =
              Inr (out, lb_new_width h0 w0 height width, lb_new_height h0 w0 height width) \<and>
            im_shape out = [nat height, nat width, 3] \<and> im_dtype out = im_dtype img"
    and "\<not> (1 \<le> lb_new_width h0 w0 height width \<and> 1 \<le> lb_new_height h0 w0 height width) \<Longrightarrow>
      letterbox rt img height width color = Inl (CvError ''!dsize.empty()'')"
proof -
  note pads = lb_pads_nonneg [OF assms(2-5)]
  have v: "nat (lb_new_height h0 w0 height width) + nat (lb_top h0 w0 height width)
     + nat (lb_bottom h0 w0 height width) = nat height"
    using lb_vertical [of h0 w0 height width] pads lb_new_height_bounds(2) [OF assms(2-5)] by linarith
  have h: "nat (lb_new_width h0 w0 height width) + nat (lb_left h0 w0 height width)
     + nat (lb_right h0 w0 height width) = nat width"
    using lb_horizontal [of h0 w0 height width] pads lb_new_width_bounds(2) [OF assms(2-5)] by linarith
  note unf = letterbox_unfold [OF assms(1-3)]
  show "\<exists>out. letterbox rt img height width color =
              Inr (out, lb_new_width h0 w0 height width, lb_new_height h0 w0 height width) \<and>
            im_shape out = [nat height, nat width, 3] \<and> im_dtype out = im_dtype img"
    if "1 \<le> lb_new_width h0 w0 height width \<and> 1 \<le> lb_new_height h0 w0 height width"
    unfolding unf using that assms(1-3) pads v h
    by (simp add: flip_channels_def cv2_resize_def cv2_copyMakeBorder_def not_le)
  show "letterbox rt img height width color = Inl (CvError ''!dsize.empty()'')"
    if "\<not> (1 \<le> lb_new_width h0 w0 height width \<and> 1 \<le> lb_new_height h0 w0 height width)"
    unfolding unf using that assms(1-3)
    by (auto simp add: flip_channels_def cv2_resize_def)
qed

lemma by_entry_T0:
  "map_of d k = Some (VTensor (T0 s)) \<Longrightarrow>
     by_entry k d (VTensor (T1 xs)) = Inr (T1 (map (\<lambda>x. x * s) xs))"
  by (simp add: by_entry_def dget_Some tf_cast_float32_def as_tensor_def mul_val_T1_T0)

lemma by_factor_Some:
  "by_factor (Some r) f d (VTensor (T1 xs)) =
     Inr (T1 (map (\<lambda>x. x * aspect_ratio_factor r * f r) xs))"
  by (simp add: by_factor_def local_var_def mul_val_T1_T0)

lemma by_factor_None:
  "by_factor None f d v = Inl (UnboundLocalError ''aspect_ratio_factor'')"
  by (simp add: by_factor_def local_var_def)

lemma pop_column_frame: "pop_column k scaled m d = Inr (c, d') \<Longrightarrow> d' = AList.delete k d"
  by (auto simp: pop_column_def bind_eq_Inr dpop_eq_Inr)

lemma pop_by_entry:
  assumes "pop_column k (by_entry key) m d = Inr (c, d')"
    and "map_of d k = Some (VTensor (T1 xs))"
    and "map_of d key = Some (VTensor (T0 s))" and "key \<noteq> k"
  shows "c = column (padded (map (\<lambda>x. x * s) xs) m)" "int (length xs) \<le> m"
  using assms
  by (simp_all add: pop_column_def dpop_Some by_entry_T0 padded_column_T1 split: if_splits)

lemma pop_by_factor:
  assumes "pop_column k (by_factor (Some r) f) m d = Inr (c, d')"
    and "map_of d k = Some (VTensor (T1 xs))"
  shows "c = column (padded (map (\<lambda>x. x * aspect_ratio_factor r * f r) xs) m)"
    "int (length xs) \<le> m"
  using assms
  by (simp_all add: pop_column_def dpop_Some by_factor_Some padded_column_T1 split: if_splits)

lemma pop_by_factor_None:
  "pop_column k (by_factor None f) m d = Inr r \<Longrightarrow> False"
  by (auto simp: pop_column_def bind_eq_Inr by_factor_None)

lemma dhas_nonempty: "dhas k d \<Longrightarrow> d \<noteq> []"
  by (auto simp: dhas_def)

lemma mobilenet_ssd_steps:
  assumes "mobilenet_ssd rt img (Some d) height width m = Inr (out, Some d')"
    and "dhas ''num_boxes'' d"
  shows "\<exists>sq d1 d2 d3 a d4 b d5 c d6 e d7 d8.
     cast_num_boxes (dset ''img_orig'' (VImage (tf_cast_image rt UInt8 sq)) d) = Inr d1 \<and>
     pad_entry ''category_id'' m d1 = Inr d2 \<and> pad_entry ''is_crowd'' m d2 = Inr d3 \<and>
     pop_column ''xmin'' (by_entry ''width'') m d3 = Inr (a, d4) \<and>
     pop_column ''xmax'' (by_entry ''width'') m d4 = Inr (b, d5) \<and>
     pop_column ''ymin'' (by_entry ''height'') m d5 = Inr (c, d6) \<and>
     pop_column ''ymax'' (by_entry ''height'') m d6 = Inr (e, d7) \<and>
     set_bbox a b c e d7 = Inr d8 \<and> pad_area m d8 = Inr d'"
  using assms dhas_nonempty [OF assms(2)]
  by (clarsimp simp: mobilenet_ssd_def Let_def bind_eq_Inr split: if_splits; blast?)

lemma mobilenet_ssd_bbox:
  assumes run: "mobilenet_ssd rt img (Some d) height width m = Inr (out, Some d')"
    and nb: "dhas ''num_boxes'' d"
    and t: "map_of d ''xmin'' = Some (VTensor (T1 xs0))"
      "map_of d ''xmax'' = Some (VTensor (T1 xs1))"
      "map_of d ''ymin'' = Some (VTensor (T1 ys0))"
      "map_of d ''ymax'' = Some (VTensor (T1 ys1))"
    and s: "map_of d ''width'' = Some (VTensor (T0 sw))"
      "map_of d ''height'' = Some (VTensor (T0 sh))"
  shows "map_of d' ''bbox'' = Some (VTensor (xywh (padded (map (\<lambda>x. x * sw) xs0) m)
            (padded (map (\<lambda>x. x * sh) ys0) m) (padded (map (\<lambda>x. x * sw) xs1) m)
            (padded (map (\<lambda>x. x * sh) ys1) m)))"
proof -
  from mobilenet_ssd_steps [OF run nb] obtain sq d1 d2 d3 a d4 b d5 c d6 e d7 d8 where
    1: "cast_num_boxes (dset ''img_orig'' (VImage (tf_cast_image rt UInt8 sq)) d) = Inr d1" and
    2: "pad_entry ''category_id'' m d1 = Inr d2" and 3: "pad_entry ''is_crowd'' m d2 = Inr d3" and
    p: "pop_column ''xmin'' (by_entry ''width'') m d3 = Inr (a, d4)"
       "pop_column ''xmax'' (by_entry ''width'') m d4 = Inr (b, d5)"
       "pop_column ''ymin'' (by_entry ''height'') m d5 = Inr (c, d6)"
       "pop_column ''ymax'' (by_entry ''height'') m d6 = Inr (e, d7)" and
    8: "set_bbox a b c e d7 = Inr d8" and 9: "pad_area m d8 = Inr d'"
    by blast
  from cast_num_boxes_Inr [OF 1] pad_entry_Inr [OF 2] pad_entry_Inr [OF 3]
  have t3: "map_of d3 ''xmin'' = Some (VTensor (T1 xs0))"
      "map_of d3 ''xmax'' = Some (VTensor (T1 xs1))"
      "map_of d3 ''ymin'' = Some (VTensor (T1 ys0))"
      "map_of d3 ''ymax'' = Some (VTensor (T1 ys1))"
      "map_of d3 ''width'' = Some (VTensor (T0 sw))"
      "map_of d3 ''height'' = Some (VTensor (T0 sh))"
    using t s by auto
  note f = pop_column_frame [OF p(1)] pop_column_frame [OF p(2)] pop_column_frame [OF p(3)]
  note v1 = pop_by_entry [OF p(1) t3(1) t3(5)]
  have v2: "b = column (padded (map (\<lambda>x. x * sw) xs1) m)" "int (length xs1) \<le> m"
    by (rule pop_by_entry [OF p(2)]; simp add: f t3)+
  have v3: "c = column (padded (map (\<lambda>x. x * sh) ys0) m)" "int (length ys0) \<le> m"
    by (rule pop_by_entry [OF p(3)]; simp add: f t3)+
  have v4: "e = column (padded (map (\<lambda>x. x * sh) ys1) m)" "int (length ys1) \<le> m"
    by (rule pop_by_entry [OF p(4)]; simp add: f t3)+
  let ?x0 = "padded (map (\<lambda>x. x * sw) xs0) m" and ?x1 = "padded (map (\<lambda>x. x * sw) xs1) m"
  let ?y0 = "padded (map (\<lambda>x. x * sh) ys0) m" and ?y1 = "padded (map (\<lambda>x. x * sh) ys1) m"
  have "set_bbox (column ?x0) (column ?x1) (column ?y0) (column ?y1) d7 =
      Inr (dset ''bbox'' (VTensor (xywh ?x0 ?y0 ?x1 ?y1)) d7)"
    by (rule set_bbox_columns) (simp_all add: length_padded_map v1 v2 v3 v4)
  with 8 have "d8 = dset ''bbox'' (VTensor (xywh ?x0 ?y0 ?x1 ?y1)) d7"
    using v1(1) by (simp add: v2(1) v3(1) v4(1))
  moreover from pad_area_Inr [OF 9] obtain u where "map_of d' = (map_of d8)(''area'' \<mapsto> VTensor u)"
    by blast
  ultimately show ?thesis by simp
qed

lemma tf_trunc_nonneg: "0 \<le> x \<Longrightarrow> tf_trunc x = \<lfloor>x\<rfloor>"
  by (simp add: tf_trunc_def)

lemma tf_trunc_of_int [simp]: "tf_trunc (of_int n) = n"
  by (simp add: tf_trunc_def)

lemma ar_factor_nonneg:
  assumes "0 < height" "0 < width"
  shows "0 \<le> ar_factor h0 w0 height width"
  using assms by (simp add: ar_factor_def)

lemma ar_bounds:
  assumes "0 < h0" "0 < w0" "0 < height" "0 < width"
  shows "ar_height h0 w0 height width \<le> height" "ar_width h0 w0 height width \<le> width"
    "0 \<le> ar_height h0 w0 height width" "0 \<le> ar_width h0 w0 height width"
proof -
  let ?f = "ar_factor h0 w0 height width"
  have f0: "0 \<le> ?f" using assms by (simp add: ar_factor_def)
  have hle: "?f * of_nat h0 \<le> of_int height"
  proof (cases "of_int width / of_int height \<le> (of_nat w0 :: rat) / of_nat h0")
    case True
    then have "(of_int width :: rat) * of_nat h0 \<le> of_nat w0 * of_int height"
      using assms by (simp add: field_simps)
    then have "(of_int width :: rat) * of_nat h0 / of_nat w0 \<le> of_int height"
      using assms by (simp add: field_simps)
    with True show ?thesis by (simp add: ar_factor_def)
  next
    case False
    then show ?thesis using assms by (simp add: ar_factor_def)
  qed
  have wle: "?f * of_nat w0 \<le> of_int width"
  proof (cases "of_int width / of_int height \<le> (of_nat w0 :: rat) / of_nat h0")
    case True
    then show ?thesis using assms by (simp add: ar_factor_def)
  next
    case False
    then have "(of_nat w0 :: rat) * of_int height < of_int width * of_nat h0"
      using assms by (simp add: field_simps not_le)
    then have "(of_int height :: rat) * of_nat w0 / of_nat h0 \<le> of_int width"
      using assms by (simp add: field_simps)
    with False show ?thesis by (simp add: ar_factor_def)
  qed
  have h0': "0 \<le> ?f * of_nat h0" and w0': "0 \<le> ?f * of_nat w0" using f0 by simp_all
  show "ar_height h0 w0 height width \<le> height"
    unfolding ar_height_def tf_trunc_nonneg [OF h0'] using hle by (simp add: floor_le_iff)
  show "ar_width h0 w0 height width \<le> width"
    unfolding ar_width_def tf_trunc_nonneg [OF w0'] using wle by (simp add: floor_le_iff)
  show "0 \<le> ar_height h0 w0 height width"
    unfolding ar_height_def tf_trunc_nonneg [OF h0'] using h0' by simp
  show "0 \<le> ar_width h0 w0 height width"
    unfolding ar_width_def tf_trunc_nonneg [OF w0'] using w0' by simp
qed

lemma ar_result:
  assumes "ar_preserving_resize_and_crop rt height img width = Inr r"
    and "im_shape img = h0 # w0 # rest"
  shows "aspect_ratio_factor r = ar_factor h0 w0 height width"
    and "ar_new_height r = ar_height h0 w0 height width"
    and "ar_new_width r = ar_width h0 w0 height width"
    and "image_height_float r = of_nat h0" and "image_width_float r = of_nat w0"
    and "ar_image_height r = h0" and "ar_image_width r = w0"
  using assms
  by (auto simp: ar_preserving_resize_and_crop_def Let_def bind_eq_Inr image_dim_def
      ar_factor_def ar_height_def ar_width_def)

lemma ar_total:
  assumes "im_shape img = [h0, w0, c]" "0 < h0" "0 < w0" "0 < c" "0 < height" "0 < width"
  shows "1 \<le> ar_height h0 w0 height width \<and> 1 \<le> ar_width h0 w0 height width \<Longrightarrow>
      \<exists>r. ar_preserving_resize_and_crop rt height img width = Inr r \<and>
        im_shape (ar_image r) = [nat height, nat width, c] \<and>
        (\<forall>i j k. im_px (ar_image r) [i, j, k] =
           (if int i < ar_height h0 w0 height width \<and> int j < ar_width h0 w0 height width
            then kernel_px rt (Bilinear False) (image_expand_dims_0 img)
                   (nat (ar_height h0 w0 height width)) (nat (ar_width h0 w0 height width)) [0, i, j, k]
            else 0))"
    and "\<not> (1 \<le> ar_height h0 w0 height width \<and> 1 \<le> ar_width h0 w0 height width) \<Longrightarrow>
      ar_preserving_resize_and_crop rt height img width =
        Inl (InvalidArgumentError ''output dimensions must be positive'')"
proof -
  note b = ar_bounds [OF assms(2,3,5,6)]
  have unf: "ar_preserving_resize_and_crop rt height img width =
     bind (tf_resize rt (Bilinear False) (image_expand_dims_0 img)
             (ar_height h0 w0 height width) (ar_width h0 w0 height width)) (\<lambda>image_resized.
     bind (tf_pad_image image_resized (height - ar_height h0 w0 height width)
             (width - ar_width h0 w0 height width)) (\<lambda>padded_image.
     bind (image_squeeze_0 padded_image) (\<lambda>img'.
     Inr \<lparr>aspect_ratio_factor = ar_factor h0 w0 height width, ar_image = img', ar_image_height = h0,
          image_height_float = of_nat h0, ar_image_width = w0,
          image_width_float = of_nat w0, ar_new_height = ar_height h0 w0 height width,
          ar_new_width = ar_width h0 w0 height width\<rparr>)))"
    using assms(1)
    by (simp add: ar_preserving_resize_and_crop_def Let_def image_dim_def ar_factor_def
        ar_height_def ar_width_def)
  show "\<exists>r. ar_preserving_resize_and_crop rt height img width = Inr r \<and>
        im_shape (ar_image r) = [nat height, nat width, c] \<and>
        (\<forall>i j k. im_px (ar_image r) [i, j, k] =
           (if int i < ar_height h0 w0 height width \<and> int j < ar_width h0 w0 height width
            then kernel_px rt (Bilinear False) (image_expand_dims_0 img)
                   (nat (ar_height h0 w0 height width)) (nat (ar_width h0 w0 height width)) [0, i, j, k]
            else 0))"
    if "1 \<le> ar_height h0 w0 height width \<and> 1 \<le> ar_width h0 w0 height width"
    unfolding unf using that assms b
    by (auto simp: tf_resize_def image_expand_dims_0_def tf_pad_image_def image_squeeze_0_def
        nat_add_distrib [symmetric] zless_nat_eq_int_zless)
  show "ar_preserving_resize_and_crop rt height img width =
        Inl (InvalidArgumentError ''output dimensions must be positive'')"
    if "\<not> (1 \<le> ar_height h0 w0 height width \<and> 1 \<le> ar_width h0 w0 height width)"
    unfolding unf using that assms
    by (auto simp: tf_resize_def image_expand_dims_0_def)
qed

lemma pop_column_unbound:
  "pop_column k (by_factor None f) m d \<noteq> Inr r"
  by (auto simp: pop_column_def bind_eq_Inr by_factor_None)

lemma ar_steps:
  assumes "mobilenet_ssd_ar_preserving rt img (Some d) height width m = Inr (out, Some d')"
    and "d \<noteq> []"
  shows "\<exists>h w r d1 d2 d3 a d4 b d5 c d6 e d7 d8.
     given height width = Some (h, w) \<and> ar_preserving_resize_and_crop rt h img w = Inr r \<and>
     cast_num_boxes (dset ''img_orig'' (VImage (tf_cast_image rt UInt8 out)) d) = Inr d1 \<and>
     pad_entry ''category_id'' m d1 = Inr d2 \<and> pad_entry ''is_crowd'' m d2 = Inr d3 \<and>
     pop_column ''xmin'' (by_factor (Some r) image_width_float) m d3 = Inr (a, d4) \<and>
     pop_column ''xmax'' (by_factor (Some r) image_width_float) m d4 = Inr (b, d5) \<and>
     pop_column ''ymin'' (by_factor (Some r) image_height_float) m d5 = Inr (c, d6) \<and>
     pop_column ''ymax'' (by_factor (Some r) image_height_float) m d6 = Inr (e, d7) \<and>
     set_bbox a b c e (dset ''width'' (py_opt_int width) (dset ''height'' (py_opt_int height) d7))
       = Inr d8 \<and>
     pad_area_if_present m d8 = Inr d'"
proof (cases "given height width")
  case None
  with assms show ?thesis
    by (clarsimp simp: mobilenet_ssd_ar_preserving_def Let_def bind_eq_Inr pop_column_unbound)
next
  case (Some hw)
  then obtain h w where hw: "given height width = Some (h, w)" by (cases hw) simp
  from assms show ?thesis
    unfolding mobilenet_ssd_ar_preserving_def hw
    by (clarsimp simp: Let_def bind_eq_Inr; blast?)
qed

lemma ar_bbox:
  assumes run: "mobilenet_ssd_ar_preserving rt img (Some d) height width m = Inr (out, Some d')"
    and ne: "d \<noteq> []"
    and shape: "im_shape img = h0 # w0 # rest"
    and t: "map_of d ''xmin'' = Some (VTensor (T1 xs0))"
      "map_of d ''xmax'' = Some (VTensor (T1 xs1))"
      "map_of d ''ymin'' = Some (VTensor (T1 ys0))"
      "map_of d ''ymax'' = Some (VTensor (T1 ys1))"
  shows "\<exists>h w. given height width = Some (h, w) \<and>
     map_of d' ''bbox'' = Some (VTensor (xywh
        (padded (map (\<lambda>x. x * ar_factor h0 w0 h w * of_nat w0) xs0) m)
        (padded (map (\<lambda>x. x * ar_factor h0 w0 h w * of_nat h0) ys0) m)
        (padded (map (\<lambda>x. x * ar_factor h0 w0 h w * of_nat w0) xs1) m)
        (padded (map (\<lambda>x. x * ar_factor h0 w0 h w * of_nat h0) ys1) m)))"
proof -
  from ar_steps [OF run ne] obtain h w r d1 d2 d3 a d4 b d5 c d6 e d7 d8 where
    g: "given height width = Some (h, w)" and
    r: "ar_preserving_resize_and_crop rt h img w = Inr r" and
    1: "cast_num_boxes (dset ''img_orig'' (VImage (tf_cast_image rt UInt8 out)) d) = Inr d1" and
    2: "pad_entry ''category_id'' m d1 = Inr d2" and 3: "pad_entry ''is_crowd'' m d2 = Inr d3" and
    p: "pop_column ''xmin'' (by_factor (Some r) image_width_float) m d3 = Inr (a, d4)"
       "pop_column ''xmax'' (by_factor (Some r) image_width_float) m d4 = Inr (b, d5)"
       "pop_column ''ymin'' (by_factor (Some r) image_height_float) m d5 = Inr (c, d6)"
       "pop_column ''ymax'' (by_factor (Some r) image_height_float) m d6 = Inr (e, d7)" and
    8: "set_bbox a b c e (dset ''width'' (py_opt_int width) (dset ''height'' (py_opt_int height) d7))
       = Inr d8" and
    9: "pad_area_if_present m d8 = Inr d'"
    by blast
  note rr = ar_result [OF r shape]
  from cast_num_boxes_Inr [OF 1] pad_entry_Inr [OF 2] pad_entry_Inr [OF 3]
  have t3: "map_of d3 ''xmin'' = Some (VTensor (T1 xs0))"
      "map_of d3 ''xmax'' = Some (VTensor (T1 xs1))"
      "map_of d3 ''ymin'' = Some (VTensor (T1 ys0))"
      "map_of d3 ''ymax'' = Some (VTensor (T1 ys1))"
    using t by auto
  note f = pop_column_frame [OF p(1)] pop_column_frame [OF p(2)] pop_column_frame [OF p(3)]
  let ?f = "ar_factor h0 w0 h w"
  let ?x0 = "padded (map (\<lambda>x. x * ?f * of_nat w0) xs0) m"
  let ?x1 = "padded (map (\<lambda>x. x * ?f * of_nat w0) xs1) m"
  let ?y0 = "padded (map (\<lambda>x. x * ?f * of_nat h0) ys0) m"
  let ?y1 = "padded (map (\<lambda>x. x * ?f * of_nat h0) ys1) m"
  have v1: "a = column ?x0" "int (length xs0) \<le> m"
    using pop_by_factor [OF p(1) t3(1)] by (simp_all add: rr)
  have v2: "b = column ?x1" "int (length xs1) \<le> m"
    using pop_by_factor [OF p(2), of xs1] by (simp_all add: rr f t3)
  have v3: "c = column ?y0" "int (length ys0) \<le> m"
    using pop_by_factor [OF p(3), of ys0] by (simp_all add: rr f t3)
  have v4: "e = column ?y1" "int (length ys1) \<le> m"
    using pop_by_factor [OF p(4), of ys1] by (simp_all add: rr f t3)
  let ?d = "dset ''width'' (py_opt_int width) (dset ''height'' (py_opt_int height) d7)"
  have "set_bbox (column ?x0) (column ?x1) (column ?y0) (column ?y1) ?d =
      Inr (dset ''bbox'' (VTensor (xywh ?x0 ?y0 ?x1 ?y1)) ?d)"
    by (rule set_bbox_columns) (simp_all add: length_padded_map v1 v2 v3 v4)
  with 8 have d8: "d8 = dset ''bbox'' (VTensor (xywh ?x0 ?y0 ?x1 ?y1)) ?d"
    by (simp add: v1(1) v2(1) v3(1) v4(1))
  have "map_of d' ''bbox'' = map_of d8 ''bbox''"
    using 9 pad_area_Inr [of m d8 d'] by (auto simp: pad_area_if_present_def split: if_splits)
  then show ?thesis using g by (simp add: d8)
qed

lemma boxes_if_present_bbox:
  assumes 1: "cast_image_info_types rt d img m0 = Inr d1"
    and 2: "boxes_if_present m d1 = Inr d2"
    and nb: "dhas ''num_boxes'' d"
    and t: "map_of d ''xmin'' = Some (VTensor (T1 xs0))"
      "map_of d ''xmax'' = Some (VTensor (T1 xs1))"
      "map_of d ''ymin'' = Some (VTensor (T1 ys0))"
      "map_of d ''ymax'' = Some (VTensor (T1 ys1))"
    and s: "map_of d ''width'' = Some (VTensor (T0 sw))"
      "map_of d ''height'' = Some (VTensor (T0 sh))"
  shows "map_of d2 ''bbox'' = Some (VTensor (xywh (padded (map (\<lambda>x. x * sw) xs0) m)
            (padded (map (\<lambda>x. x * sh) ys0) m) (padded (map (\<lambda>x. x * sw) xs1) m)
            (padded (map (\<lambda>x. x * sh) ys1) m)))"
proof -
  have "dhas ''num_boxes'' d1 \<and> dhas ''xmin'' d1"
    using nb t(1) by (simp add: cast_image_info_types_Inr(2) [OF 1]) (simp add: dhas_def)
  from boxes_if_present_Inr(1) [OF 2 this] obtain a b c e d3 where
    e: "extract_box_from_image_info d1 m True = Inr ((a, b, c, e), d3)" and
    b: "set_bbox a b c e d3 = Inr d2"
    by blast
  have "map_of d2 = (map_of d3)(''bbox'' \<mapsto> VTensor (xywh (padded (map (\<lambda>x. x * sw) xs0) m)
            (padded (map (\<lambda>x. x * sh) ys0) m) (padded (map (\<lambda>x. x * sw) xs1) m)
            (padded (map (\<lambda>x. x * sh) ys1) m)))"
    by (rule boxes_to_bbox [OF 1 e b t]) (use s in simp_all)
  then show ?thesis by simp
qed

lemma bbox_not_pad_key: "''bbox'' \<notin> pad_keys"
  by (simp add: pad_keys_def)

lemma face_ssd_bbox:
  assumes run: "face_ssd rt img (Some d) height width m = Inr (out, Some d')"
    and nb: "dhas ''num_boxes'' d"
    and t: "map_of d ''xmin'' = Some (VTensor (T1 xs0))"
      "map_of d ''xmax'' = Some (VTensor (T1 xs1))"
      "map_of d ''ymin'' = Some (VTensor (T1 ys0))"
      "map_of d ''ymax'' = Some (VTensor (T1 ys1))"
    and s: "map_of d ''width'' = Some (VTensor (T0 sw))"
      "map_of d ''height'' = Some (VTensor (T0 sh))"
  shows "map_of d' ''bbox'' = Some (VTensor (xywh (padded (map (\<lambda>x. x * sw) xs0) m)
            (padded (map (\<lambda>x. x * sh) ys0) m) (padded (map (\<lambda>x. x * sw) xs1) m)
            (padded (map (\<lambda>x. x * sh) ys1) m)))"
proof -
  from face_ssd_steps [OF run dhas_nonempty [OF nb]] obtain d1 d2 locals where
    1: "cast_image_info_types rt d out m = Inr d1" and
    2: "boxes_if_present m d1 = Inr d2" and
    3: "set_geometry height width locals d2 = Inr d'"
    by auto
  show ?thesis
    using boxes_if_present_bbox [OF 1 2 nb t s] set_geometry_frame [OF 3 bbox_not_pad_key]
    by simp
qed

lemma retinaface_bbox:
  assumes run: "retinaface rt img (Some d) height width m = Inr (out, Some d')"
    and nb: "dhas ''num_boxes'' d"
    and t: "map_of d ''xmin'' = Some (VTensor (T1 xs0))"
      "map_of d ''xmax'' = Some (VTensor (T1 xs1))"
      "map_of d ''ymin'' = Some (VTensor (T1 ys0))"
      "map_of d ''ymax'' = Some (VTensor (T1 ys1))"
    and s: "map_of d ''width'' = Some (VTensor (T0 sw))"
      "map_of d ''height'' = Some (VTensor (T0 sh))"
  shows "map_of d' ''bbox'' = Some (VTensor (xywh (padded (map (\<lambda>x. x * sw) xs0) m)
            (padded (map (\<lambda>x. x * sh) ys0) m) (padded (map (\<lambda>x. x * sw) xs1) m)
            (padded (map (\<lambda>x. x * sh) ys1) m)))"
proof -
  from retinaface_steps [OF run dhas_nonempty [OF nb]] obtain d1 d2 locals where
    1: "cast_image_info_types rt d out m = Inr d1" and
    2: "boxes_if_present m d1 = Inr d2" and
    3: "set_geometry height width locals d2 = Inr d'"
    by auto
  show ?thesis
    using boxes_if_present_bbox [OF 1 2 nb t s] set_geometry_frame [OF 3 bbox_not_pad_key]
    by simp
qed

lemma fair_mot_facts:
  assumes run: "fair_mot rt img (Some d) height width m = Inr (out, Some d')"
    and ne: "d \<noteq> []"
  shows "boxes_replaced (cast_keys \<union> pad_keys \<union> fair_mot_keys) d d'"
    and "map_of d ''xmin'' = Some (VTensor (T1 xs0)) \<Longrightarrow>
      map_of d ''xmax'' = Some (VTensor (T1 xs1)) \<Longrightarrow>
      map_of d ''ymin'' = Some (VTensor (T1 ys0)) \<Longrightarrow>
      map_of d ''ymax'' = Some (VTensor (T1 ys1)) \<Longrightarrow>
      map_of d' ''bbox'' = Some (VTensor (xywh (padded (map (\<lambda>x. x * 1) xs0) m)
            (padded (map (\<lambda>x. x * 1) ys0) m) (padded (map (\<lambda>x. x * 1) xs1) m)
            (padded (map (\<lambda>x. x * 1) ys1) m)))"
proof -
  from fair_mot_steps [OF run ne] obtain d1 a b c e d2 d3 d4 d5 d6 locals where
    1: "cast_image_info_types rt d out m = Inr d1" and
    2: "extract_box_from_image_info d1 m False = Inr ((a, b, c, e), d2)" and
    3: "set_bbox a b c e d2 = Inr d3" and
    4: "set_geometry height width locals d3 = Inr d4" and
    5: "pad_entry ''person_id'' m d4 = Inr d5" and
    6: "pad_entry ''label'' m d5 = Inr d6" and
    7: "pad_entry ''is_ignore'' m d6 = Inr d'"
    by auto
  from pad_entry_Inr [OF 5] pad_entry_Inr [OF 6] pad_entry_Inr [OF 7]
  have post: "\<And>k. k \<notin> pad_keys \<union> fair_mot_keys \<Longrightarrow> map_of d' k = map_of d3 k"
    using set_geometry_frame [OF 4] by (auto simp: fair_mot_keys_def)
  from set_bbox_Inr [OF 3] obtain t where t: "map_of d3 = (map_of d2)(''bbox'' \<mapsto> VTensor t)" ..
  have "boxes_replaced {} d1 d3"
    unfolding boxes_replaced_def t extract_box_frame [OF 2] by (auto simp: box_keys_def)
  then have "boxes_replaced (cast_keys \<union> {} \<union> (pad_keys \<union> fair_mot_keys)) d d'"
    by (rule boxes_replaced_after [OF _ cast_image_info_types_Inr(1) [OF 1] post])
       (auto simp: pad_keys_def fair_mot_keys_def box_keys_def)
  then show "boxes_replaced (cast_keys \<union> pad_keys \<union> fair_mot_keys) d d'"
    by (simp add: Un_assoc)
  show "map_of d' ''bbox'' = Some (VTensor (xywh (padded (map (\<lambda>x. x * 1) xs0) m)
            (padded (map (\<lambda>x. x * 1) ys0) m) (padded (map (\<lambda>x. x * 1) xs1) m)
            (padded (map (\<lambda>x. x * 1) ys1) m)))"
    if tt: "map_of d ''xmin'' = Some (VTensor (T1 xs0))" "map_of d ''xmax'' = Some (VTensor (T1 xs1))"
      "map_of d ''ymin'' = Some (VTensor (T1 ys0))" "map_of d ''ymax'' = Some (VTensor (T1 ys1))"
  proof -
    have "map_of d3 = (map_of d2)(''bbox'' \<mapsto> VTensor (xywh (padded (map (\<lambda>x. x * 1) xs0) m)
            (padded (map (\<lambda>x. x * 1) ys0) m) (padded (map (\<lambda>x. x * 1) xs1) m)
            (padded (map (\<lambda>x. x * 1) ys1) m)))"
      by (rule boxes_to_bbox [OF 1 2 3 tt]) simp_all
    then show ?thesis
      by (simp add: post pad_keys_def fair_mot_keys_def)
  qed
qed

lemma py_func_letterbox_Inr:
  "py_func_letterbox rt color img h w = Inr (lb, nw, nh) \<Longrightarrow>
     letterbox rt img h w color = Inr (lb, nw, nh) \<and> im_dtype lb = UInt8"
  by (auto simp: py_func_letterbox_def bind_eq_Inr split: if_splits)

lemma yolo_v5_facts:
  assumes run: "yolo_v5 rt img (Some d) height width color = Inr (out, Some d')"
    and nb: "dhas ''num_boxes'' d"
  shows "boxes_replaced (listed_keys \<union> letterbox_keys) d d'"
    and "\<exists>h w ih iw lb nw nh. given height width = Some (h, w) \<and>
      image_dim img 0 = Inr ih \<and> image_dim img 1 = Inr iw \<and>
      letterbox rt img h w color = Inr (lb, nw, nh) \<and>
      map_of d' ''height'' = Some (nat_val ih) \<and> map_of d' ''width'' = Some (nat_val iw) \<and>
      map_of d' ''letterbox_height'' = Some (py_int nh) \<and>
      map_of d' ''letterbox_width'' = Some (py_int nw) \<and>
      map_of d' ''horizontal_pad'' = Some (py_int (w - nw)) \<and>
      map_of d' ''vertical_pad'' = Some (py_int (h - nh))"
    and "map_of d ''xmin'' = Some (VTensor (T1 xs0)) \<Longrightarrow>
      map_of d ''xmax'' = Some (VTensor (T1 xs1)) \<Longrightarrow>
      map_of d ''ymin'' = Some (VTensor (T1 ys0)) \<Longrightarrow>
      map_of d ''ymax'' = Some (VTensor (T1 ys1)) \<Longrightarrow>
      map_of d ''width'' = Some (VTensor (T0 sw)) \<Longrightarrow>
      map_of d ''height'' = Some (VTensor (T0 sh)) \<Longrightarrow>
      map_of d' ''bbox'' = Some (VTensor (xywh
        (padded (map (\<lambda>x. x * sw) xs0) MAX_PADDING_LENGTH)
        (padded (map (\<lambda>x. x * sh) ys0) MAX_PADDING_LENGTH)
        (padded (map (\<lambda>x. x * sw) xs1) MAX_PADDING_LENGTH)
        (padded (map (\<lambda>x. x * sh) ys1) MAX_PADDING_LENGTH)))"
proof -
  let ?d0 = "dset ''img_orig'' (VImage (tf_cast_image rt UInt8 out)) d"
  from yolo_v5_steps [OF run nb] obtain d1 a b c e d2 d3 d4 ih iw nw nh h w lb where
    g: "given height width = Some (h, w)" and
    dims: "image_dim img 0 = Inr ih" "image_dim img 1 = Inr iw" and
    lb: "py_func_letterbox rt color img h w = Inr (lb, nw, nh)" and
    1: "cast_image_info_types rt ?d0 out MAX_PADDING_LENGTH = Inr d1" and
    2: "extract_box_from_image_info d1 MAX_PADDING_LENGTH True = Inr ((a, b, c, e), d2)" and
    3: "set_bbox a b c e d2 = Inr d3" and
    4: "pad_area MAX_PADDING_LENGTH (dset ''width'' (nat_val iw) (dset ''height'' (nat_val ih) d3)) = Inr d4" and
    5: "d' = dset ''vertical_pad'' (py_int (h - nh)) (dset ''horizontal_pad'' (py_int (w - nw))
            (dset ''letterbox_width'' (py_int nw) (dset ''letterbox_height'' (py_int nh) d4)))"
    by auto
  from pad_area_Inr [OF 4] obtain u where
    u: "map_of d4 = (map_of (dset ''width'' (nat_val iw) (dset ''height'' (nat_val ih) d3)))(''area'' \<mapsto> VTensor u)"
    by blast
  from set_bbox_Inr [OF 3] obtain t where t: "map_of d3 = (map_of d2)(''bbox'' \<mapsto> VTensor t)" ..
  note c = cast_image_info_types_Inr(1) [OF 1]
  show "boxes_replaced (listed_keys \<union> letterbox_keys) d d'"
    unfolding boxes_replaced_def 5
    by (auto simp: u t extract_box_frame [OF 2] c box_keys_def listed_keys_def cast_keys_def
        letterbox_keys_def)
  show "\<exists>h w ih iw lb nw nh. given height width = Some (h, w) \<and>
      image_dim img 0 = Inr ih \<and> image_dim img 1 = Inr iw \<and>
      letterbox rt img h w color = Inr (lb, nw, nh) \<and>
      map_of d' ''height'' = Some (nat_val ih) \<and> map_of d' ''width'' = Some (nat_val iw) \<and>
      map_of d' ''letterbox_height'' = Some (py_int nh) \<and>
      map_of d' ''letterbox_width'' = Some (py_int nw) \<and>
      map_of d' ''horizontal_pad'' = Some (py_int (w - nw)) \<and>
      map_of d' ''vertical_pad'' = Some (py_int (h - nh))"
    using g dims py_func_letterbox_Inr [OF lb] unfolding 5 by (simp add: u)
  show "map_of d' ''bbox'' = Some (VTensor (xywh
        (padded (map (\<lambda>x. x * sw) xs0) MAX_PADDING_LENGTH)
        (padded (map (\<lambda>x. x * sh) ys0) MAX_PADDING_LENGTH)
        (padded (map (\<lambda>x. x * sw) xs1) MAX_PADDING_LENGTH)
        (padded (map (\<lambda>x. x * sh) ys1) MAX_PADDING_LENGTH)))"
    if tt: "map_of d ''xmin'' = Some (VTensor (T1 xs0))" "map_of d ''xmax'' = Some (VTensor (T1 xs1))"
      "map_of d ''ymin'' = Some (VTensor (T1 ys0))" "map_of d ''ymax'' = Some (VTensor (T1 ys1))"
      and ss: "map_of d ''width'' = Some (VTensor (T0 sw))" "map_of d ''height'' = Some (VTensor (T0 sh))"
  proof -
    have "map_of d3 = (map_of d2)(''bbox'' \<mapsto> VTensor (xywh
        (padded (map (\<lambda>x. x * sw) xs0) MAX_PADDING_LENGTH)
        (padded (map (\<lambda>x. x * sh) ys0) MAX_PADDING_LENGTH)
        (padded (map (\<lambda>x. x * sw) xs1) MAX_PADDING_LENGTH)
        (padded (map (\<lambda>x. x * sh) ys1) MAX_PADDING_LENGTH)))"
      by (rule boxes_to_bbox [OF 1 2 3]) (use tt ss in simp_all)
    then show ?thesis unfolding 5 by (simp add: u)
  qed
qed

lemma gluon_kernel_cond:
  "(if int ih < h \<and> int iw < w then tf_resize rt (Bicubic True) X h w
    else if h < int ih \<and> w < int iw then tf_resize rt (Area True) X h w
    else tf_resize rt (Bilinear True) X h w) = tf_resize rt (gluon_kernel ih iw h w) X h w"
  by (simp add: gluon_kernel_def)

lemma yolo_v3_image:
  assumes run: "yolo_v3 rt img info height width = Inr (out, info')"
    and g: "given height width = Some (h, w)"
    and shape: "im_shape img = ih # iw # rest"
  shows "\<exists>resized. tf_resize rt (gluon_kernel ih iw h w)
            (image_expand_dims_0 (tf_cast_image rt Float32 img)) h w = Inr resized \<and>
          image_squeeze_0 (image_clip resized 0 255) = Inr out"
    and "0 \<le> im_px out idx \<and> im_px out idx \<le> 255"
proof -
  have dims: "image_dim img 0 = Inr ih" "image_dim img (Suc 0) = Inr iw"
    using shape by (simp_all add: image_dim_def)
  let ?X = "image_expand_dims_0 (tf_cast_image rt Float32 img)"
  from run show "\<exists>resized. tf_resize rt (gluon_kernel ih iw h w) ?X h w = Inr resized \<and>
          image_squeeze_0 (image_clip resized 0 255) = Inr out"
    unfolding yolo_v3_def g Let_def
    by (auto simp: dims gluon_kernel_cond bind_eq_Inr split: if_split_asm)
  then obtain resized where "image_squeeze_0 (image_clip resized 0 255) = Inr out" by blast
  then show "0 \<le> im_px out idx \<and> im_px out idx \<le> 255"
    by (auto simp: image_squeeze_0_def image_clip_def image_map_def split: list.splits if_splits)
qed

text \<open>total correctness of the annotation helpers on a typed bundle\<close>

lemma pad_entry_total:
  assumes "map_of d k = Some (VTensor (T1 xs))" "int (length xs) \<le> m"
  shows "\<exists>p. pad_entry k m d = Inr (dset k (VTensor p) d)"
  using assms by (auto simp: pad_entry_def dget_Some as_tensor_def pad_tensor_T1)

lemma cast_num_boxes_total:
  assumes "map_of d ''num_boxes'' = Some (VTensor n)"
  shows "\<exists>t. cast_num_boxes d = Inr (dset ''num_boxes'' (VTensor t) d)"
  using assms by (auto simp: cast_num_boxes_def dget_Some tf_cast_int32_def as_tensor_def)

lemma cast_image_info_types_total:
  assumes "labels_typed d m"
  shows "\<exists>d'. cast_image_info_types rt d img m = Inr d'"
proof -
  from assms obtain n cs ic where
    t: "map_of d ''num_boxes'' = Some (VTensor n)"
       "map_of d ''category_id'' = Some (VTensor (T1 cs))" "int (length cs) \<le> m"
       "map_of d ''is_crowd'' = Some (VTensor (T1 ic))" "int (length ic) \<le> m"
    unfolding labels_typed_def by blast
  let ?d0 = "dset ''img_orig'' (VImage (tf_cast_image rt UInt8 img)) d"
  have "map_of ?d0 ''num_boxes'' = Some (VTensor n)" using t by simp
  from cast_num_boxes_total [OF this] obtain tn where
    1: "cast_num_boxes ?d0 = Inr (dset ''num_boxes'' (VTensor tn) ?d0)" ..
  let ?d1 = "dset ''num_boxes'' (VTensor tn) ?d0"
  have "map_of ?d1 ''category_id'' = Some (VTensor (T1 cs))" using t by simp
  from pad_entry_total [OF this t(3)] obtain p where
    2: "pad_entry ''category_id'' m ?d1 = Inr (dset ''category_id'' (VTensor p) ?d1)" ..
  let ?d2 = "dset ''category_id'' (VTensor p) ?d1"
  have "map_of ?d2 ''is_crowd'' = Some (VTensor (T1 ic))" using t by simp
  from pad_entry_total [OF this t(5)] obtain q where
    3: "pad_entry ''is_crowd'' m ?d2 = Inr (dset ''is_crowd'' (VTensor q) ?d2)" ..
  show ?thesis
    unfolding cast_image_info_types_def Let_def
    by (simp add: 1 2 3 dhas_def t)
qed

lemma extract_box_total:
  assumes "boxes_typed d xs0 xs1 ys0 ys1"
    and "nrm \<Longrightarrow> size_typed d sh sw"
    and "int (length xs0) \<le> m" "int (length xs1) \<le> m"
        "int (length ys0) \<le> m" "int (length ys1) \<le> m" "m \<noteq> 1"
  shows "\<exists>r. extract_box_from_image_info d m nrm = Inr r"
proof -
  have scales: "\<exists>s. (if nrm then bind (dget ''width'' d) tf_cast_float32 else Inr (T0 1)) = Inr (T0 s)"
    "\<exists>s. (if nrm then bind (dget ''height'' d) tf_cast_float32 else Inr (T0 1)) = Inr (T0 s)"
    using assms(2) by (auto simp: size_typed_def dget_Some tf_cast_float32_def as_tensor_def)
  then obtain s1 s2 where
    s: "(if nrm then bind (dget ''width'' d) tf_cast_float32 else Inr (T0 1)) = Inr (T0 s1)"
       "(if nrm then bind (dget ''height'' d) tf_cast_float32 else Inr (T0 1)) = Inr (T0 s2)"
    by blast
  show ?thesis
    unfolding extract_box_from_image_info_def s
    using assms(1,3-7)
    by (simp add: boxes_typed_def dpop_Some mul_val_T1_T0 padded_column_T1)
qed

lemma pad_area_total:
  assumes "map_of d ''area'' = Some (VTensor (T1 as))" "int (length as) \<le> m" "m \<noteq> 1"
  shows "\<exists>d'. pad_area m d = Inr d'"
  using assms by (simp add: pad_area_def dget_Some as_tensor_def padded_column_T1)

lemma set_bbox_total:
  assumes "extract_box_from_image_info d m nrm = Inr ((a, b, c, e), d2)"
    and "boxes_typed d xs0 xs1 ys0 ys1" and "nrm \<Longrightarrow> size_typed d sh sw"
  shows "\<exists>t. set_bbox a b c e d3 = Inr (dset ''bbox'' (VTensor t) d3)"
proof -
  obtain fw fh where f: "nrm \<Longrightarrow> map_of d ''width'' = Some (VTensor (T0 fw))"
    "nrm \<Longrightarrow> map_of d ''height'' = Some (VTensor (T0 fh))" "\<not> nrm \<Longrightarrow> fw = 1 \<and> fh = 1"
    using assms(3) that [of sw sh] that [of 1 1] by (cases nrm) (simp_all add: size_typed_def)
  have b: "map_of d ''xmin'' = Some (VTensor (T1 xs0))" "map_of d ''xmax'' = Some (VTensor (T1 xs1))"
    "map_of d ''ymin'' = Some (VTensor (T1 ys0))" "map_of d ''ymax'' = Some (VTensor (T1 ys1))"
    using assms(2) by (simp_all add: boxes_typed_def)
  note v = extract_box_value [OF assms(1) b f]
  let ?x0 = "padded (map (\<lambda>x. x * fw) xs0) m" and ?x1 = "padded (map (\<lambda>x. x * fw) xs1) m"
  let ?y0 = "padded (map (\<lambda>x. x * fh) ys0) m" and ?y1 = "padded (map (\<lambda>x. x * fh) ys1) m"
  have "set_bbox (column ?x0) (column ?x1) (column ?y0) (column ?y1) d3 =
      Inr (dset ''bbox'' (VTensor (xywh ?x0 ?y0 ?x1 ?y1)) d3)"
    by (rule set_bbox_columns) (simp_all add: length_padded_map v(5-8))
  then have "set_bbox a b c e d3 = Inr (dset ''bbox'' (VTensor (xywh ?x0 ?y0 ?x1 ?y1)) d3)"
    by (simp add: v(1-4))
  then show ?thesis by blast
qed

lemma boxes_ok_cong:
  assumes "boxes_ok d m" "\<And>k. k \<in> box_keys \<Longrightarrow> map_of d' k = map_of d k"
  shows "boxes_ok d' m"
  using assms unfolding boxes_ok_def boxes_typed_def box_keys_def by simp

lemma sizes_ok_cong:
  assumes "sizes_ok d" "map_of d' ''height'' = map_of d ''height''"
    "map_of d' ''width'' = map_of d ''width''"
  shows "sizes_ok d'"
  using assms unfolding sizes_ok_def size_typed_def by simp

lemma area_ok_cong:
  assumes "area_ok d m" "map_of d' ''area'' = map_of d ''area''"
  shows "area_ok d' m"
  using assms unfolding area_ok_def by simp

lemma extract_box_ok:
  assumes "boxes_ok d m" and "nrm \<Longrightarrow> sizes_ok d"
  shows "\<exists>a b c e d2. extract_box_from_image_info d m nrm = Inr ((a, b, c, e), d2) \<and>
     (\<forall>d3. \<exists>t. set_bbox a b c e d3 = Inr (dset ''bbox'' (VTensor t) d3))"
proof -
  from assms(1) obtain xs0 xs1 ys0 ys1 where
    b: "boxes_typed d xs0 xs1 ys0 ys1" and
    l: "int (length xs0) \<le> m" "int (length xs1) \<le> m" "int (length ys0) \<le> m"
       "int (length ys1) \<le> m" "m \<noteq> 1"
    unfolding boxes_ok_def by blast
  obtain sh sw where s: "nrm \<Longrightarrow> size_typed d sh sw"
    using assms(2) unfolding sizes_ok_def by (cases nrm) auto
  from extract_box_total [OF b s l] obtain a b' c e d2 where
    e: "extract_box_from_image_info d m nrm = Inr ((a, b', c, e), d2)"
    by (metis prod.exhaust)
  show ?thesis
    using e set_bbox_total [OF e b s] by blast
qed

lemma pad_area_ok:
  assumes "area_ok d m"
  shows "\<exists>t. pad_area m d = Inr (dset ''area'' (VTensor t) d)"
  using assms unfolding area_ok_def
  by (auto simp: pad_area_def dget_Some as_tensor_def padded_column_T1)

lemma annotate_basic_total:
  assumes "labels_typed d MAX_PADDING_LENGTH" "boxes_ok d m" "sizes_ok d"
    "area_ok d MAX_PADDING_LENGTH"
  shows "\<exists>d'. annotate_basic rt d img m = Inr d'"
proof -
  from cast_image_info_types_total [OF assms(1)] obtain d1 where
    1: "cast_image_info_types rt d img MAX_PADDING_LENGTH = Inr d1" ..
  note c = cast_image_info_types_Inr(1) [OF 1]
  have b1: "boxes_ok d1 m"
    by (rule boxes_ok_cong [OF assms(2)]) (auto simp: c box_keys_def cast_keys_def)
  have s1: "sizes_ok d1"
    by (rule sizes_ok_cong [OF assms(3)]) (simp_all add: c box_keys_not_cast)
  from extract_box_ok [OF b1 s1] obtain a b cc e d2 where
    2: "extract_box_from_image_info d1 m True = Inr ((a, b, cc, e), d2)" and
    3: "\<And>d3. \<exists>t. set_bbox a b cc e d3 = Inr (dset ''bbox'' (VTensor t) d3)"
    by blast
  from 3 [of d2] obtain t where 3: "set_bbox a b cc e d2 = Inr (dset ''bbox'' (VTensor t) d2)" ..
  have "area_ok (dset ''bbox'' (VTensor t) d2) MAX_PADDING_LENGTH"
    by (rule area_ok_cong [OF assms(4)])
       (simp add: extract_box_frame [OF 2] c box_keys_def box_keys_not_cast)
  from pad_area_ok [OF this] obtain u where
    4: "pad_area MAX_PADDING_LENGTH (dset ''bbox'' (VTensor t) d2) =
          Inr (dset ''area'' (VTensor u) (dset ''bbox'' (VTensor t) d2))" ..
  show ?thesis
    by (simp add: annotate_basic_def 1 2 3 4)
qed

lemma im_shape_cast [simp]: "im_shape (tf_cast_image rt dt img) = im_shape img"
  by (cases dt) (simp_all add: tf_cast_image_def)

lemma im_dtype_cast [simp]: "im_dtype (tf_cast_image rt dt img) = dt"
  by (cases dt) (simp_all add: tf_cast_image_def)

lemma im_shape_expand [simp]: "im_shape (image_expand_dims_0 img) = 1 # im_shape img"
  by (simp add: image_expand_dims_0_def)

lemma im_shape_map [simp]: "im_shape (image_map f img) = im_shape img"
  by (simp add: image_map_def)

lemma im_shape_clip [simp]: "im_shape (image_clip img lo hi) = im_shape img"
  by (simp add: image_clip_def)

lemma given_pos: "h \<noteq> 0 \<Longrightarrow> w \<noteq> 0 \<Longrightarrow> given (Some h) (Some w) = Some (h, w)"
  by (simp add: given_def)

lemma tf_resize_ok:
  assumes "im_shape X = [b, ih, iw, c]" "0 < ih" "0 < iw" "0 < c" "0 < h" "0 < w"
  shows "\<exists>r. tf_resize rt k X h w = Inr r \<and> im_shape r = [b, nat h, nat w, c] \<and> im_dtype r = Float32"
  using assms by (simp add: tf_resize_def)

lemma squeeze_0_ok:
  assumes "im_shape X = 1 # rest"
  shows "\<exists>r. image_squeeze_0 X = Inr r \<and> im_shape r = rest \<and> im_dtype r = im_dtype X"
  using assms by (simp add: image_squeeze_0_def)

lemma resize_single_ok:
  assumes "im_shape img = [ih, iw, c]" "0 < ih" "0 < iw" "0 < c" "0 < h" "0 < w"
  shows "\<exists>r. resize_single rt k img h w = Inr r \<and> im_shape r = [nat h, nat w, c] \<and>
     im_dtype r = Float32"
proof -
  from tf_resize_ok [of "image_expand_dims_0 img" 1 ih iw c h w rt k] assms obtain r where
    r: "tf_resize rt k (image_expand_dims_0 img) h w = Inr r" "im_shape r = [1, nat h, nat w, c]"
      "im_dtype r = Float32"
    by auto
  from squeeze_0_ok [OF r(2)] r(3) show ?thesis
    by (auto simp: resize_single_def r(1))
qed


lemma labels_typed_cong:
  assumes "labels_typed d m" "\<And>k. k \<in> {''num_boxes'', ''category_id'', ''is_crowd''} \<Longrightarrow>
     map_of d' k = map_of d k"
  shows "labels_typed d' m"
  using assms unfolding labels_typed_def by simp

lemma labels_typed_has: "labels_typed d m \<Longrightarrow> dhas ''num_boxes'' d"
  by (auto simp: labels_typed_def dhas_def)

lemma boxes_ok_has: "boxes_ok d m \<Longrightarrow> dhas ''xmin'' d"
  by (auto simp: boxes_ok_def boxes_typed_def dhas_def)

lemma image_dims:
  assumes "im_shape img = ih # iw # rest"
  shows "image_dim img 0 = Inr ih" "image_dim img (Suc 0) = Inr iw" "image_dim img 1 = Inr iw"
  using assms by (simp_all add: image_dim_def)

lemma yolo_v3_total:
  assumes shape: "im_shape img = [ih, iw, c]" "0 < ih" "0 < iw" "0 < c"
    and size: "0 < h" "0 < w"
    and typed: "labels_typed d MAX_PADDING_LENGTH" "boxes_ok d MAX_PADDING_LENGTH"
      "area_ok d MAX_PADDING_LENGTH"
  shows "\<exists>out d'. yolo_v3 rt img (Some d) (Some h) (Some w) = Inr (out, Some d')"
proof -
  let ?X = "image_expand_dims_0 (tf_cast_image rt Float32 img)"
  from tf_resize_ok [of ?X 1 ih iw c h w rt "gluon_kernel ih iw h w"] shape size obtain r where
    r: "tf_resize rt (gluon_kernel ih iw h w) ?X h w = Inr r" "im_shape r = [1, nat h, nat w, c]"
    by auto
  from squeeze_0_ok [of "image_clip r 0 255"] r(2) obtain out where
    out: "image_squeeze_0 (image_clip r 0 255) = Inr out"
    by auto
  let ?d = "dset ''width'' (nat_val iw) (dset ''height'' (nat_val ih) d)"
  have "\<exists>d'. annotate_basic rt ?d out MAX_PADDING_LENGTH = Inr d'"
  proof (rule annotate_basic_total)
    show "labels_typed ?d MAX_PADDING_LENGTH"
      by (rule labels_typed_cong [OF typed(1)]) auto
    show "boxes_ok ?d MAX_PADDING_LENGTH"
      by (rule boxes_ok_cong [OF typed(2)]) (auto simp: box_keys_def)
    show "sizes_ok ?d"
      by (simp add: sizes_ok_def size_typed_def nat_val_def)
    show "area_ok ?d MAX_PADDING_LENGTH"
      by (rule area_ok_cong [OF typed(3)]) simp
  qed
  then obtain d' where a: "annotate_basic rt ?d out MAX_PADDING_LENGTH = Inr d'" ..
  have nb: "dhas ''num_boxes'' d" by (rule labels_typed_has [OF typed(1)])
  show ?thesis
    using size nb
    by (simp add: yolo_v3_def Let_def given_pos image_dims [OF shape(1)] dset_opt_def
        gluon_kernel_cond r(1) out a)
qed

lemma resnet_total:
  assumes shape: "im_shape img = [ih, iw, c]" "0 < ih" "0 < iw" "0 < c"
    and size: "0 < h" "0 < w"
    and typed: "labels_typed d MAX_PADDING_LENGTH" "boxes_ok d m" "sizes_ok d"
      "area_ok d MAX_PADDING_LENGTH"
  shows "\<exists>out d'. resnet_v1_18_detection rt img (Some d) (Some h) (Some w) m = Inr (out, Some d')"
proof -
  from resize_single_ok [of "tf_cast_image rt Float32 img" ih iw c h w rt "Bilinear False"]
    shape size obtain out where
    out: "resize_single rt (Bilinear False) (tf_cast_image rt Float32 img) h w = Inr out"
    by auto
  from annotate_basic_total [OF typed] obtain d' where
    a: "annotate_basic rt d out m = Inr d'" ..
  have nb: "dhas ''num_boxes'' d" by (rule labels_typed_has [OF typed(1)])
  show ?thesis
    using size nb dhas_nonempty [OF nb]
    by (simp add: resnet_v1_18_detection_def given_pos out a)
qed

lemma regnet_total:
  assumes shape: "im_shape img = [ih, iw, c]" "0 < ih" "0 < iw" "0 < c"
    and size: "0 < h" "0 < w"
    and typed: "labels_typed d MAX_PADDING_LENGTH" "boxes_ok d m" "sizes_ok d"
      "area_ok d MAX_PADDING_LENGTH"
  shows "\<exists>out d'. regnet_detection rt img (Some d) (Some h) (Some w) m = Inr (out, Some d')"
proof -
  from resize_single_ok [of "tf_cast_image rt Float32 img" ih iw c h w rt "Bilinear True"]
    shape size obtain out where
    out: "resize_single rt (Bilinear True) (tf_cast_image rt Float32 img) h w = Inr out"
    by auto
  from annotate_basic_total [OF typed] obtain d' where
    a: "annotate_basic rt d out m = Inr d'" ..
  have nb: "dhas ''num_boxes'' d" by (rule labels_typed_has [OF typed(1)])
  show ?thesis
    using size nb dhas_nonempty [OF nb]
    by (simp add: regnet_detection_def given_pos out a)
qed

lemma set_geometry_total:
  "\<exists>d'. set_geometry (Some h) (Some w) (Some (ih, iw, nh, nw)) d = Inr d'"
  by (simp add: set_geometry_def local_var_def py_some_def Let_def)

lemma boxes_if_present_total:
  assumes "boxes_ok d m" "sizes_ok d"
  shows "\<exists>d'. boxes_if_present m d = Inr d'"
proof -
  from extract_box_ok [OF assms(1), of True] assms(2) obtain a b c e d2 where
    2: "extract_box_from_image_info d m True = Inr ((a, b, c, e), d2)" and
    3: "\<And>d3. \<exists>t. set_bbox a b c e d3 = Inr (dset ''bbox'' (VTensor t) d3)"
    by blast
  from 3 [of d2] show ?thesis
    by (auto simp: boxes_if_present_def 2)
qed

lemma cast_then_boxes_total:
  assumes typed: "labels_typed d m0" "boxes_ok d m" "sizes_ok d"
  shows "\<exists>d1 d2. cast_image_info_types rt d img m0 = Inr d1 \<and> boxes_if_present m d1 = Inr d2"
proof -
  from cast_image_info_types_total [OF typed(1)] obtain d1 where
    1: "cast_image_info_types rt d img m0 = Inr d1" ..
  note c = cast_image_info_types_Inr(1) [OF 1]
  have b1: "boxes_ok d1 m"
    by (rule boxes_ok_cong [OF typed(2)]) (auto simp: c box_keys_def cast_keys_def)
  have s1: "sizes_ok d1"
    by (rule sizes_ok_cong [OF typed(3)]) (simp_all add: c box_keys_not_cast)
  from boxes_if_present_total [OF b1 s1] 1 show ?thesis by blast
qed

lemma face_ssd_total:
  assumes shape: "im_shape img = [ih, iw, c]" "0 < ih" "0 < iw" "0 < c"
    and size: "0 < h" "0 < w"
    and typed: "labels_typed d m" "boxes_ok d m" "sizes_ok d"
  shows "\<exists>out d'. face_ssd rt img (Some d) (Some h) (Some w) m = Inr (out, Some d')"
proof -
  let ?img = "if im_dtype img = UInt8 then tf_cast_image rt Float32 img else img"
  have sh: "im_shape ?img = [ih, iw, c]" using shape by simp
  from resize_single_ok [OF sh shape(2-4) size, of rt "Bilinear False"] obtain out where
    out: "resize_single rt (Bilinear False) ?img h w = Inr out"
    by auto
  from cast_then_boxes_total [OF typed] obtain d1 d2 where
    1: "cast_image_info_types rt d out m = Inr d1" and 2: "boxes_if_present m d1 = Inr d2"
    by blast
  from set_geometry_total obtain d' where
    3: "set_geometry (Some h) (Some w) (Some (ih, iw, h, w)) d2 = Inr d'" ..
  have ne: "d \<noteq> []" by (rule dhas_nonempty [OF labels_typed_has [OF typed(1)]])
  show ?thesis
    using size ne
    by (simp add: face_ssd_def Let_def given_pos image_dims [OF sh] out 1 2 3)
qed

lemma retinaface_total:
  assumes shape: "im_shape img = [ih, iw, c]" "0 < ih" "0 < iw" "0 < c"
    and size: "0 < h" "0 < w"
    and fit: "1 \<le> ar_height ih iw h w" "1 \<le> ar_width ih iw h w"
    and typed: "labels_typed d m" "boxes_ok d m" "sizes_ok d"
  shows "\<exists>out d'. retinaface rt img (Some d) (Some h) (Some w) m = Inr (out, Some d')"
proof -
  let ?img = "if im_dtype img = UInt8 then tf_cast_image rt Float32 img else img"
  have sh: "im_shape ?img = [ih, iw, c]" using shape by simp
  from ar_total(1) [OF sh shape(2-4) size, of rt] fit obtain r where
    r: "ar_preserving_resize_and_crop rt h ?img w = Inr r"
    by blast
  from cast_then_boxes_total [OF typed] obtain d1 d2 where
    1: "cast_image_info_types rt d (ar_image r) m = Inr d1" and 2: "boxes_if_present m d1 = Inr d2"
    by blast
  from set_geometry_total obtain d' where
    3: "set_geometry (Some h) (Some w)
          (Some (ar_image_height r, ar_image_width r, ar_new_height r, ar_new_width r)) d2 = Inr d'" ..
  have ne: "d \<noteq> []" by (rule dhas_nonempty [OF labels_typed_has [OF typed(1)]])
  show ?thesis
    using size ne
    by (simp add: retinaface_def Let_def given_pos r 1 2 3)
qed

lemma py_func_letterbox_total:
  assumes "im_shape img = [ih, iw, 3]" "0 < ih" "0 < iw" "0 < h" "0 < w" "im_dtype img = UInt8"
    and "1 \<le> lb_new_width ih iw h w" "1 \<le> lb_new_height ih iw h w"
  shows "\<exists>lb. py_func_letterbox rt color img h w =
     Inr (lb, lb_new_width ih iw h w, lb_new_height ih iw h w) \<and> im_dtype lb = UInt8"
  using letterbox_rgb(1) [OF assms(1-5), of rt color] assms(6-8)
  by (auto simp: py_func_letterbox_def)

lemma fair_mot_total:
  assumes shape: "im_shape img = [ih, iw, 3]" "0 < ih" "0 < iw" "im_dtype img = UInt8"
    and size: "0 < h" "0 < w"
    and fit: "1 \<le> lb_new_width ih iw h w" "1 \<le> lb_new_height ih iw h w"
    and typed: "labels_typed d m" "boxes_ok d m" "mot_typed d m"
  shows "\<exists>out d'. fair_mot rt img (Some d) (Some h) (Some w) m = Inr (out, Some d')"
proof -
  from py_func_letterbox_total [OF shape(1-3) size shape(4) fit, of rt default_color]
  obtain lb where
    lb: "py_func_letterbox rt default_color img h w =
           Inr (lb, lb_new_width ih iw h w, lb_new_height ih iw h w)" "im_dtype lb = UInt8"
    by blast
  let ?out = "tf_cast_image rt Float32 lb"
  from cast_image_info_types_total [OF typed(1)] obtain d1 where
    1: "cast_image_info_types rt d ?out m = Inr d1" ..
  note c = cast_image_info_types_Inr(1) [OF 1]
  have b1: "boxes_ok d1 m"
    by (rule boxes_ok_cong [OF typed(2)]) (auto simp: c box_keys_def cast_keys_def)
  from extract_box_ok [OF b1, of False] obtain a b cc e d2 where
    2: "extract_box_from_image_info d1 m False = Inr ((a, b, cc, e), d2)" and
    3: "\<And>d3. \<exists>t. set_bbox a b cc e d3 = Inr (dset ''bbox'' (VTensor t) d3)"
    by blast
  from 3 [of d2] obtain t where 3: "set_bbox a b cc e d2 = Inr (dset ''bbox'' (VTensor t) d2)" ..
  let ?d3 = "dset ''bbox'' (VTensor t) d2"
  from set_geometry_total obtain d4 where
    4: "set_geometry (Some h) (Some w)
          (Some (ih, iw, lb_new_height ih iw h w, lb_new_width ih iw h w)) ?d3 = Inr d4" ..
  note g = set_geometry_frame [OF 4]
  have keep: "map_of d4 k = map_of d k" if "k \<in> fair_mot_keys" for k
    using that
    by (auto simp: g pad_keys_def fair_mot_keys_def extract_box_frame [OF 2] box_keys_def c
        cast_keys_def)
  from typed(3) obtain p1 where p1: "map_of d ''person_id'' = Some (VTensor (T1 p1))"
      "int (length p1) \<le> m"
    unfolding mot_typed_def fair_mot_keys_def by auto
  from typed(3) obtain p2 where p2: "map_of d ''label'' = Some (VTensor (T1 p2))"
      "int (length p2) \<le> m"
    unfolding mot_typed_def fair_mot_keys_def by auto
  from typed(3) obtain p3 where p3: "map_of d ''is_ignore'' = Some (VTensor (T1 p3))"
      "int (length p3) \<le> m"
    unfolding mot_typed_def fair_mot_keys_def by auto
  have "map_of d4 ''person_id'' = Some (VTensor (T1 p1))"
    using keep [of "''person_id''"] p1 by (simp add: fair_mot_keys_def)
  from pad_entry_total [OF this p1(2)] obtain q1 where
    5: "pad_entry ''person_id'' m d4 = Inr (dset ''person_id'' (VTensor q1) d4)" ..
  let ?d5 = "dset ''person_id'' (VTensor q1) d4"
  have "map_of ?d5 ''label'' = Some (VTensor (T1 p2))"
    using keep [of "''label''"] p2 by (simp add: fair_mot_keys_def)
  from pad_entry_total [OF this p2(2)] obtain q2 where
    6: "pad_entry ''label'' m ?d5 = Inr (dset ''label'' (VTensor q2) ?d5)" ..
  let ?d6 = "dset ''label'' (VTensor q2) ?d5"
  have "map_of ?d6 ''is_ignore'' = Some (VTensor (T1 p3))"
    using keep [of "''is_ignore''"] p3 by (simp add: fair_mot_keys_def)
  from pad_entry_total [OF this p3(2)] obtain q3 where
    7: "pad_entry ''is_ignore'' m ?d6 = Inr (dset ''is_ignore'' (VTensor q3) ?d6)" ..
  have ne: "d \<noteq> []" by (rule dhas_nonempty [OF labels_typed_has [OF typed(1)]])
  show ?thesis
    using size ne
    by (simp add: fair_mot_def Let_def given_pos image_dims [OF shape(1)] lb 1 2 3 4 5 6 7)
qed

lemma yolo_v5_total:
  assumes shape: "im_shape img = [ih, iw, 3]" "0 < ih" "0 < iw" "im_dtype img = UInt8"
    and size: "0 < h" "0 < w"
    and fit: "1 \<le> lb_new_width ih iw h w" "1 \<le> lb_new_height ih iw h w"
    and typed: "labels_typed d MAX_PADDING_LENGTH" "boxes_ok d MAX_PADDING_LENGTH" "sizes_ok d"
      "area_ok d MAX_PADDING_LENGTH"
  shows "\<exists>out d'. yolo_v5 rt img (Some d) (Some h) (Some w) color = Inr (out, Some d')"
proof -
  from py_func_letterbox_total [OF shape(1-3) size shape(4) fit, of rt color]
  obtain lb where
    lb: "py_func_letterbox rt color img h w =
           Inr (lb, lb_new_width ih iw h w, lb_new_height ih iw h w)" "im_dtype lb = UInt8"
    by blast
  let ?out = "tf_cast_image rt Float32 lb"
  let ?d0 = "dset ''img_orig'' (VImage (tf_cast_image rt UInt8 ?out)) d"
  have "labels_typed ?d0 MAX_PADDING_LENGTH"
    by (rule labels_typed_cong [OF typed(1)]) auto
  from cast_image_info_types_total [OF this] obtain d1 where
    1: "cast_image_info_types rt ?d0 ?out MAX_PADDING_LENGTH = Inr d1" ..
  note c = cast_image_info_types_Inr(1) [OF 1]
  have b1: "boxes_ok d1 MAX_PADDING_LENGTH"
    by (rule boxes_ok_cong [OF typed(2)]) (auto simp: c box_keys_def cast_keys_def)
  have s1: "sizes_ok d1"
    by (rule sizes_ok_cong [OF typed(3)]) (simp_all add: c box_keys_not_cast)
  from extract_box_ok [OF b1 s1] obtain a b cc e d2 where
    2: "extract_box_from_image_info d1 MAX_PADDING_LENGTH True = Inr ((a, b, cc, e), d2)" and
    3: "\<And>d3. \<exists>t. set_bbox a b cc e d3 = Inr (dset ''bbox'' (VTensor t) d3)"
    by blast
  from 3 [of d2] obtain t where 3: "set_bbox a b cc e d2 = Inr (dset ''bbox'' (VTensor t) d2)" ..
  let ?d4 = "dset ''width'' (nat_val iw) (dset ''height'' (nat_val ih) (dset ''bbox'' (VTensor t) d2))"
  have "area_ok ?d4 MAX_PADDING_LENGTH"
    by (rule area_ok_cong [OF typed(4)])
       (simp add: extract_box_frame [OF 2] c box_keys_def box_keys_not_cast)
  from pad_area_ok [OF this] obtain u where
    4: "pad_area MAX_PADDING_LENGTH ?d4 = Inr (dset ''area'' (VTensor u) ?d4)" ..
  have nb: "dhas ''num_boxes'' d" by (rule labels_typed_has [OF typed(1)])
  show ?thesis
    using size nb
    by (simp add: yolo_v5_def Let_def given_pos image_dims [OF shape(1)] lb dset_opt_def
        1 2 3 4 local_var_def py_some_def)
qed


lemma pop_by_entry_ok:
  assumes "map_of d k = Some (VTensor (T1 xs))" "map_of d key = Some (VTensor (T0 s))" "key \<noteq> k"
    "int (length xs) \<le> m" "m \<noteq> 1"
  shows "pop_column k (by_entry key) m d =
     Inr (column (padded (map (\<lambda>x. x * s) xs) m), AList.delete k d)"
  using assms by (simp add: pop_column_def dpop_Some by_entry_T0 padded_column_T1)

lemma pop_by_factor_ok:
  assumes "map_of d k = Some (VTensor (T1 xs))" "int (length xs) \<le> m" "m \<noteq> 1"
  shows "pop_column k (by_factor (Some r) f) m d =
     Inr (column (padded (map (\<lambda>x. x * aspect_ratio_factor r * f r) xs) m), AList.delete k d)"
  using assms by (simp add: pop_column_def dpop_Some by_factor_Some padded_column_T1)

lemma labels_steps:
  assumes "labels_typed d m"
  shows "\<exists>d3. bind (cast_num_boxes (dset ''img_orig'' v d)) (\<lambda>d.
           bind (pad_entry ''category_id'' m d) (\<lambda>d. pad_entry ''is_crowd'' m d)) = Inr d3 \<and>
         (\<forall>k. k \<notin> cast_keys \<longrightarrow> map_of d3 k = map_of d k)"
proof -
  from assms obtain n cs ic where
    t: "map_of d ''num_boxes'' = Some (VTensor n)"
       "map_of d ''category_id'' = Some (VTensor (T1 cs))" "int (length cs) \<le> m"
       "map_of d ''is_crowd'' = Some (VTensor (T1 ic))" "int (length ic) \<le> m"
    unfolding labels_typed_def by blast
  let ?d0 = "dset ''img_orig'' v d"
  have "map_of ?d0 ''num_boxes'' = Some (VTensor n)" using t by simp
  from cast_num_boxes_total [OF this] obtain tn where
    1: "cast_num_boxes ?d0 = Inr (dset ''num_boxes'' (VTensor tn) ?d0)" ..
  let ?d1 = "dset ''num_boxes'' (VTensor tn) ?d0"
  have "map_of ?d1 ''category_id'' = Some (VTensor (T1 cs))" using t by simp
  from pad_entry_total [OF this t(3)] obtain p where
    2: "pad_entry ''category_id'' m ?d1 = Inr (dset ''category_id'' (VTensor p) ?d1)" ..
  let ?d2 = "dset ''category_id'' (VTensor p) ?d1"
  have "map_of ?d2 ''is_crowd'' = Some (VTensor (T1 ic))" using t by simp
  from pad_entry_total [OF this t(5)] obtain q where
    3: "pad_entry ''is_crowd'' m ?d2 = Inr (dset ''is_crowd'' (VTensor q) ?d2)" ..
  show ?thesis
    by (simp add: 1 2 3 cast_keys_def)
qed

lemma mobilenet_ssd_total:
  assumes shape: "im_shape img = [ih, iw, c]" "0 < ih" "0 < iw" "0 < c"
    and size: "0 < h" "0 < w"
    and typed: "labels_typed d m" "boxes_typed d xs0 xs1 ys0 ys1"
      "size_typed d sh sw" "area_ok d m"
    and len: "int (length xs0) \<le> m" "int (length xs1) \<le> m" "int (length ys0) \<le> m"
      "int (length ys1) \<le> m"
  shows "\<exists>out d'. mobilenet_ssd rt img (Some d) (Some h) (Some w) m = Inr (out, Some d')"
proof -
  have m1: "m \<noteq> 1" using typed(4) by (auto simp: area_ok_def)
  let ?img = "if im_dtype img \<noteq> Float32 then convert_image_dtype_float32 img else img"
  have sh: "im_shape (image_expand_dims_0 ?img) = [1, ih, iw, c]"
    using shape by (simp add: convert_image_dtype_float32_def)
  from tf_resize_ok [OF sh shape(2-4) size, of rt "Bilinear False"] obtain r1 where
    r1: "tf_resize rt (Bilinear False) (image_expand_dims_0 ?img) h w = Inr r1"
      "im_shape r1 = [1, nat h, nat w, c]"
    by auto
  from tf_resize_ok [of "image_expand_dims_0 img" 1 ih iw c h w rt "Bilinear False"] shape size
  obtain r2 where
    r2: "tf_resize rt (Bilinear False) (image_expand_dims_0 img) h w = Inr r2"
      "im_shape r2 = [1, nat h, nat w, c]"
    by auto
  from squeeze_0_ok [OF r1(2)] obtain out where out: "image_squeeze_0 r1 = Inr out" by blast
  from squeeze_0_ok [OF r2(2)] obtain sq where sq: "image_squeeze_0 r2 = Inr sq" by blast
  from labels_steps [OF typed(1), of "VImage (tf_cast_image rt UInt8 sq)"] obtain d3 where
    l: "bind (cast_num_boxes (dset ''img_orig'' (VImage (tf_cast_image rt UInt8 sq)) d)) (\<lambda>d.
           bind (pad_entry ''category_id'' m d) (\<lambda>d. pad_entry ''is_crowd'' m d)) = Inr d3" and
    f: "\<And>k. k \<notin> cast_keys \<Longrightarrow> map_of d3 k = map_of d k"
    by blast
  from l obtain d1 d2 where
    1: "cast_num_boxes (dset ''img_orig'' (VImage (tf_cast_image rt UInt8 sq)) d) = Inr d1" and
    2: "pad_entry ''category_id'' m d1 = Inr d2" and 3: "pad_entry ''is_crowd'' m d2 = Inr d3"
    by (auto simp: bind_eq_Inr)
  have t3: "map_of d3 ''xmin'' = Some (VTensor (T1 xs0))"
      "map_of d3 ''xmax'' = Some (VTensor (T1 xs1))"
      "map_of d3 ''ymin'' = Some (VTensor (T1 ys0))"
      "map_of d3 ''ymax'' = Some (VTensor (T1 ys1))"
      "map_of d3 ''width'' = Some (VTensor (T0 sw))"
      "map_of d3 ''height'' = Some (VTensor (T0 sh))"
    using typed(2,3) by (simp_all add: f box_keys_not_cast boxes_typed_def size_typed_def)
  let ?d4 = "AList.delete ''xmin'' d3"
  let ?d5 = "AList.delete ''xmax'' ?d4"
  let ?d6 = "AList.delete ''ymin'' ?d5"
  let ?d7 = "AList.delete ''ymax'' ?d6"
  let ?x0 = "padded (map (\<lambda>x. x * sw) xs0) m" and ?x1 = "padded (map (\<lambda>x. x * sw) xs1) m"
  let ?y0 = "padded (map (\<lambda>x. x * sh) ys0) m" and ?y1 = "padded (map (\<lambda>x. x * sh) ys1) m"
  have p1: "pop_column ''xmin'' (by_entry ''width'') m d3 = Inr (column ?x0, ?d4)"
    by (rule pop_by_entry_ok) (simp_all add: t3 len m1)
  have p2: "pop_column ''xmax'' (by_entry ''width'') m ?d4 = Inr (column ?x1, ?d5)"
    by (rule pop_by_entry_ok) (simp_all add: t3 len m1)
  have p3: "pop_column ''ymin'' (by_entry ''height'') m ?d5 = Inr (column ?y0, ?d6)"
    by (rule pop_by_entry_ok) (simp_all add: t3 len m1)
  have p4: "pop_column ''ymax'' (by_entry ''height'') m ?d6 = Inr (column ?y1, ?d7)"
    by (rule pop_by_entry_ok) (simp_all add: t3 len m1)
  have b: "set_bbox (column ?x0) (column ?x1) (column ?y0) (column ?y1) ?d7 =
      Inr (dset ''bbox'' (VTensor (xywh ?x0 ?y0 ?x1 ?y1)) ?d7)"
    by (rule set_bbox_columns) (simp_all add: length_padded_map len)
  have "area_ok (dset ''bbox'' (VTensor (xywh ?x0 ?y0 ?x1 ?y1)) ?d7) m"
    by (rule area_ok_cong [OF typed(4)]) (simp add: f box_keys_not_cast)
  from pad_area_ok [OF this] obtain u where
    a: "pad_area m (dset ''bbox'' (VTensor (xywh ?x0 ?y0 ?x1 ?y1)) ?d7) =
         Inr (dset ''area'' (VTensor u) (dset ''bbox'' (VTensor (xywh ?x0 ?y0 ?x1 ?y1)) ?d7))" ..
  have nb: "dhas ''num_boxes'' d" by (rule labels_typed_has [OF typed(1)])
  show ?thesis
    using size nb dhas_nonempty [OF nb]
    by (simp add: mobilenet_ssd_def Let_def given_pos r1(1) r2(1) out sq 1 2 3 p1 p2 p3 p4 b a)
qed

lemma ar_preserving_total:
  assumes shape: "im_shape img = [ih, iw, c]" "0 < ih" "0 < iw" "0 < c"
    and size: "0 < h" "0 < w"
    and fit: "1 \<le> ar_height ih iw h w" "1 \<le> ar_width ih iw h w"
    and typed: "labels_typed d m" "boxes_typed d xs0 xs1 ys0 ys1" "area_ok d m"
    and len: "int (length xs0) \<le> m" "int (length xs1) \<le> m" "int (length ys0) \<le> m"
      "int (length ys1) \<le> m"
  shows "\<exists>out d'. mobilenet_ssd_ar_preserving rt img (Some d) (Some h) (Some w) m =
           Inr (out, Some d')"
proof -
  have m1: "m \<noteq> 1" using typed(3) by (auto simp: area_ok_def)
  from ar_total(1) [OF shape size, of rt] fit obtain r where
    r: "ar_preserving_resize_and_crop rt h img w = Inr r"
    by blast
  let ?out = "if im_dtype (ar_image r) = UInt8 then tf_cast_image rt Float32 (ar_image r)
              else ar_image r"
  from labels_steps [OF typed(1), of "VImage (tf_cast_image rt UInt8 ?out)"] obtain d3 where
    l: "bind (cast_num_boxes (dset ''img_orig'' (VImage (tf_cast_image rt UInt8 ?out)) d)) (\<lambda>d.
           bind (pad_entry ''category_id'' m d) (\<lambda>d. pad_entry ''is_crowd'' m d)) = Inr d3" and
    f: "\<And>k. k \<notin> cast_keys \<Longrightarrow> map_of d3 k = map_of d k"
    by blast
  from l obtain d1 d2 where
    1: "cast_num_boxes (dset ''img_orig'' (VImage (tf_cast_image rt UInt8 ?out)) d) = Inr d1" and
    2: "pad_entry ''category_id'' m d1 = Inr d2" and 3: "pad_entry ''is_crowd'' m d2 = Inr d3"
    by (auto simp: bind_eq_Inr)
  have t3: "map_of d3 ''xmin'' = Some (VTensor (T1 xs0))"
      "map_of d3 ''xmax'' = Some (VTensor (T1 xs1))"
      "map_of d3 ''ymin'' = Some (VTensor (T1 ys0))"
      "map_of d3 ''ymax'' = Some (VTensor (T1 ys1))"
    using typed(2) by (simp_all add: f box_keys_not_cast boxes_typed_def)
  let ?d4 = "AList.delete ''xmin'' d3"
  let ?d5 = "AList.delete ''xmax'' ?d4"
  let ?d6 = "AList.delete ''ymin'' ?d5"
  let ?d7 = "AList.delete ''ymax'' ?d6"
  let ?fw = "\<lambda>x. x * aspect_ratio_factor r * image_width_float r"
  let ?fh = "\<lambda>x. x * aspect_ratio_factor r * image_height_float r"
  let ?x0 = "padded (map ?fw xs0) m" and ?x1 = "padded (map ?fw xs1) m"
  let ?y0 = "padded (map ?fh ys0) m" and ?y1 = "padded (map ?fh ys1) m"
  have p1: "pop_column ''xmin'' (by_factor (Some r) image_width_float) m d3 = Inr (column ?x0, ?d4)"
    by (rule pop_by_factor_ok) (simp_all add: t3 len m1)
  have p2: "pop_column ''xmax'' (by_factor (Some r) image_width_float) m ?d4 = Inr (column ?x1, ?d5)"
    by (rule pop_by_factor_ok) (simp_all add: t3 len m1)
  have p3: "pop_column ''ymin'' (by_factor (Some r) image_height_float) m ?d5 = Inr (column ?y0, ?d6)"
    by (rule pop_by_factor_ok) (simp_all add: t3 len m1)
  have p4: "pop_column ''ymax'' (by_factor (Some r) image_height_float) m ?d6 = Inr (column ?y1, ?d7)"
    by (rule pop_by_factor_ok) (simp_all add: t3 len m1)
  let ?d8 = "dset ''width'' (py_opt_int (Some w)) (dset ''height'' (py_opt_int (Some h)) ?d7)"
  have b: "set_bbox (column ?x0) (column ?x1) (column ?y0) (column ?y1) ?d8 =
      Inr (dset ''bbox'' (VTensor (xywh ?x0 ?y0 ?x1 ?y1)) ?d8)"
    by (rule set_bbox_columns) (simp_all add: length_padded_map len)
  have ok: "area_ok (dset ''bbox'' (VTensor (xywh ?x0 ?y0 ?x1 ?y1)) ?d8) m"
    by (rule area_ok_cong [OF typed(3)]) (simp add: f box_keys_not_cast)
  from pad_area_ok [OF this] obtain u where
    a: "pad_area m (dset ''bbox'' (VTensor (xywh ?x0 ?y0 ?x1 ?y1)) ?d8) =
         Inr (dset ''area'' (VTensor u) (dset ''bbox'' (VTensor (xywh ?x0 ?y0 ?x1 ?y1)) ?d8))" ..
  have ha: "dhas ''area'' (dset ''bbox'' (VTensor (xywh ?x0 ?y0 ?x1 ?y1)) ?d8)"
    using ok by (auto simp: area_ok_def dhas_def)
  have nb: "dhas ''num_boxes'' d" by (rule labels_typed_has [OF typed(1)])
  show ?thesis
    using size nb dhas_nonempty [OF nb] ha
    by (simp add: mobilenet_ssd_ar_preserving_def Let_def given_pos r 1 2 3 p1 p2 p3 p4 b a
        pad_area_if_present_def)
qed

lemma bundle0_entries:
  "map_of bundle0 ''height'' = Some (VTensor (T0 2))"
  "map_of bundle0 ''width'' = Some (VTensor (T0 4))"
  "map_of bundle0 ''num_boxes'' = Some (VTensor (T0 1))"
  "map_of bundle0 ''xmin'' = Some (VTensor (T1 [1 / 4]))"
  "map_of bundle0 ''xmax'' = Some (VTensor (T1 [3 / 4]))"
  "map_of bundle0 ''ymin'' = Some (VTensor (T1 [1 / 2]))"
  "map_of bundle0 ''ymax'' = Some (VTensor (T1 [1]))"
  "map_of bundle0 ''area'' = Some (VTensor (T1 [1]))"
  "map_of bundle0 ''category_id'' = Some (VTensor (T1 [1]))"
  "map_of bundle0 ''is_crowd'' = Some (VTensor (T1 [0]))"
  "map_of bundle0 ''person_id'' = Some (VTensor (T1 [7]))"
  "map_of bundle0 ''label'' = Some (VTensor (T1 [1]))"
  "map_of bundle0 ''is_ignore'' = Some (VTensor (T1 [0]))"
  "map_of bundle0 ''image_id'' = Some (VTensor (T0 7))"
  by (simp_all add: bundle0_def)

lemma bundle0_has: "dhas ''num_boxes'' bundle0" "dhas ''xmin'' bundle0" "bundle0 \<noteq> []"
  by (simp_all add: dhas_def bundle0_entries) (simp add: bundle0_def)

lemma bundle0_boxes: "boxes_typed bundle0 [1 / 4] [3 / 4] [1 / 2] [1]"
  by (simp add: boxes_typed_def bundle0_entries)

lemma bundle0_size: "size_typed bundle0 2 4"
  by (simp add: size_typed_def bundle0_entries)

lemma bundle0_labels: "1 \<le> m \<Longrightarrow> labels_typed bundle0 m"
  by (simp add: labels_typed_def bundle0_entries)

lemma bundle0_boxes_ok: "2 \<le> m \<Longrightarrow> boxes_ok bundle0 m"
  unfolding boxes_ok_def using bundle0_boxes by (intro exI [of _ "[_]"]) auto

lemma bundle0_sizes_ok: "sizes_ok bundle0"
  unfolding sizes_ok_def using bundle0_size by blast

lemma bundle0_area_ok: "2 \<le> m \<Longrightarrow> area_ok bundle0 m"
  by (simp add: area_ok_def bundle0_entries)

lemma bundle0_mot: "1 \<le> m \<Longrightarrow> mot_typed bundle0 m"
  by (simp add: mot_typed_def fair_mot_keys_def bundle0_entries)

lemma img0_shape: "im_shape img0 = [2, 4, 3]" "im_dtype img0 = UInt8"
  by (simp_all add: img0_def)

lemma py_round_of_int [simp]: "py_round (of_int n) = n"
  by (simp add: py_round_def)

lemma lb_example: "lb_new_width 2 4 8 8 = 8" "lb_new_height 2 4 8 8 = 4"
proof -
  have r: "lb_ratio 2 4 8 8 = 2" by (simp add: lb_ratio_def)
  have "(4 :: rat) * 2 = of_int 8" "(2 :: rat) * 2 = of_int 4" by simp_all
  then show "lb_new_width 2 4 8 8 = 8" "lb_new_height 2 4 8 8 = 4"
    unfolding lb_new_width_def lb_new_height_def r of_nat_numeral by (simp_all only: py_round_of_int)
qed

lemma ar_example: "ar_factor 2 4 8 8 = 2" "ar_height 2 4 8 8 = 4" "ar_width 2 4 8 8 = 8"
proof -
  show f: "ar_factor 2 4 8 8 = 2" by (simp add: ar_factor_def)
  have "(2 :: rat) * 2 = of_int 4" "(2 :: rat) * 4 = of_int 8" by simp_all
  then show "ar_height 2 4 8 8 = 4" "ar_width 2 4 8 8 = 8"
    unfolding ar_height_def ar_width_def f of_nat_numeral by (simp_all only: tf_trunc_of_int)
qed

lemma lb_tall: "lb_new_width 1000 1 10 10 = 0"
proof -
  have r: "lb_ratio 1000 1 10 10 = 1 / 100" by (simp add: lb_ratio_def)
  have f: "\<lfloor>1 / 100 :: rat\<rfloor> = 0" by (rule floor_unique) simp_all
  show ?thesis unfolding lb_new_width_def r by (simp add: py_round_def f)
qed

section \<open>The claims\<close>

subsection \<open>C7: the length of a padded tensor\<close>

text \<open>
  Claim C7.  For a vector of length \<open>n \<le> max_tensor_padding\<close> the function \<^verbatim>\<open>_pad_tensor\<close> is
  to return a vector of length \<open>max_tensor_padding\<close>: the entries of the input followed by
  the sentinel \<open>-1\<close>.  At \<open>max_tensor_padding = 1\<close> it does not: \<^verbatim>\<open>tf.squeeze\<close> is called with
  no axis, removes both dimensions of the \<open>[1, 1]\<close> tensor and returns a scalar.  (Lemma
  \<open>pad_tensor_T1\<close> gives the result for every vector and every length: a failure for
  \<open>n > max_tensor_padding\<close>, the padded vector for every other length than 1.)
\<close>

theorem pad_tensor_length_one: "pad_tensor (T1 [5]) 1 = Inr (T0 5)"
  by (simp add: pad_tensor_T1)

subsection \<open>C9: the second stage of Faster R-CNN\<close>

text \<open>
  Claim C9.  On a bundle that holds the proposals, their number \<open>n\<close>, the name and the id
  of the image, \<^verbatim>\<open>faster_rcnn_stage2\<close> returns the pooled feature maps and a bundle without
  \<^verbatim>\<open>num_rpn_boxes\<close>, in which \<^verbatim>\<open>image_name\<close> and \<^verbatim>\<open>image_id\<close> are the original scalar repeated
  \<open>n\<close> times, and every other entry, \<^verbatim>\<open>rpn_proposals\<close> among them, is as it was.
\<close>

theorem faster_rcnn_stage2_repeats:
  assumes "map_of d ''rpn_proposals'' = Some proposals"
    and "map_of d ''num_rpn_boxes'' = Some (VTensor (T0 (of_nat n)))"
    and "map_of d ''image_name'' = Some (VStr name)"
    and "map_of d ''image_id'' = Some (VTensor (T0 ident))"
    and "roi_align rt featuremap proposals = Inr pooled"
    and "im_dtype pooled = Float32"
  shows "\<exists>d'. faster_rcnn_stage2 rt featuremap (Some d) =
            Inr (image_squeeze (image_expand_dims_0 pooled), Some d') \<and>
          map_of d' = (map_of d)(''num_rpn_boxes'' := None,
                                 ''image_name'' \<mapsto> VStrs (replicate n name),
                                 ''image_id'' \<mapsto> VTensor (T1 (replicate n ident)))"
  using assms
  by (simp add: faster_rcnn_stage2_def dget_Some dpop_Some tf_repeat_def fun_upd_twist)

theorem faster_rcnn_stage2_repeats_witness:
  "\<exists>d'. faster_rcnn_stage2 rt0 fm0 (Some stage1_info) =
            Inr (image_squeeze (image_expand_dims_0
                   \<lparr>im_shape = [2, 7, 7, 4], im_dtype = Float32, im_px = (\<lambda>idx. 0)\<rparr>), Some d') \<and>
          map_of d' ''num_rpn_boxes'' = None \<and>
          map_of d' ''image_name'' = Some (VStrs [''a.jpg'', ''a.jpg'']) \<and>
          map_of d' ''image_id'' = Some (VTensor (T1 [7, 7])) \<and>
          map_of d' ''rpn_proposals'' = Some (VTensor (T2 [[0, 0, 1, 1], [0, 0, 2, 2]]))"
proof -
  have n: "VTensor (T0 2) = VTensor (T0 (of_nat 2))" by simp
  from faster_rcnn_stage2_repeats [of stage1_info "VTensor (T2 [[0, 0, 1, 1], [0, 0, 2, 2]])" 2 "''a.jpg''" 7 rt0 fm0
      "\<lparr>im_shape = [2, 7, 7, 4], im_dtype = Float32, im_px = (\<lambda>idx. 0)\<rparr>"]
  obtain d' where "faster_rcnn_stage2 rt0 fm0 (Some stage1_info) =
            Inr (image_squeeze (image_expand_dims_0
                   \<lparr>im_shape = [2, 7, 7, 4], im_dtype = Float32, im_px = (\<lambda>idx. 0)\<rparr>), Some d')"
    and "map_of d' = (map_of stage1_info)(''num_rpn_boxes'' := None,
                                 ''image_name'' \<mapsto> VStrs (replicate 2 ''a.jpg''),
                                 ''image_id'' \<mapsto> VTensor (T1 (replicate 2 7)))"
    by (auto simp: stage1_info_def rt0_def)
  then show ?thesis
    by (auto simp: stage1_info_def numeral_2_eq_2)
qed

subsection \<open>C1: the box transform of CenterNet\<close>



subsection \<open>C6: the resize kernel of yolo\_v3 and the range of its pixels\<close>

text \<open>
  Claim C6.  When \<^verbatim>\<open>yolo_v3\<close> is given a height and a width and returns, the image it returns
  is the input, cast to float, resized by one kernel with \<^verbatim>\<open>align_corners=True\<close>, clipped to
  \<open>[0, 255]\<close> and squeezed.  The kernel is bicubic when the target is strictly larger than the
  input in both dimensions, area when it is strictly smaller in both, bilinear in every
  other case (ties and mixed cases among them).  Every pixel of the result lies in
  \<open>[0, 255]\<close>.
\<close>

theorem yolo_v3_kernel_and_range:
  assumes "yolo_v3 rt img info (Some height) (Some width) = Inr (out, info')"
    and "height \<noteq> 0" and "width \<noteq> 0"
    and "im_shape img = ih # iw # rest"
  shows "(\<exists>k resized.
            tf_resize rt k (image_expand_dims_0 (tf_cast_image rt Float32 img)) height width
              = Inr resized \<and>
            image_squeeze_0 (image_clip resized 0 255) = Inr out \<and>
            k = gluon_kernel ih iw height width \<and>
            (int ih < height \<and> int iw < width \<longrightarrow> k = Bicubic True) \<and>
            (height < int ih \<and> width < int iw \<longrightarrow> k = Area True) \<and>
            (\<not> (int ih < height \<and> int iw < width) \<and> \<not> (height < int ih \<and> width < int iw)
               \<longrightarrow> k = Bilinear True)) \<and>
         (\<forall>idx. 0 \<le> im_px out idx \<and> im_px out idx \<le> 255)"
proof -
  have g: "given (Some height) (Some width) = Some (height, width)"
    using assms(2,3) by (rule given_pos)
  from yolo_v3_image(1) [OF assms(1) g assms(4)] obtain resized where
    "tf_resize rt (gluon_kernel ih iw height width)
       (image_expand_dims_0 (tf_cast_image rt Float32 img)) height width = Inr resized"
    "image_squeeze_0 (image_clip resized 0 255) = Inr out"
    by blast
  moreover have "(int ih < height \<and> int iw < width \<longrightarrow> gluon_kernel ih iw height width = Bicubic True) \<and>
      (height < int ih \<and> width < int iw \<longrightarrow> gluon_kernel ih iw height width = Area True) \<and>
      (\<not> (int ih < height \<and> int iw < width) \<and> \<not> (height < int ih \<and> width < int iw)
         \<longrightarrow> gluon_kernel ih iw height width = Bilinear True)"
    by (auto simp: gluon_kernel_def)
  moreover have "\<forall>idx. 0 \<le> im_px out idx \<and> im_px out idx \<le> 255"
    using yolo_v3_image(2) [OF assms(1) g assms(4)] by blast
  ultimately show ?thesis by blast
qed

theorem yolo_v3_kernel_and_range_witness:
  "\<exists>out info' resized.
     yolo_v3 rt0 img0 (Some bundle0) (Some 8) (Some 8) = Inr (out, Some info') \<and>
     tf_resize rt0 (Bicubic True) (image_expand_dims_0 (tf_cast_image rt0 Float32 img0)) 8 8
       = Inr resized \<and>
     image_squeeze_0 (image_clip resized 0 255) = Inr out \<and>
     0 \<le> im_px out [0, 0, 0] \<and> im_px out [0, 0, 0] \<le> 255"
proof -
  have "labels_typed bundle0 MAX_PADDING_LENGTH" "boxes_ok bundle0 MAX_PADDING_LENGTH"
    "area_ok bundle0 MAX_PADDING_LENGTH"
    by (simp_all add: bundle0_labels bundle0_boxes_ok bundle0_area_ok MAX_PADDING_LENGTH_def)
  from yolo_v3_total [OF img0_shape(1) _ _ _ _ _ this, of 8 8 rt0]
  obtain out d' where run: "yolo_v3 rt0 img0 (Some bundle0) (Some 8) (Some 8) = Inr (out, Some d')"
    by auto
  from yolo_v3_kernel_and_range [OF run _ _ img0_shape(1)] run show ?thesis
    by auto
qed

subsection \<open>C10: the annotation path needs both target sizes\<close>

text \<open>
  Claim C10.  \<^verbatim>\<open>yolo_v5\<close>, \<^verbatim>\<open>fair_mot\<close>, \<^verbatim>\<open>face_ssd\<close> and \<^verbatim>\<open>retinaface\<close> bind \<^verbatim>\<open>image_height\<close>,
  \<^verbatim>\<open>image_width\<close>, \<^verbatim>\<open>new_height\<close> and \<^verbatim>\<open>new_width\<close> only under \<^verbatim>\<open>if height and width:\<close> and read
  them on the annotation path without a guard.  So a call whose \<^verbatim>\<open>height\<close> or \<^verbatim>\<open>width\<close> is
  missing or zero fails whenever the annotation path is entered: for \<^verbatim>\<open>yolo_v5\<close> when the
  bundle holds \<^verbatim>\<open>num_boxes\<close>, for the other three when the bundle is not empty.
\<close>

theorem annotations_need_size:
  assumes "\<not> (truthy height \<and> truthy width)"
  shows "(dhas ''num_boxes'' d \<longrightarrow> isl (yolo_v5 rt img (Some d) height width color)) \<and>
         (d \<noteq> [] \<longrightarrow> isl (fair_mot rt img (Some d) height width m) \<and>
                        isl (face_ssd rt img (Some d) height width m) \<and>
                        isl (retinaface rt img (Some d) height width m))"
proof -
  from assms have none: "given height width = None"
    by (simp add: given_None)
  show ?thesis
    using yolo_v5_needs_size [OF none] fair_mot_needs_size [OF none] face_ssd_needs_size [OF none]
      retinaface_needs_size [OF none]
    by blast
qed

theorem annotations_need_size_witness:
  "isl (yolo_v5 rt0 img0 (Some bundle0) None (Some 8) default_color) \<and>
   isl (fair_mot rt0 img0 (Some bundle0) None (Some 8) 3) \<and>
   isl (face_ssd rt0 img0 (Some bundle0) None (Some 8) 3) \<and>
   isl (retinaface rt0 img0 (Some bundle0) None (Some 8) 3)"
  using annotations_need_size [where height = None and width = "Some 8" and d = bundle0
      and rt = rt0 and img = img0 and color = default_color and m = 3] bundle0_has
  by (simp add: truthy_def)

end
